theory Spec2Isabelle
  imports Main "HOL-Library.Sorting_Algorithms" "HOL-Library.List_Lexorder" "HOL-Library.Char_ord"
begin

section \<open>Data model (packages/core/src/types.ts)\<close>

text \<open>
  The manifests are the values accepted by the zod schemas of \<^verbatim>\<open>types.ts\<close>. Field
  names carry a prefix where two records share a name or where the name is a constant of
  HOL (\<^verbatim>\<open>id\<close>). An optional field is an \<open>option\<close>; a \<^verbatim>\<open>Record<string, string>\<close> is
  the list of its entries in the order of insertion.
\<close>

datatype QuestionType = QInput | QSelect | QPath

record Question =
  question_id :: string
  label :: string
  qtype :: QuestionType
  required :: bool
  options :: "string list option"
  default_answer :: "string option"
  validation :: "(string option \<times> string option) option"

record OutputTemplate =
  target :: string
  template :: string

record SkillManifest =
  skill_id :: string
  skill_name :: string
  description :: string
  skill_version :: string
  questions :: "Question list"
  skill_outputs :: "OutputTemplate list"
  agentsSnippetTemplate :: string
  activationRulesTemplate :: "string option"

record HarnessManifest =
  harness_id :: string
  harness_name :: string
  harness_version :: string
  harness_outputs :: "OutputTemplate list"

type_synonym SkillAnswerMap = "(string \<times> string) list"

record SelectedSkill =
  sel_id :: string
  sel_version :: string
  answers :: SkillAnswerMap

record SelectedHarness =
  selh_id :: string
  selh_version :: string

record Facts =
  packageManager :: "string option"
  tsconfigPaths :: "string list option"
  directories :: "string list option"

record ManagerState =
  st_version :: string
  createdAt :: string
  updatedAt :: string
  st_projectRoot :: string
  facts :: "Facts option"
  st_skills :: "SelectedSkill list"
  st_harnesses :: "SelectedHarness list"

record Registry =
  reg_skills :: "SkillManifest list"
  reg_harnesses :: "HarnessManifest list"

datatype error =
    IOError string
  | ZodError string string
  | TemplateError
  | SyntaxError
  | Cancelled

section \<open>JavaScript containers and strings\<close>

text \<open>
  A JavaScript \<^verbatim>\<open>Set<string>\<close> keeps its members in insertion order and ignores the
  insertion of a member it already has: a duplicate-free list, extended at the end.
\<close>

definition set_add :: "string \<Rightarrow> string list \<Rightarrow> string list" where
  "set_add x s = (if x \<in> set s then s else s @ [x])"

definition set_has :: "string list \<Rightarrow> string \<Rightarrow> bool" where
  "set_has s x = (x \<in> set s)"

text \<open>\<^verbatim>\<open>Array.prototype.join\<close> with a separator.\<close>

fun js_join :: "string \<Rightarrow> string list \<Rightarrow> string" where
  "js_join sep [] = []"
| "js_join sep [x] = x"
| "js_join sep (x # y # ys) = x @ sep @ js_join sep (y # ys)"

definition newline :: string where
  "newline = [CHR 0x0A]"

section \<open>POSIX paths (node:path)\<close>

text \<open>
  The functions of Node's \<^verbatim>\<open>path\<close> module the program calls, in their POSIX form.
  \<^verbatim>\<open>normalizeString\<close> walks the segments between slashes: an empty segment and
  \<^verbatim>\<open>.\<close> are dropped, \<^verbatim>\<open>..\<close> removes the segment before it (or is kept, when
  the path is relative and there is nothing left to remove), any other segment is kept.
\<close>

fun split_sep :: "string \<Rightarrow> string list" where
  "split_sep [] = [[]]"
| "split_sep (c # cs) =
     (if c = CHR ''/'' then [] # split_sep cs
      else (case split_sep cs of [] \<Rightarrow> [[c]] | s # ss \<Rightarrow> (c # s) # ss))"

definition norm_step :: "bool \<Rightarrow> string list \<Rightarrow> string \<Rightarrow> string list" where
  "norm_step allowAboveRoot res seg =
     (if seg = [] \<or> seg = ''.'' then res
      else if seg = ''..'' then
        (if res \<noteq> [] \<and> last res \<noteq> ''..'' then butlast res
         else if allowAboveRoot then res @ [''..'']
         else res)
      else res @ [seg])"

definition normalizeString :: "string \<Rightarrow> bool \<Rightarrow> string" where
  "normalizeString path allowAboveRoot =
     js_join ''/'' (foldl (norm_step allowAboveRoot) [] (split_sep path))"

definition isAbsolute :: "string \<Rightarrow> bool" where
  "isAbsolute path = (case path of [] \<Rightarrow> False | c # _ \<Rightarrow> c = CHR ''/'')"

definition normalize :: "string \<Rightarrow> string" where
  "normalize path =
     (if path = [] then ''.''
      else
        (let trailingSeparator = (last path = CHR ''/'');
             p = normalizeString path (\<not> isAbsolute path)
         in if p = [] then
              (if isAbsolute path then ''/'' else if trailingSeparator then ''./'' else ''.'')
            else
              (let p' = (if trailingSeparator then p @ ''/'' else p)
               in if isAbsolute path then CHR ''/'' # p' else p')))"

definition path_join :: "string list \<Rightarrow> string" where
  "path_join args =
     (case filter (\<lambda>arg. arg \<noteq> []) args of
        [] \<Rightarrow> ''.''
      | joined \<Rightarrow> normalize (js_join ''/'' joined))"

text \<open>\<^verbatim>\<open>path.parse(p).root\<close>: the slash of an absolute path, empty otherwise.\<close>

definition parse_root :: "string \<Rightarrow> string" where
  "parse_root path = (if isAbsolute path then ''/'' else [])"

text \<open>\<^verbatim>\<open>path.basename\<close>: the last segment, trailing slashes ignored.\<close>

definition basename :: "string \<Rightarrow> string" where
  "basename path =
     (case filter (\<lambda>seg. seg \<noteq> []) (split_sep path) of [] \<Rightarrow> [] | segs \<Rightarrow> last segs)"

section \<open>The file system\<close>

text \<open>
  The file system is a map from paths to the contents of regular files, and a log of the
  calls that change it (\<^verbatim>\<open>fs.writeFile\<close>, \<^verbatim>\<open>fs.rm\<close>) in the order they are
  issued. Directories are not files of the map: \<^verbatim>\<open>ensureDir\<close> changes nothing here.
  Reading a path that is not in the map fails, as \<^verbatim>\<open>fs.readFile\<close> does (ENOENT);
  permission and device failures are outside the model.
\<close>

datatype fs_event = WriteFile string string | RmFile string

record world =
  files :: "string \<rightharpoonup> string"
  events :: "fs_event list"

definition fs_writeFile :: "world \<Rightarrow> string \<Rightarrow> string \<Rightarrow> world" where
  "fs_writeFile w p contents =
     w\<lparr>files := (files w)(p \<mapsto> contents), events := events w @ [WriteFile p contents]\<rparr>"

text \<open>\<^verbatim>\<open>fs.rm(p, { force: true })\<close>: a missing path is not an error.\<close>

definition fs_rm :: "world \<Rightarrow> string \<Rightarrow> world" where
  "fs_rm w p = w\<lparr>files := (files w)(p := None), events := events w @ [RmFile p]\<rparr>"

fun removed_paths :: "fs_event list \<Rightarrow> string list" where
  "removed_paths [] = []"
| "removed_paths (RmFile p # es) = p # removed_paths es"
| "removed_paths (WriteFile p c # es) = removed_paths es"


section \<open>File utilities (packages/core/src/fs-utils.ts)\<close>

record BackupOptions =
  enabled :: bool
  backupRoot :: "string option"

definition resolveBackupPath :: "string \<Rightarrow> string \<Rightarrow> string" where
  "resolveBackupPath targetPath backupRoot' =
     (let relative = (if isAbsolute targetPath
                      then drop (length (parse_root targetPath)) targetPath
                      else targetPath)
      in path_join [backupRoot', relative])"

definition pathExists :: "world \<Rightarrow> string \<Rightarrow> bool" where
  "pathExists w p = (files w p \<noteq> None)"

text \<open>
  \<^verbatim>\<open>backup.enabled && backup.backupRoot\<close>: the root must be present and, being a
  string tested for truth, not empty.
\<close>

definition writeFileAlways :: "world \<Rightarrow> string \<Rightarrow> string \<Rightarrow> BackupOptions \<Rightarrow> world" where
  "writeFileAlways w targetPath contents backup =
     (let w1 =
        (case (files w targetPath, backupRoot backup) of
           (Some existing, Some root) \<Rightarrow>
             if enabled backup \<and> root \<noteq> []
             then fs_writeFile w (resolveBackupPath targetPath root) existing
             else w
         | _ \<Rightarrow> w)
      in fs_writeFile w1 targetPath contents)"

definition backupExistingFile :: "world \<Rightarrow> string \<Rightarrow> BackupOptions \<Rightarrow> world" where
  "backupExistingFile w targetPath backup =
     (case backupRoot backup of
        None \<Rightarrow> w
      | Some root \<Rightarrow>
          if \<not> enabled backup \<or> root = [] then w
          else (case files w targetPath of
                  None \<Rightarrow> w
                | Some existing \<Rightarrow> fs_writeFile w (resolveBackupPath targetPath root) existing))"

text \<open>
  \<^verbatim>\<open>JSON.stringify(data, null, 2)\<close> is a parameter \<open>stringify\<close> of the functions that
  write the state.
\<close>

definition writeJsonFile ::
  "('a \<Rightarrow> string) \<Rightarrow> world \<Rightarrow> string \<Rightarrow> 'a \<Rightarrow> BackupOptions \<Rightarrow> world" where
  "writeJsonFile stringify w targetPath data backup =
     writeFileAlways w targetPath (stringify data @ newline) backup"

section \<open>Template rendering (packages/core/src/renderer.ts)\<close>

record AgentsTemplateContext =
  projectName :: string
  harnessNotes :: string
  planSection :: string
  skillIndexTable :: string
  skillGuides :: string
  activationRules :: string

text \<open>The four shapes of context object the program hands to a template.\<close>

datatype TemplateContext =
    SkillContext SkillManifest SkillAnswerMap
  | HarnessContext HarnessManifest
  | ContentContext string
  | AgentsContext AgentsTemplateContext

text \<open>
  \<^verbatim>\<open>Handlebars.compile(raw, { noEscape: true })(context)\<close> is the parameter \<open>hb\<close>: from
  the template text and the context to the rendered text, or a template error.
\<close>

type_synonym handlebars = "string \<Rightarrow> TemplateContext \<Rightarrow> error + string"

definition renderTemplateFile ::
  "handlebars \<Rightarrow> (string \<rightharpoonup> string) \<Rightarrow> string \<Rightarrow> TemplateContext \<Rightarrow> error + string" where
  "renderTemplateFile hb fs templatePath context =
     (case fs templatePath of
        None \<Rightarrow> Inl (IOError templatePath)
      | Some raw \<Rightarrow> hb raw context)"

text \<open>
  An operation that can fail after it has changed the file system returns the outcome
  and the world it leaves: what was written before the failure stays written.
\<close>

definition writeRenderedOutput ::
  "handlebars \<Rightarrow> world \<Rightarrow> string \<Rightarrow> OutputTemplate \<Rightarrow> string \<Rightarrow> TemplateContext
     \<Rightarrow> BackupOptions \<Rightarrow> (error + string) \<times> world" where
  "writeRenderedOutput hb w projectRoot output templateRoot context backup =
     (let templatePath = path_join [templateRoot, template output];
          targetPath = path_join [projectRoot, target output]
      in case renderTemplateFile hb (files w) templatePath context of
           Inl e \<Rightarrow> (Inl e, w)
         | Inr contents \<Rightarrow> (Inr targetPath, writeFileAlways w targetPath contents backup))"

section \<open>Document assembly (packages/core/src/agents.ts)\<close>

record AgentsAssemblyInput =
  in_projectName :: string
  in_harnesses :: "string list"
  in_skills :: "SkillManifest list"
  selectedSkillIds :: "string list"
  skillAnswers :: "string \<rightharpoonup> SkillAnswerMap"
  registryRoot :: string

text \<open>
  \<^verbatim>\<open>Promise.all\<close> over a mapped array: the results in the order of the array, or a
  failure. The renders only read, so their interleaving cannot be observed; of several
  failures the model reports the first in array order.
\<close>

fun map_result :: "('a \<Rightarrow> error + 'b) \<Rightarrow> 'a list \<Rightarrow> error + 'b list" where
  "map_result f [] = Inr []"
| "map_result f (x # xs) =
     (case f x of
        Inl e \<Rightarrow> Inl e
      | Inr y \<Rightarrow> (case map_result f xs of Inl e \<Rightarrow> Inl e | Inr ys \<Rightarrow> Inr (y # ys)))"

definition buildSkillIndexTable :: "SkillManifest list \<Rightarrow> string" where
  "buildSkillIndexTable skills =
     (if length skills = 0 then ''No skills selected.''
      else js_join newline
             ([''| Id | Name | Description |'', ''| --- | --- | --- |'']
              @ map (\<lambda>skill. ''| '' @ skill_id skill @ '' | '' @ skill_name skill @ '' | ''
                               @ description skill @ '' |'') skills))"

definition selectedSkills_of :: "AgentsAssemblyInput \<Rightarrow> SkillManifest list" where
  "selectedSkills_of input =
     filter (\<lambda>skill. skill_id skill \<in> set (selectedSkillIds input)) (in_skills input)"

definition guideSkills_of :: "AgentsAssemblyInput \<Rightarrow> SkillManifest list" where
  "guideSkills_of input = filter (\<lambda>skill. skill_id skill \<noteq> ''planner'') (selectedSkills_of input)"

text \<open>
  \<^verbatim>\<open>input.skillAnswers[skill.id] ?? {}\<close>, the answers being own entries of the object: a
  skill id that names an inherited property of a JavaScript object, such as
  \<^verbatim>\<open>constructor\<close>, is outside the model.
\<close>

definition answers_for :: "AgentsAssemblyInput \<Rightarrow> SkillManifest \<Rightarrow> SkillAnswerMap" where
  "answers_for input skill = (case skillAnswers input (skill_id skill) of None \<Rightarrow> [] | Some a \<Rightarrow> a)"

definition render_snippet ::
  "handlebars \<Rightarrow> (string \<rightharpoonup> string) \<Rightarrow> AgentsAssemblyInput \<Rightarrow> SkillManifest \<Rightarrow> error + string" where
  "render_snippet hb fs input skill =
     renderTemplateFile hb fs
       (path_join [registryRoot input, ''skills'', skill_id skill, agentsSnippetTemplate skill])
       (SkillContext skill (answers_for input skill))"

definition has_activationRules :: "SkillManifest \<Rightarrow> bool" where
  "has_activationRules skill =
     (case activationRulesTemplate skill of None \<Rightarrow> False | Some t \<Rightarrow> t \<noteq> [])"

definition render_activationRules ::
  "handlebars \<Rightarrow> (string \<rightharpoonup> string) \<Rightarrow> AgentsAssemblyInput \<Rightarrow> SkillManifest \<Rightarrow> error + string" where
  "render_activationRules hb fs input skill =
     renderTemplateFile hb fs
       (path_join [registryRoot input, ''skills'', skill_id skill,
                   (case activationRulesTemplate skill of None \<Rightarrow> [] | Some t \<Rightarrow> t)])
       (SkillContext skill (answers_for input skill))"

definition render_planSection ::
  "handlebars \<Rightarrow> (string \<rightharpoonup> string) \<Rightarrow> AgentsAssemblyInput \<Rightarrow> error + string" where
  "render_planSection hb fs input =
     (case List.find (\<lambda>skill. skill_id skill = ''planner'') (selectedSkills_of input) of
        None \<Rightarrow> Inr []
      | Some plannerSkill \<Rightarrow>
          renderTemplateFile hb fs
            (path_join [registryRoot input, ''skills'', skill_id plannerSkill,
                        agentsSnippetTemplate plannerSkill])
            (SkillContext plannerSkill []))"

definition harnessNotes_of :: "string list \<Rightarrow> string" where
  "harnessNotes_of harnesses =
     (if length harnesses \<noteq> 0
      then js_join newline (map (\<lambda>harness. ''- '' @ harness) harnesses)
      else ''- None'')"

text \<open>The \<^verbatim>\<open>templateContext\<close> object of \<^verbatim>\<open>buildAgentsMarkdown\<close>.\<close>

definition buildTemplateContext ::
  "handlebars \<Rightarrow> (string \<rightharpoonup> string) \<Rightarrow> AgentsAssemblyInput \<Rightarrow> error + AgentsTemplateContext" where
  "buildTemplateContext hb fs input =
     (case map_result (render_snippet hb fs input) (guideSkills_of input) of
        Inl e \<Rightarrow> Inl e
      | Inr snippets \<Rightarrow>
     (case map_result (render_activationRules hb fs input)
             (filter has_activationRules (selectedSkills_of input)) of
        Inl e \<Rightarrow> Inl e
      | Inr rules \<Rightarrow>
     (case render_planSection hb fs input of
        Inl e \<Rightarrow> Inl e
      | Inr plan \<Rightarrow>
          Inr \<lparr> projectName = in_projectName input,
                harnessNotes = harnessNotes_of (in_harnesses input),
                planSection = plan,
                skillIndexTable = buildSkillIndexTable (selectedSkills_of input),
                skillGuides = js_join (newline @ newline) snippets,
                activationRules = js_join (newline @ newline) rules \<rparr>)))"

definition buildAgentsMarkdown ::
  "handlebars \<Rightarrow> (string \<rightharpoonup> string) \<Rightarrow> AgentsAssemblyInput \<Rightarrow> error + string" where
  "buildAgentsMarkdown hb fs input =
     (case buildTemplateContext hb fs input of
        Inl e \<Rightarrow> Inl e
      | Inr templateContext \<Rightarrow>
          renderTemplateFile hb fs
            (path_join [registryRoot input, ''templates'', ''agents.base.md.hbs''])
            (AgentsContext templateContext))"

section \<open>Target-set computation (collectOutputTargets)\<close>

definition find_skill :: "SkillManifest list \<Rightarrow> string \<Rightarrow> SkillManifest option" where
  "find_skill skills sid = List.find (\<lambda>skill. skill_id skill = sid) skills"

definition find_harness :: "HarnessManifest list \<Rightarrow> string \<Rightarrow> HarnessManifest option" where
  "find_harness harnesses hid = List.find (\<lambda>harness. harness_id harness = hid) harnesses"

definition add_outputs :: "OutputTemplate list \<Rightarrow> string list \<Rightarrow> string list" where
  "add_outputs outs targets = foldl (\<lambda>t out. set_add (target out) t) targets outs"

definition collect_skill_step :: "SkillManifest list \<Rightarrow> string list \<Rightarrow> string \<Rightarrow> string list" where
  "collect_skill_step skills targets skillId =
     (case find_skill skills skillId of
        None \<Rightarrow> targets
      | Some manifest \<Rightarrow> add_outputs (skill_outputs manifest) targets)"

definition collect_harness_step ::
  "HarnessManifest list \<Rightarrow> string list \<Rightarrow> string \<Rightarrow> string list" where
  "collect_harness_step harnesses targets harnessId =
     (case find_harness harnesses harnessId of
        None \<Rightarrow> targets
      | Some manifest \<Rightarrow> add_outputs (harness_outputs manifest) targets)"

definition collectOutputTargets ::
  "SkillManifest list \<Rightarrow> HarnessManifest list \<Rightarrow> string list \<Rightarrow> string list \<Rightarrow> string list" where
  "collectOutputTargets skills harnesses skillIds harnessIds =
     set_add ''ai/ai-manager.json''
       (set_add ''ai/agents.md''
          (foldl (collect_harness_step harnesses)
             (foldl (collect_skill_step skills) [] skillIds)
             harnessIds))"

text \<open>
  The stale set of the remove branch:
  \<^verbatim>\<open>new Set(Array.from(previousTargets).filter((target) => !nextTargets.has(target)))\<close>.
\<close>

definition staleTargets :: "string list \<Rightarrow> string list \<Rightarrow> string list" where
  "staleTargets previousTargets nextTargets =
     foldl (\<lambda>s t. set_add t s) [] (filter (\<lambda>t. \<not> set_has nextTargets t) previousTargets)"

text \<open>The declared targets of the manifest a selected id resolves to (none when it resolves to nothing).\<close>

definition skill_targets :: "SkillManifest list \<Rightarrow> string \<Rightarrow> string set" where
  "skill_targets skills sid =
     (case find_skill skills sid of None \<Rightarrow> {} | Some m \<Rightarrow> target ` set (skill_outputs m))"

definition harness_targets :: "HarnessManifest list \<Rightarrow> string \<Rightarrow> string set" where
  "harness_targets harnesses hid =
     (case find_harness harnesses hid of None \<Rightarrow> {} | Some m \<Rightarrow> target ` set (harness_outputs m))"

section \<open>Registry loading (packages/core/src/registry.ts)\<close>

text \<open>
  What the registry directory holds is an input: for every subdirectory of
  \<^verbatim>\<open>skills\<close> (and of \<^verbatim>\<open>harnesses\<close>) the outcome of reading its manifest and
  parsing it with the schema, a manifest or the failure. \<^verbatim>\<open>localeCompare\<close> is a
  comparator on strings, a parameter; \<^verbatim>\<open>Array.prototype.sort\<close> is the stable sort
  by it.
\<close>

definition loadSkills ::
  "string comparator \<Rightarrow> (error + SkillManifest) list \<Rightarrow> error + SkillManifest list" where
  "loadSkills localeCompare entries =
     (case map_result (\<lambda>entry. entry) entries of
        Inl e \<Rightarrow> Inl e
      | Inr manifests \<Rightarrow> Inr (Sorting_Algorithms.sort (key skill_id localeCompare) manifests))"

definition loadHarnesses ::
  "string comparator \<Rightarrow> (error + HarnessManifest) list \<Rightarrow> error + HarnessManifest list" where
  "loadHarnesses localeCompare entries =
     (case map_result (\<lambda>entry. entry) entries of
        Inl e \<Rightarrow> Inl e
      | Inr manifests \<Rightarrow> Inr (Sorting_Algorithms.sort (key harness_id localeCompare) manifests))"

text \<open>The size of \<^verbatim>\<open>new Set(ids)\<close> is the number of different ids.\<close>

definition assertValidRegistryIds ::
  "SkillManifest list \<Rightarrow> HarnessManifest list \<Rightarrow> error + unit" where
  "assertValidRegistryIds skills harnesses =
     (let skillIds = remdups (map skill_id skills);
          harnessIds = remdups (map harness_id harnesses)
      in if length skillIds \<noteq> length skills
         then Inl (ZodError ''skills'' ''Duplicate skill ids'')
         else if length harnessIds \<noteq> length harnesses
         then Inl (ZodError ''harnesses'' ''Duplicate harness ids'')
         else Inr ())"

definition loadRegistry ::
  "string comparator \<Rightarrow> (error + SkillManifest) list \<Rightarrow> (error + HarnessManifest) list
     \<Rightarrow> error + Registry" where
  "loadRegistry localeCompare skillEntries harnessEntries =
     (case loadSkills localeCompare skillEntries of
        Inl e \<Rightarrow> Inl e
      | Inr skills \<Rightarrow>
     (case loadHarnesses localeCompare harnessEntries of
        Inl e \<Rightarrow> Inl e
      | Inr harnesses \<Rightarrow>
     (case assertValidRegistryIds skills harnesses of
        Inl e \<Rightarrow> Inl e
      | Inr _ \<Rightarrow> Inr \<lparr> reg_skills = skills, reg_harnesses = harnesses \<rparr>)))"

definition resolveSkillDir :: "string \<Rightarrow> string \<Rightarrow> string" where
  "resolveSkillDir registryRoot' skillId = path_join [registryRoot', ''skills'', skillId]"

definition resolveHarnessDir :: "string \<Rightarrow> string \<Rightarrow> string" where
  "resolveHarnessDir registryRoot' harnessId = path_join [registryRoot', ''harnesses'', harnessId]"

section \<open>The command-line program (packages/ai-manager)\<close>

text \<open>
  What the program takes from outside itself: the template engine, JSON printing and
  parsing of the state, the comparator of \<^verbatim>\<open>localeCompare\<close>, the contents of the
  registry directory, the facts \<^verbatim>\<open>scanProjectFacts\<close> finds, the user's replies to the
  prompts (\<open>None\<close> for a prompt the user cancels) and the two readings of the clock, one
  for the backup directory and one for the state.
\<close>

record externals =
  ext_hb :: handlebars
  ext_stringify :: "ManagerState \<Rightarrow> string"
  ext_parse :: "string \<Rightarrow> error + ManagerState"
  ext_localeCompare :: "string comparator"
  ext_skillEntries :: "(error + SkillManifest) list"
  ext_harnessEntries :: "(error + HarnessManifest) list"
  ext_facts :: "Facts option"
  ext_multiselect :: "string \<Rightarrow> string list \<Rightarrow> string list option"
  ext_ask :: "SkillManifest \<Rightarrow> Question \<Rightarrow> string option"
  ext_backupTime :: string
  ext_now :: string

datatype action = Add | Remove

definition CURRENT_VERSION :: string where
  "CURRENT_VERSION = ''0.1.0''"

definition statePath_of :: "string \<Rightarrow> string" where
  "statePath_of projectRoot = path_join [projectRoot, ''ai'', ''ai-manager.json'']"

definition agentsPath_of :: "string \<Rightarrow> string" where
  "agentsPath_of projectRoot = path_join [projectRoot, ''ai'', ''agents.md'']"

text \<open>
  \<^verbatim>\<open>findManagerState\<close>: without a state file there is no state; otherwise the file is
  parsed. The parser is a parameter that fails or yields a state: a state file whose JSON
  is not an object of the state's shape (for \<^verbatim>\<open>null\<close> the code reports a project that
  is not initialised) is outside the model.
\<close>

definition findManagerState ::
  "(string \<Rightarrow> error + ManagerState) \<Rightarrow> world \<Rightarrow> string \<Rightarrow> error + ManagerState option" where
  "findManagerState parse w projectRoot =
     (case files w (statePath_of projectRoot) of
        None \<Rightarrow> Inr None
      | Some raw \<Rightarrow> (case parse raw of Inl e \<Rightarrow> Inl e | Inr state \<Rightarrow> Inr (Some state)))"

definition isInited :: "world \<Rightarrow> string \<Rightarrow> bool" where
  "isInited w projectRoot =
     (pathExists w (agentsPath_of projectRoot) \<and> pathExists w (statePath_of projectRoot))"

definition removeStaleOutputs :: "world \<Rightarrow> string \<Rightarrow> string list \<Rightarrow> BackupOptions \<Rightarrow> world" where
  "removeStaleOutputs w projectRoot staleTargets' backup =
     foldl (\<lambda>w' target'.
              (let fullPath = path_join [projectRoot, target']
               in fs_rm (backupExistingFile w' fullPath backup) fullPath))
           w staleTargets'"

text \<open>\<^verbatim>\<open>new Date().toISOString().replace(/[:.]/g, "-")\<close>, the clock's string given.\<close>

definition backup_timestamp :: "string \<Rightarrow> string" where
  "backup_timestamp isoString =
     map (\<lambda>c. if c = CHR '':'' \<or> c = CHR ''.'' then CHR ''-'' else c) isoString"

definition buildBackupOptions :: "string \<Rightarrow> bool \<Rightarrow> string \<Rightarrow> BackupOptions" where
  "buildBackupOptions projectRoot enableBackup isoString =
     (if \<not> enableBackup then \<lparr> enabled = False, backupRoot = None \<rparr>
      else
        (let timestamp = backup_timestamp isoString
         in \<lparr> enabled = True,
              backupRoot = Some (path_join [projectRoot, ''ai'', ''.backups'', timestamp]) \<rparr>))"

text \<open>
  \<^verbatim>\<open>askSkillQuestions\<close>: one prompt per declared question, in order; a cancelled
  prompt throws. The default value shown in the prompt is part of the user's reply.
\<close>

text \<open>
  \<^verbatim>\<open>answers[key] = value\<close>: an entry with the key is replaced, a new one is appended.
  The keys are taken to be ordinary property names: a JavaScript object lists integer-like
  keys first and does not store the key \<^verbatim>\<open>__proto__\<close>.
\<close>

fun record_set :: "string \<Rightarrow> string \<Rightarrow> SkillAnswerMap \<Rightarrow> SkillAnswerMap" where
  "record_set k v [] = [(k, v)]"
| "record_set k v (entry # entries) =
     (if fst entry = k then (k, v) # entries else entry # record_set k v entries)"

fun ask_questions ::
  "(SkillManifest \<Rightarrow> Question \<Rightarrow> string option) \<Rightarrow> SkillManifest \<Rightarrow> Question list
     \<Rightarrow> SkillAnswerMap \<Rightarrow> error + SkillAnswerMap" where
  "ask_questions ask skill [] answers' = Inr answers'"
| "ask_questions ask skill (question # rest) answers' =
     (case ask skill question of
        None \<Rightarrow> Inl Cancelled
      | Some v \<Rightarrow> ask_questions ask skill rest (record_set (question_id question) v answers'))"

definition askSkillQuestions ::
  "(SkillManifest \<Rightarrow> Question \<Rightarrow> string option) \<Rightarrow> SkillManifest \<Rightarrow> error + SkillAnswerMap" where
  "askSkillQuestions ask skill = ask_questions ask skill (questions skill) []"

text \<open>\<^verbatim>\<open>Object.fromEntries\<close>: of two entries with one key the later one stays.\<close>

definition fromEntries :: "(string \<times> 'v) list \<Rightarrow> string \<rightharpoonup> 'v" where
  "fromEntries entries = map_of (rev entries)"

subsection \<open>renderAll\<close>

fun write_outputs ::
  "handlebars \<Rightarrow> string \<Rightarrow> string \<Rightarrow> TemplateContext \<Rightarrow> BackupOptions \<Rightarrow> OutputTemplate list
     \<Rightarrow> world \<Rightarrow> string list \<Rightarrow> (error + string list) \<times> world" where
  "write_outputs hb projectRoot templateRoot context backup [] w created = (Inr created, w)"
| "write_outputs hb projectRoot templateRoot context backup (output # rest) w created =
     (case writeRenderedOutput hb w projectRoot output templateRoot context backup of
        (Inl e, w') \<Rightarrow> (Inl e, w')
      | (Inr targetPath, w') \<Rightarrow>
          write_outputs hb projectRoot templateRoot context backup rest w' (created @ [targetPath]))"

fun render_skills ::
  "handlebars \<Rightarrow> string \<Rightarrow> string \<Rightarrow> SkillManifest list \<Rightarrow> BackupOptions \<Rightarrow> SelectedSkill list
     \<Rightarrow> world \<Rightarrow> string list \<Rightarrow> (error + string list) \<times> world" where
  "render_skills hb projectRoot registryRoot' skills backup [] w created = (Inr created, w)"
| "render_skills hb projectRoot registryRoot' skills backup (selected # rest) w created =
     (case find_skill skills (sel_id selected) of
        None \<Rightarrow> render_skills hb projectRoot registryRoot' skills backup rest w created
      | Some manifest \<Rightarrow>
          (case write_outputs hb projectRoot (resolveSkillDir registryRoot' (skill_id manifest))
                  (SkillContext manifest (answers selected)) backup (skill_outputs manifest)
                  w created of
             (Inl e, w') \<Rightarrow> (Inl e, w')
           | (Inr created', w') \<Rightarrow>
               render_skills hb projectRoot registryRoot' skills backup rest w' created'))"

fun render_harnesses ::
  "handlebars \<Rightarrow> string \<Rightarrow> string \<Rightarrow> HarnessManifest list \<Rightarrow> BackupOptions
     \<Rightarrow> SelectedHarness list \<Rightarrow> world \<Rightarrow> string list \<Rightarrow> (error + string list) \<times> world" where
  "render_harnesses hb projectRoot registryRoot' harnesses backup [] w created = (Inr created, w)"
| "render_harnesses hb projectRoot registryRoot' harnesses backup (selected # rest) w created =
     (case find_harness harnesses (selh_id selected) of
        None \<Rightarrow> render_harnesses hb projectRoot registryRoot' harnesses backup rest w created
      | Some manifest \<Rightarrow>
          (case write_outputs hb projectRoot (resolveHarnessDir registryRoot' (harness_id manifest))
                  (HarnessContext manifest) backup (harness_outputs manifest) w created of
             (Inl e, w') \<Rightarrow> (Inl e, w')
           | (Inr created', w') \<Rightarrow>
               render_harnesses hb projectRoot registryRoot' harnesses backup rest w' created'))"

definition agentsInput ::
  "string \<Rightarrow> string \<Rightarrow> SkillManifest list \<Rightarrow> SelectedSkill list \<Rightarrow> SelectedHarness list
     \<Rightarrow> AgentsAssemblyInput" where
  "agentsInput projectRoot registryRoot' skills selectedSkills selectedHarnesses =
     \<lparr> in_projectName = basename projectRoot,
       in_harnesses = map selh_id selectedHarnesses,
       in_skills = skills,
       selectedSkillIds = map sel_id selectedSkills,
       skillAnswers = fromEntries (map (\<lambda>skill. (sel_id skill, answers skill)) selectedSkills),
       registryRoot = registryRoot' \<rparr>"

definition agentsOutput :: OutputTemplate where
  "agentsOutput = \<lparr> target = ''ai/agents.md'', template = ''templates/agents.generated.md.hbs'' \<rparr>"

definition renderAll ::
  "handlebars \<Rightarrow> world \<Rightarrow> string \<Rightarrow> string \<Rightarrow> SkillManifest list \<Rightarrow> HarnessManifest list
     \<Rightarrow> SelectedSkill list \<Rightarrow> SelectedHarness list \<Rightarrow> BackupOptions
     \<Rightarrow> (error + string list) \<times> world" where
  "renderAll hb w projectRoot registryRoot' skills harnesses selectedSkills selectedHarnesses backup =
     (case buildAgentsMarkdown hb (files w)
             (agentsInput projectRoot registryRoot' skills selectedSkills selectedHarnesses) of
        Inl e \<Rightarrow> (Inl e, w)
      | Inr agentsContents \<Rightarrow>
     (case writeRenderedOutput hb w projectRoot agentsOutput registryRoot'
             (ContentContext agentsContents) backup of
        (Inl e, w1) \<Rightarrow> (Inl e, w1)
      | (Inr _, w1) \<Rightarrow>
     (case render_skills hb projectRoot registryRoot' skills backup selectedSkills w1
             [agentsPath_of projectRoot] of
        (Inl e, w2) \<Rightarrow> (Inl e, w2)
      | (Inr created, w2) \<Rightarrow>
          render_harnesses hb projectRoot registryRoot' harnesses backup selectedHarnesses
            w2 created)))"

definition writeState ::
  "(ManagerState \<Rightarrow> string) \<Rightarrow> world \<Rightarrow> string \<Rightarrow> ManagerState \<Rightarrow> BackupOptions \<Rightarrow> world" where
  "writeState stringify w projectRoot state backup =
     writeJsonFile stringify w (statePath_of projectRoot) state backup"

subsection \<open>runInit and the init command\<close>

text \<open>
  The loop that asks a skill's questions and appends the selected skill, skipping an id with
  no manifest. \<^verbatim>\<open>runInit\<close> starts it from the empty list, the add branch of
  \<^verbatim>\<open>runSkillsAddRemove\<close> from the skills of the state.
\<close>

fun add_skills ::
  "(SkillManifest \<Rightarrow> Question \<Rightarrow> string option) \<Rightarrow> SkillManifest list \<Rightarrow> string list
     \<Rightarrow> SelectedSkill list \<Rightarrow> error + SelectedSkill list" where
  "add_skills ask skills [] selectedSkills = Inr selectedSkills"
| "add_skills ask skills (skillId # rest) selectedSkills =
     (case find_skill skills skillId of
        None \<Rightarrow> add_skills ask skills rest selectedSkills
      | Some manifest \<Rightarrow>
          (case askSkillQuestions ask manifest of
             Inl e \<Rightarrow> Inl e
           | Inr answers' \<Rightarrow>
               add_skills ask skills rest
                 (selectedSkills @ [\<lparr> sel_id = skill_id manifest,
                                       sel_version = skill_version manifest,
                                       answers = answers' \<rparr>])))"

text \<open>\<^verbatim>\<open>registry.harnesses.find(...)?.version ?? "unknown"\<close> for each selected id.\<close>

definition harness_selection :: "HarnessManifest list \<Rightarrow> string list \<Rightarrow> SelectedHarness list" where
  "harness_selection harnesses ids =
     map (\<lambda>i. \<lparr> selh_id = i,
                selh_version = (case find_harness harnesses i of
                                  None \<Rightarrow> ''unknown''
                                | Some harness \<Rightarrow> harness_version harness) \<rparr>) ids"

definition prompt_values :: "externals \<Rightarrow> string \<Rightarrow> string list \<Rightarrow> string list" where
  "prompt_values ext message choices =
     (case ext_multiselect ext message choices of None \<Rightarrow> [] | Some values \<Rightarrow> values)"

definition load_registry :: "externals \<Rightarrow> error + Registry" where
  "load_registry ext =
     loadRegistry (ext_localeCompare ext) (ext_skillEntries ext) (ext_harnessEntries ext)"

definition runInit ::
  "externals \<Rightarrow> world \<Rightarrow> string \<Rightarrow> string \<Rightarrow> bool \<Rightarrow> (error + unit) \<times> world" where
  "runInit ext w projectRoot registryRoot' enableBackup =
     (case load_registry ext of
        Inl e \<Rightarrow> (Inl e, w)
      | Inr registry \<Rightarrow>
     (let selectedSkillIds' =
            prompt_values ext ''Select skills'' (map skill_id (reg_skills registry))
      in case add_skills (ext_ask ext) (reg_skills registry) selectedSkillIds' [] of
           Inl e \<Rightarrow> (Inl e, w)
         | Inr selectedSkills \<Rightarrow>
     (let selectedHarnessIds =
            prompt_values ext ''Select harnesses'' (map harness_id (reg_harnesses registry));
          backup = buildBackupOptions projectRoot enableBackup (ext_backupTime ext)
      in case renderAll (ext_hb ext) w projectRoot registryRoot' (reg_skills registry)
                (reg_harnesses registry) selectedSkills
                (harness_selection (reg_harnesses registry) selectedHarnessIds) backup of
           (Inl e, w1) \<Rightarrow> (Inl e, w1)
         | (Inr createdFiles, w1) \<Rightarrow>
             (let now = ext_now ext;
                  state = \<lparr> st_version = CURRENT_VERSION,
                            createdAt = now,
                            updatedAt = now,
                            st_projectRoot = projectRoot,
                            facts = ext_facts ext,
                            st_skills = selectedSkills,
                            st_harnesses =
                              harness_selection (reg_harnesses registry) selectedHarnessIds \<rparr>
              in (Inr (), writeState (ext_stringify ext) w1 projectRoot state backup)))))"

text \<open>The action of \<^verbatim>\<open>program.command("init")\<close>.\<close>

definition init_action ::
  "externals \<Rightarrow> world \<Rightarrow> string \<Rightarrow> string \<Rightarrow> bool \<Rightarrow> (error + unit) \<times> world" where
  "init_action ext w projectRoot registryRoot' enableBackup =
     (if isInited w projectRoot then (Inr (), w)
      else runInit ext w projectRoot registryRoot' enableBackup)"

subsection \<open>runSkillsAddRemove\<close>

definition skill_choices :: "Registry \<Rightarrow> ManagerState \<Rightarrow> action \<Rightarrow> SkillManifest list" where
  "skill_choices registry state act =
     filter (\<lambda>skill. case act of
                       Add \<Rightarrow> skill_id skill \<notin> set (map sel_id (st_skills state))
                     | Remove \<Rightarrow> skill_id skill \<in> set (map sel_id (st_skills state)))
            (reg_skills registry)"

text \<open>
  The part of \<^verbatim>\<open>runSkillsAddRemove\<close> after the prompt, once the user has selected at
  least one id.
\<close>

definition skills_apply ::
  "externals \<Rightarrow> world \<Rightarrow> string \<Rightarrow> string \<Rightarrow> action \<Rightarrow> bool \<Rightarrow> ManagerState \<Rightarrow> Registry
     \<Rightarrow> string list \<Rightarrow> (error + unit) \<times> world" where
  "skills_apply ext w projectRoot registryRoot' act enableBackup state registry selectedIds =
     (let previousTargets =
            collectOutputTargets (reg_skills registry) (reg_harnesses registry)
              (map sel_id (st_skills state)) (map selh_id (st_harnesses state))
      in case (case act of
                 Add \<Rightarrow> add_skills (ext_ask ext) (reg_skills registry) selectedIds (st_skills state)
               | Remove \<Rightarrow>
                   Inr (filter (\<lambda>skill. sel_id skill \<notin> set selectedIds) (st_skills state))) of
           Inl e \<Rightarrow> (Inl e, w)
         | Inr updatedSkills \<Rightarrow>
     (let backup = buildBackupOptions projectRoot enableBackup (ext_backupTime ext);
          w1 = (case act of
                  Add \<Rightarrow> w
                | Remove \<Rightarrow>
                    (let nextTargets =
                           collectOutputTargets (reg_skills registry) (reg_harnesses registry)
                             (map sel_id updatedSkills) (map selh_id (st_harnesses state))
                     in removeStaleOutputs w projectRoot
                          (staleTargets previousTargets nextTargets) backup))
      in case renderAll (ext_hb ext) w1 projectRoot registryRoot' (reg_skills registry)
                (reg_harnesses registry) updatedSkills (st_harnesses state) backup of
           (Inl e, w2) \<Rightarrow> (Inl e, w2)
         | (Inr createdFiles, w2) \<Rightarrow>
             (Inr (), writeState (ext_stringify ext) w2 projectRoot
                        (state\<lparr>updatedAt := ext_now ext, st_skills := updatedSkills\<rparr>) backup)))"

definition runSkillsAddRemove ::
  "externals \<Rightarrow> world \<Rightarrow> string \<Rightarrow> string \<Rightarrow> action \<Rightarrow> bool \<Rightarrow> (error + unit) \<times> world" where
  "runSkillsAddRemove ext w projectRoot registryRoot' act enableBackup =
     (case findManagerState (ext_parse ext) w projectRoot of
        Inl e \<Rightarrow> (Inl e, w)
      | Inr None \<Rightarrow> (Inr (), w)
      | Inr (Some state) \<Rightarrow>
     (case load_registry ext of
        Inl e \<Rightarrow> (Inl e, w)
      | Inr registry \<Rightarrow>
     (let choices = skill_choices registry state act
      in if length choices = 0 then (Inr (), w)
         else
           (let selectedIds =
                  prompt_values ext (case act of Add \<Rightarrow> ''Add skills'' | Remove \<Rightarrow> ''Remove skills'')
                    (map skill_id choices)
            in if length selectedIds = 0 then (Inr (), w)
               else skills_apply ext w projectRoot registryRoot' act enableBackup state registry
                      selectedIds))))"

subsection \<open>runHarnessesAddRemove\<close>

definition harness_choices :: "Registry \<Rightarrow> ManagerState \<Rightarrow> action \<Rightarrow> HarnessManifest list" where
  "harness_choices registry state act =
     filter (\<lambda>harness. case act of
                         Add \<Rightarrow> harness_id harness \<notin> set (map selh_id (st_harnesses state))
                       | Remove \<Rightarrow> harness_id harness \<in> set (map selh_id (st_harnesses state)))
            (reg_harnesses registry)"

definition harnesses_apply ::
  "externals \<Rightarrow> world \<Rightarrow> string \<Rightarrow> string \<Rightarrow> action \<Rightarrow> bool \<Rightarrow> ManagerState \<Rightarrow> Registry
     \<Rightarrow> string list \<Rightarrow> (error + unit) \<times> world" where
  "harnesses_apply ext w projectRoot registryRoot' act enableBackup state registry selectedIds =
     (let previousTargets =
            collectOutputTargets (reg_skills registry) (reg_harnesses registry)
              (map sel_id (st_skills state)) (map selh_id (st_harnesses state));
          updatedHarnesses =
            (case act of
               Add \<Rightarrow> st_harnesses state @ harness_selection (reg_harnesses registry) selectedIds
             | Remove \<Rightarrow>
                 filter (\<lambda>harness. selh_id harness \<notin> set selectedIds) (st_harnesses state));
          backup = buildBackupOptions projectRoot enableBackup (ext_backupTime ext);
          w1 = (case act of
                  Add \<Rightarrow> w
                | Remove \<Rightarrow>
                    (let nextTargets =
                           collectOutputTargets (reg_skills registry) (reg_harnesses registry)
                             (map sel_id (st_skills state)) (map selh_id updatedHarnesses)
                     in removeStaleOutputs w projectRoot
                          (staleTargets previousTargets nextTargets) backup))
      in case renderAll (ext_hb ext) w1 projectRoot registryRoot' (reg_skills registry)
                (reg_harnesses registry) (st_skills state) updatedHarnesses backup of
           (Inl e, w2) \<Rightarrow> (Inl e, w2)
         | (Inr createdFiles, w2) \<Rightarrow>
             (Inr (), writeState (ext_stringify ext) w2 projectRoot
                        (state\<lparr>updatedAt := ext_now ext, st_harnesses := updatedHarnesses\<rparr>)
                        backup))"

definition runHarnessesAddRemove ::
  "externals \<Rightarrow> world \<Rightarrow> string \<Rightarrow> string \<Rightarrow> action \<Rightarrow> bool \<Rightarrow> (error + unit) \<times> world" where
  "runHarnessesAddRemove ext w projectRoot registryRoot' act enableBackup =
     (case findManagerState (ext_parse ext) w projectRoot of
        Inl e \<Rightarrow> (Inl e, w)
      | Inr None \<Rightarrow> (Inr (), w)
      | Inr (Some state) \<Rightarrow>
     (case load_registry ext of
        Inl e \<Rightarrow> (Inl e, w)
      | Inr registry \<Rightarrow>
     (let choices = harness_choices registry state act
      in if length choices = 0 then (Inr (), w)
         else
           (let selectedIds =
                  prompt_values ext
                    (case act of Add \<Rightarrow> ''Add harnesses'' | Remove \<Rightarrow> ''Remove harnesses'')
                    (map harness_id choices)
            in if length selectedIds = 0 then (Inr (), w)
               else harnesses_apply ext w projectRoot registryRoot' act enableBackup state
                      registry selectedIds))))"

text \<open>The target set of a selection, as \<^verbatim>\<open>runSkillsAddRemove\<close> and
  \<^verbatim>\<open>runHarnessesAddRemove\<close> compute it from the ids of the selected skills and harnesses.\<close>

definition targetSet :: "Registry \<Rightarrow> SelectedSkill list \<Rightarrow> SelectedHarness list \<Rightarrow> string list" where
  "targetSet registry selectedSkills selectedHarnesses =
     collectOutputTargets (reg_skills registry) (reg_harnesses registry)
       (map sel_id selectedSkills) (map selh_id selectedHarnesses)"

section \<open>The writes of renderAll as one sequence\<close>

text \<open>
  For the proofs, the nested loops of \<^verbatim>\<open>renderAll\<close> are read as one list of jobs, one
  for each call of \<^verbatim>\<open>writeRenderedOutput\<close> in the order the loops make them: the
  output, the directory of its template and the context. The lemmas \<open>render_skills_jobs\<close>,
  \<open>render_harnesses_jobs\<close> and \<open>renderAll_jobs\<close> below show that running the list is what
  the loops do.
\<close>

type_synonym job = "OutputTemplate \<times> string \<times> TemplateContext"

fun run_jobs ::
  "handlebars \<Rightarrow> string \<Rightarrow> BackupOptions \<Rightarrow> job list \<Rightarrow> world \<Rightarrow> string list
     \<Rightarrow> (error + string list) \<times> world" where
  "run_jobs hb projectRoot backup [] w created = (Inr created, w)"
| "run_jobs hb projectRoot backup ((output, templateRoot, context) # rest) w created =
     (case writeRenderedOutput hb w projectRoot output templateRoot context backup of
        (Inl e, w') \<Rightarrow> (Inl e, w')
      | (Inr targetPath, w') \<Rightarrow>
          run_jobs hb projectRoot backup rest w' (created @ [targetPath]))"

definition skill_jobs :: "string \<Rightarrow> SkillManifest list \<Rightarrow> SelectedSkill list \<Rightarrow> job list" where
  "skill_jobs registryRoot' skills selectedSkills =
     concat (map (\<lambda>selected.
                    case find_skill skills (sel_id selected) of
                      None \<Rightarrow> []
                    | Some manifest \<Rightarrow>
                        map (\<lambda>output. (output, resolveSkillDir registryRoot' (skill_id manifest),
                                        SkillContext manifest (answers selected)))
                            (skill_outputs manifest))
                 selectedSkills)"

definition harness_jobs :: "string \<Rightarrow> HarnessManifest list \<Rightarrow> SelectedHarness list \<Rightarrow> job list" where
  "harness_jobs registryRoot' harnesses selectedHarnesses =
     concat (map (\<lambda>selected.
                    case find_harness harnesses (selh_id selected) of
                      None \<Rightarrow> []
                    | Some manifest \<Rightarrow>
                        map (\<lambda>output. (output, resolveHarnessDir registryRoot' (harness_id manifest),
                                        HarnessContext manifest))
                            (harness_outputs manifest))
                 selectedHarnesses)"

section \<open>Reconciliation: renderAll and the state write\<close>

text \<open>
  The steps with which \<^verbatim>\<open>runInit\<close>, \<^verbatim>\<open>runSkillsAddRemove\<close> and
  \<^verbatim>\<open>runHarnessesAddRemove\<close> end: render everything for the selection of the new state,
  then write the new state with \<^verbatim>\<open>updatedAt\<close> set to the time of the run.
\<close>

definition reconcile ::
  "handlebars \<Rightarrow> (ManagerState \<Rightarrow> string) \<Rightarrow> world \<Rightarrow> string \<Rightarrow> string \<Rightarrow> Registry \<Rightarrow> ManagerState
     \<Rightarrow> BackupOptions \<Rightarrow> string \<Rightarrow> (error + string list) \<times> world" where
  "reconcile hb stringify w projectRoot registryRoot' registry state backup now =
     (case renderAll hb w projectRoot registryRoot' (reg_skills registry) (reg_harnesses registry)
             (st_skills state) (st_harnesses state) backup of
        (Inl e, w1) \<Rightarrow> (Inl e, w1)
      | (Inr createdFiles, w1) \<Rightarrow>
          (Inr createdFiles,
           writeState stringify w1 projectRoot (state\<lparr>updatedAt := now\<rparr>) backup))"

text \<open>The template a job reads and the file it writes.\<close>

definition job_template :: "job \<Rightarrow> string" where
  "job_template j = (case j of (output, templateRoot, context) \<Rightarrow>
                       path_join [templateRoot, template output])"

definition job_target :: "string \<Rightarrow> job \<Rightarrow> string" where
  "job_target projectRoot j = (case j of (output, templateRoot, context) \<Rightarrow>
                                 path_join [projectRoot, target output])"

text \<open>Where a write to a path puts the backup copy, when it makes one.\<close>

definition backup_path_of :: "BackupOptions \<Rightarrow> string \<Rightarrow> string list" where
  "backup_path_of backup p =
     (case backupRoot backup of
        None \<Rightarrow> []
      | Some root \<Rightarrow> if enabled backup \<and> root \<noteq> [] then [resolveBackupPath p root] else [])"

text \<open>The templates \<^verbatim>\<open>buildAgentsMarkdown\<close> reads.\<close>

definition agents_templates :: "AgentsAssemblyInput \<Rightarrow> string list" where
  "agents_templates input =
     path_join [registryRoot input, ''templates'', ''agents.base.md.hbs'']
     # map (\<lambda>skill. path_join [registryRoot input, ''skills'', skill_id skill,
                                 agentsSnippetTemplate skill])
           (selectedSkills_of input)
     @ map (\<lambda>skill. path_join [registryRoot input, ''skills'', skill_id skill,
                                 (case activationRulesTemplate skill of None \<Rightarrow> [] | Some t \<Rightarrow> t)])
           (filter has_activationRules (selectedSkills_of input))"

text \<open>The templates a reconciliation reads and the files it writes, the state file last.\<close>

definition template_reads ::
  "string \<Rightarrow> string \<Rightarrow> Registry \<Rightarrow> ManagerState \<Rightarrow> string list" where
  "template_reads projectRoot registryRoot' registry state =
     agents_templates (agentsInput projectRoot registryRoot' (reg_skills registry)
                         (st_skills state) (st_harnesses state))
     @ path_join [registryRoot', template agentsOutput]
     # map job_template (skill_jobs registryRoot' (reg_skills registry) (st_skills state)
                         @ harness_jobs registryRoot' (reg_harnesses registry) (st_harnesses state))"

definition write_targets ::
  "string \<Rightarrow> string \<Rightarrow> Registry \<Rightarrow> ManagerState \<Rightarrow> string list" where
  "write_targets projectRoot registryRoot' registry state =
     agentsPath_of projectRoot
     # map (job_target projectRoot)
           (skill_jobs registryRoot' (reg_skills registry) (st_skills state)
            @ harness_jobs registryRoot' (reg_harnesses registry) (st_harnesses state))"

section \<open>A small registry and project\<close>

text \<open>
  Concrete inputs on which the theorems below are evaluated. The template engine of the
  example prints the template text followed by the fields of its context.
\<close>

definition ex_hb :: handlebars where
  "ex_hb raw context =
     Inr (raw @ (case context of
                   SkillContext skill ans \<Rightarrow> skill_id skill
                 | HarnessContext harness \<Rightarrow> harness_id harness
                 | ContentContext content \<Rightarrow> content
                 | AgentsContext c \<Rightarrow>
                     harnessNotes c @ planSection c @ skillIndexTable c @ skillGuides c
                     @ activationRules c))"

definition ex_backend :: SkillManifest where
  "ex_backend =
     \<lparr> skill_id = ''backend'', skill_name = ''Backend'', description = ''API'',
       skill_version = ''1.0.0'', questions = [],
       skill_outputs = [\<lparr> target = ''ai/skills/backend-skill.md'', template = ''skill.hbs'' \<rparr>],
       agentsSnippetTemplate = ''snippet.hbs'', activationRulesTemplate = None \<rparr>"

definition ex_frontend :: SkillManifest where
  "ex_frontend =
     \<lparr> skill_id = ''frontend-design'', skill_name = ''Frontend'', description = ''UI'',
       skill_version = ''1.0.0'',
       questions = [\<lparr> question_id = ''frontendDir'', label = ''Frontend directory'',
                      qtype = QPath, required = True, options = None,
                      default_answer = None, validation = None \<rparr>],
       skill_outputs = [\<lparr> target = ''ai/skills/frontend-design-skill.md'', template = ''skill.hbs'' \<rparr>],
       agentsSnippetTemplate = ''snippet.hbs'', activationRulesTemplate = None \<rparr>"

definition ex_cursor :: HarnessManifest where
  "ex_cursor =
     \<lparr> harness_id = ''cursor'', harness_name = ''Cursor'', harness_version = ''1.0.0'',
       harness_outputs = [\<lparr> target = ''.cursor/rules/ai-manager.mdc'', template = ''rules.hbs'' \<rparr>] \<rparr>"

definition ex_registry :: Registry where
  "ex_registry = \<lparr> reg_skills = [ex_backend, ex_frontend], reg_harnesses = [ex_cursor] \<rparr>"

text \<open>The templates of the registry, installed under \<^verbatim>\<open>/reg\<close>.\<close>

definition ex_templates :: "string \<rightharpoonup> string" where
  "ex_templates =
     [''/reg/templates/agents.base.md.hbs'' \<mapsto> ''B:'',
      ''/reg/templates/agents.generated.md.hbs'' \<mapsto> ''G:'',
      ''/reg/skills/backend/snippet.hbs'' \<mapsto> ''guide-'',
      ''/reg/skills/backend/skill.hbs'' \<mapsto> ''skill-'',
      ''/reg/skills/frontend-design/snippet.hbs'' \<mapsto> ''guide-'',
      ''/reg/skills/frontend-design/skill.hbs'' \<mapsto> ''skill-'',
      ''/reg/harnesses/cursor/rules.hbs'' \<mapsto> ''rules-'']"

definition ex_input :: "string list \<Rightarrow> string list \<Rightarrow> AgentsAssemblyInput" where
  "ex_input ids hs =
     \<lparr> in_projectName = ''proj'', in_harnesses = hs, in_skills = reg_skills ex_registry,
       selectedSkillIds = ids, skillAnswers = Map.empty, registryRoot = ''/reg'' \<rparr>"

text \<open>The comparator of the example: the lexicographic order of the characters.\<close>

definition ex_cmp :: "string comparator" where
  "ex_cmp = default"

text \<open>The JSON printer of the example prints the two dates and the selected ids.\<close>

definition ex_stringify :: "ManagerState \<Rightarrow> string" where
  "ex_stringify state =
     ''created='' @ createdAt state @ '' updated='' @ updatedAt state
     @ '' skills='' @ js_join '','' (map sel_id (st_skills state))
     @ '' harnesses='' @ js_join '','' (map selh_id (st_harnesses state))"

text \<open>
  The state of a project initialised with both skills and the harness, and the file
  system of that project: the templates of the registry and the files generated for the
  state.
\<close>

definition ex_state :: ManagerState where
  "ex_state =
     \<lparr> st_version = ''0.1.0'', createdAt = ''2025-12-31T00:00:00.000Z'',
       updatedAt = ''2025-12-31T00:00:00.000Z'', st_projectRoot = ''/proj'', facts = None,
       st_skills = [\<lparr> sel_id = ''backend'', sel_version = ''1.0.0'', answers = [] \<rparr>,
                    \<lparr> sel_id = ''frontend-design'', sel_version = ''1.0.0'',
                      answers = [(''frontendDir'', ''/web'')] \<rparr>],
       st_harnesses = [\<lparr> selh_id = ''cursor'', selh_version = ''1.0.0'' \<rparr>] \<rparr>"

definition ex_project :: "string \<rightharpoonup> string" where
  "ex_project =
     ex_templates
       (''/proj/ai/agents.md'' \<mapsto> ''old agents'',
        ''/proj/ai/ai-manager.json'' \<mapsto> ''old state'',
        ''/proj/ai/skills/backend-skill.md'' \<mapsto> ''old backend'',
        ''/proj/ai/skills/frontend-design-skill.md'' \<mapsto> ''old frontend'',
        ''/proj/.cursor/rules/ai-manager.mdc'' \<mapsto> ''old rules'')"

definition ex_world :: world where
  "ex_world = \<lparr> files = ex_project, events = [] \<rparr>"

text \<open>
  The user of the example selects the frontend skill and the harness at each prompt and
  answers \<^verbatim>\<open>/web\<close> to each question.
\<close>

definition ex_ext :: externals where
  "ex_ext =
     \<lparr> ext_hb = ex_hb,
       ext_stringify = ex_stringify,
       ext_parse = (\<lambda>raw. if raw = ''old state'' then Inr ex_state else Inl SyntaxError),
       ext_localeCompare = ex_cmp,
       ext_skillEntries = [Inr ex_frontend, Inr ex_backend],
       ext_harnessEntries = [Inr ex_cursor],
       ext_facts = None,
       ext_multiselect =
         (\<lambda>message choices.
            Some (filter (\<lambda>c. c = ''frontend-design'' \<or> c = ''cursor'') choices)),
       ext_ask = (\<lambda>skill question. Some ''/web''),
       ext_backupTime = ''2026-01-01T00:00:00.000Z'',
       ext_now = ''2026-01-01T00:00:01.000Z'' \<rparr>"

text \<open>The same project after \<^verbatim>\<open>ai/agents.md\<close> has been deleted by hand.\<close>

definition ex_partial :: world where
  "ex_partial = \<lparr> files = ex_project(''/proj/ai/agents.md'' := None), events = [] \<rparr>"

text \<open>
  A project whose state still selects a skill \<^verbatim>\<open>legacy\<close> that the registry no
  longer has, with the file once generated for it.
\<close>

definition ex_state_legacy :: ManagerState where
  "ex_state_legacy =
     ex_state\<lparr>st_skills :=
                st_skills ex_state
                @ [\<lparr> sel_id = ''legacy'', sel_version = ''0.9.0'', answers = [] \<rparr>]\<rparr>"

definition ex_world_legacy :: world where
  "ex_world_legacy =
     \<lparr> files = ex_project(''/proj/ai/skills/legacy-skill.md'' \<mapsto> ''old legacy''), events = [] \<rparr>"

text \<open>Two runs with backups, a minute apart.\<close>

definition ex_backup1 :: BackupOptions where
  "ex_backup1 = buildBackupOptions ''/proj'' True ''2026-01-01T00:00:00.000Z''"

definition ex_backup2 :: BackupOptions where
  "ex_backup2 = buildBackupOptions ''/proj'' True ''2026-01-01T00:01:00.000Z''"

definition ex_run1 :: "(error + string list) \<times> world" where
  "ex_run1 = reconcile ex_hb ex_stringify ex_world ''/proj'' ''/reg'' ex_registry ex_state
               ex_backup1 ''2026-01-01T00:00:01.000Z''"

definition ex_run2 :: "(error + string list) \<times> world" where
  "ex_run2 = reconcile ex_hb ex_stringify (snd ex_run1) ''/proj'' ''/reg'' ex_registry ex_state
               ex_backup2 ''2026-01-01T00:01:01.000Z''"

text \<open>
  A registry whose skill declares, before its usual output, a target inside the directory
  in which the run of 00:01:00 keeps its backups; the state that selects it; and two
  runs from a project that has the templates only.
\<close>

definition ex_clash_skill :: SkillManifest where
  "ex_clash_skill =
     \<lparr> skill_id = ''backend'', skill_name = ''Backend'', description = ''API'',
       skill_version = ''1.0.0'', questions = [],
       skill_outputs =
         [\<lparr> target = ''ai/.backups/2026-01-01T00-01-00-000Z/proj/ai/skills/backend-skill.md'',
             template = ''snippet.hbs'' \<rparr>,
          \<lparr> target = ''ai/skills/backend-skill.md'', template = ''skill.hbs'' \<rparr>],
       agentsSnippetTemplate = ''snippet.hbs'', activationRulesTemplate = None \<rparr>"

definition ex_clash_registry :: Registry where
  "ex_clash_registry = \<lparr> reg_skills = [ex_clash_skill], reg_harnesses = [] \<rparr>"

definition ex_clash_state :: ManagerState where
  "ex_clash_state =
     ex_state\<lparr>st_skills := [\<lparr> sel_id = ''backend'', sel_version = ''1.0.0'', answers = [] \<rparr>],
               st_harnesses := []\<rparr>"

definition ex_clash_run1 :: "(error + string list) \<times> world" where
  "ex_clash_run1 =
     reconcile ex_hb ex_stringify \<lparr> files = ex_templates, events = [] \<rparr> ''/proj'' ''/reg''
       ex_clash_registry ex_clash_state ex_backup1 ''2026-01-01T00:00:01.000Z''"

definition ex_clash_run2 :: "(error + string list) \<times> world" where
  "ex_clash_run2 =
     reconcile ex_hb ex_stringify (snd ex_clash_run1) ''/proj'' ''/reg''
       ex_clash_registry ex_clash_state ex_backup2 ''2026-01-01T00:01:01.000Z''"

text \<open>
  Two harnesses that declare the same target, \<^verbatim>\<open>AGENTS.md\<close>; the state that selects
  both; the project as a reconciliation with both manifests in the registry leaves it;
  and a later time at which the registry has lost the second harness and the user removes
  the first.
\<close>

definition ex_codex :: HarnessManifest where
  "ex_codex =
     \<lparr> harness_id = ''codex'', harness_name = ''Codex'', harness_version = ''1.0.0'',
       harness_outputs = [\<lparr> target = ''AGENTS.md'', template = ''agents.hbs'' \<rparr>] \<rparr>"

definition ex_opencode :: HarnessManifest where
  "ex_opencode =
     \<lparr> harness_id = ''opencode'', harness_name = ''OpenCode'', harness_version = ''1.0.0'',
       harness_outputs = [\<lparr> target = ''AGENTS.md'', template = ''agents.hbs'' \<rparr>] \<rparr>"

definition ex_shared_registry :: Registry where
  "ex_shared_registry = \<lparr> reg_skills = [], reg_harnesses = [ex_codex, ex_opencode] \<rparr>"

definition ex_shared_state :: ManagerState where
  "ex_shared_state =
     ex_state\<lparr>st_skills := [],
               st_harnesses := [\<lparr> selh_id = ''codex'', selh_version = ''1.0.0'' \<rparr>,
                                \<lparr> selh_id = ''opencode'', selh_version = ''1.0.0'' \<rparr>]\<rparr>"

definition ex_shared_run :: "(error + string list) \<times> world" where
  "ex_shared_run =
     reconcile ex_hb ex_stringify
       \<lparr> files = ex_templates(''/reg/harnesses/codex/agents.hbs'' \<mapsto> ''codex:'',
                               ''/reg/harnesses/opencode/agents.hbs'' \<mapsto> ''opencode:''),
         events = [] \<rparr>
       ''/proj'' ''/reg'' ex_shared_registry ex_shared_state
       (buildBackupOptions ''/proj'' False ''2025-12-31T00:00:00.000Z'')
       ''2025-12-31T00:00:00.000Z''"

definition ex_codex_ext :: externals where
  "ex_codex_ext =
     ex_ext\<lparr> ext_parse :=
                (\<lambda>raw. if raw = ex_stringify ex_shared_state @ newline
                       then Inr ex_shared_state else Inl SyntaxError),
              ext_skillEntries := [],
              ext_harnessEntries := [Inr ex_codex],
              ext_multiselect := (\<lambda>message choices. Some (filter (\<lambda>c. c = ''codex'') choices)) \<rparr>"

text \<open>The reader of the state file that reads the state of the project with the skill
  \<^verbatim>\<open>legacy\<close>.\<close>

definition ex_ext_legacy :: externals where
  "ex_ext_legacy =
     ex_ext\<lparr> ext_parse :=
                (\<lambda>raw. if raw = ''old state'' then Inr ex_state_legacy else Inl SyntaxError) \<rparr>"

section \<open>Properties of the target set\<close>

lemma set_set_add: "set (set_add x s) = insert x (set s)"
  by (auto simp: set_add_def)

lemma distinct_set_add: "distinct s \<Longrightarrow> distinct (set_add x s)"
  by (simp add: set_add_def)

lemma set_add_outputs: "set (add_outputs outs targets) = set targets \<union> target ` set outs"
  unfolding add_outputs_def
  by (induction outs arbitrary: targets) (auto simp: set_set_add)

lemma distinct_add_outputs: "distinct targets \<Longrightarrow> distinct (add_outputs outs targets)"
  unfolding add_outputs_def
  by (induction outs arbitrary: targets) (auto simp: distinct_set_add)

lemma set_collect_skills:
  "set (foldl (collect_skill_step skills) acc skillIds)
     = set acc \<union> (\<Union>sid \<in> set skillIds. skill_targets skills sid)"
  by (induction skillIds arbitrary: acc)
     (auto simp: collect_skill_step_def skill_targets_def set_add_outputs split: option.splits)

lemma set_collect_harnesses:
  "set (foldl (collect_harness_step harnesses) acc harnessIds)
     = set acc \<union> (\<Union>hid \<in> set harnessIds. harness_targets harnesses hid)"
  by (induction harnessIds arbitrary: acc)
     (auto simp: collect_harness_step_def harness_targets_def set_add_outputs split: option.splits)

lemma distinct_collect_skills:
  "distinct acc \<Longrightarrow> distinct (foldl (collect_skill_step skills) acc skillIds)"
  by (induction skillIds arbitrary: acc)
     (auto simp: collect_skill_step_def distinct_add_outputs split: option.splits)

lemma distinct_collect_harnesses:
  "distinct acc \<Longrightarrow> distinct (foldl (collect_harness_step harnesses) acc harnessIds)"
  by (induction harnessIds arbitrary: acc)
     (auto simp: collect_harness_step_def distinct_add_outputs split: option.splits)

lemma set_collectOutputTargets:
  "set (collectOutputTargets skills harnesses skillIds harnessIds)
     = (\<Union>sid \<in> set skillIds. skill_targets skills sid)
       \<union> (\<Union>hid \<in> set harnessIds. harness_targets harnesses hid)
       \<union> {''ai/agents.md'', ''ai/ai-manager.json''}"
  unfolding collectOutputTargets_def
  by (simp add: set_set_add set_collect_skills set_collect_harnesses) blast

lemma distinct_collectOutputTargets:
  "distinct (collectOutputTargets skills harnesses skillIds harnessIds)"
  unfolding collectOutputTargets_def
  by (intro distinct_set_add distinct_collect_harnesses distinct_collect_skills) simp

lemma set_foldl_set_add: "set (foldl (\<lambda>s t. set_add t s) acc xs) = set acc \<union> set xs"
  by (induction xs arbitrary: acc) (auto simp: set_set_add)

lemma set_staleTargets:
  "set (staleTargets previousTargets nextTargets) = set previousTargets - set nextTargets"
  by (auto simp: staleTargets_def set_foldl_set_add set_has_def)

text \<open>
  Claim C4. For every selection the target set, a set without repetitions, is the union
  of the declared targets of the manifests the selected skill and harness ids resolve to,
  together with \<^verbatim>\<open>ai/agents.md\<close> and \<^verbatim>\<open>ai/ai-manager.json\<close>; for the empty
  selection it is exactly these two paths; and neither path is a member of the stale set
  of a transition to any selection.
\<close>

theorem C4_target_set:
  "set (collectOutputTargets skills harnesses skillIds harnessIds)
     = (\<Union>sid \<in> set skillIds. skill_targets skills sid)
       \<union> (\<Union>hid \<in> set harnessIds. harness_targets harnesses hid)
       \<union> {''ai/agents.md'', ''ai/ai-manager.json''}
   \<and> distinct (collectOutputTargets skills harnesses skillIds harnessIds)
   \<and> collectOutputTargets skills harnesses [] [] = [''ai/agents.md'', ''ai/ai-manager.json'']
   \<and> ''ai/agents.md'' \<notin> set (staleTargets previousTargets
          (collectOutputTargets skills harnesses skillIds harnessIds))
   \<and> ''ai/ai-manager.json'' \<notin> set (staleTargets previousTargets
          (collectOutputTargets skills harnesses skillIds harnessIds))"
proof -
  have empty: "collectOutputTargets skills harnesses [] [] = [''ai/agents.md'', ''ai/ai-manager.json'']"
    by (simp add: collectOutputTargets_def set_add_def)
  have a: "''ai/agents.md'' \<in> set (collectOutputTargets skills harnesses skillIds harnessIds)"
    and b: "''ai/ai-manager.json'' \<in> set (collectOutputTargets skills harnesses skillIds harnessIds)"
    by (simp_all add: set_collectOutputTargets)
  show ?thesis
    using empty a b
    by (simp add: set_collectOutputTargets set_staleTargets distinct_collectOutputTargets)
qed

theorem C4_target_set_witness:
  "collectOutputTargets (reg_skills ex_registry) (reg_harnesses ex_registry)
     [''frontend-design'', ''backend'', ''frontend-design''] [''cursor'']
     = [''ai/skills/frontend-design-skill.md'', ''ai/skills/backend-skill.md'',
        ''.cursor/rules/ai-manager.mdc'', ''ai/agents.md'', ''ai/ai-manager.json'']
   \<and> collectOutputTargets (reg_skills ex_registry) (reg_harnesses ex_registry) [] []
       = [''ai/agents.md'', ''ai/ai-manager.json'']
   \<and> staleTargets
         (collectOutputTargets (reg_skills ex_registry) (reg_harnesses ex_registry)
            [''frontend-design'', ''backend''] [''cursor''])
         (collectOutputTargets (reg_skills ex_registry) (reg_harnesses ex_registry) [] [])
       = [''ai/skills/frontend-design-skill.md'', ''ai/skills/backend-skill.md'',
          ''.cursor/rules/ai-manager.mdc'']"
proof -
  have a: "collectOutputTargets (reg_skills ex_registry) (reg_harnesses ex_registry)
     [''frontend-design'', ''backend'', ''frontend-design''] [''cursor'']
     = [''ai/skills/frontend-design-skill.md'', ''ai/skills/backend-skill.md'',
        ''.cursor/rules/ai-manager.mdc'', ''ai/agents.md'', ''ai/ai-manager.json'']"
    by code_simp
  have c: "staleTargets
         (collectOutputTargets (reg_skills ex_registry) (reg_harnesses ex_registry)
            [''frontend-design'', ''backend''] [''cursor''])
         (collectOutputTargets (reg_skills ex_registry) (reg_harnesses ex_registry) [] [])
       = [''ai/skills/frontend-design-skill.md'', ''ai/skills/backend-skill.md'',
          ''.cursor/rules/ai-manager.mdc'']"
    by code_simp
  from C4_target_set [of "reg_skills ex_registry" "reg_harnesses ex_registry"]
  have b: "collectOutputTargets (reg_skills ex_registry) (reg_harnesses ex_registry) [] []
       = [''ai/agents.md'', ''ai/ai-manager.json'']"
    by blast
  show ?thesis using a b c by blast
qed

section \<open>Document assembly\<close>

lemma buildSkillIndexTable_placeholder:
  "buildSkillIndexTable skills = ''No skills selected.'' \<longleftrightarrow> skills = []"
proof (cases skills)
  case Nil
  then show ?thesis by (simp add: buildSkillIndexTable_def)
next
  case (Cons x xs)
  have "hd (buildSkillIndexTable skills) = CHR ''|''"
    by (simp add: buildSkillIndexTable_def Cons)
  then have "buildSkillIndexTable skills \<noteq> ''No skills selected.''"
    by auto
  then show ?thesis using Cons by simp
qed

lemma harnessNotes_of_None:
  "harnessNotes_of hs = ''- None'' \<longleftrightarrow> hs = [] \<or> hs = [''None'']"
proof (cases hs)
  case Nil
  then show ?thesis by (simp add: harnessNotes_of_def)
next
  case (Cons h rest)
  show ?thesis
  proof (cases rest)
    case Nil
    with Cons show ?thesis by (simp add: harnessNotes_of_def)
  next
    case (Cons h2 rest2)
    have "CHR 0x0A \<in> set (harnessNotes_of hs)"
      by (simp add: harnessNotes_of_def \<open>hs = h # rest\<close> Cons newline_def)
    moreover have "CHR 0x0A \<notin> set ''- None''" by simp
    ultimately have "harnessNotes_of hs \<noteq> ''- None''" by metis
    then show ?thesis using \<open>hs = h # rest\<close> Cons by simp
  qed
qed

lemma map_result_Inr: "map_result f xs = Inr ys \<longleftrightarrow> map f xs = map Inr ys"
proof (induction xs arbitrary: ys)
  case Nil
  then show ?case by auto
next
  case (Cons a xs)
  show ?case
  proof (cases "f a")
    case (Inl e)
    then show ?thesis by (cases ys) auto
  next
    case (Inr y)
    show ?thesis
    proof (cases "map_result f xs")
      case (Inl e)
      with Cons.IH have "\<And>zs. map f xs \<noteq> map Inr zs" by simp
      with Inl Inr show ?thesis by (cases ys) auto
    next
      case (Inr zs)
      with Cons.IH[of zs] have "map f xs = map Inr zs" by simp
      with Inr \<open>f a = Inr y\<close> show ?thesis by (cases ys) (auto simp: inj_map_eq_map)
    qed
  qed
qed

text \<open>
  Claim C8, as amended. Whenever the context of the agents document is built: the index
  table is the placeholder \<^verbatim>\<open>No skills selected.\<close> exactly when no manifest of the
  registry is selected; harnessNotes is the bullet list of the harness ids when there is a
  harness, and it is \<^verbatim>\<open>- None\<close> exactly when the harness list is empty or is the one
  id \<^verbatim>\<open>None\<close>; and skillGuides joins, with a blank line between them, the rendered
  snippets of the selected skills other than the planner in the order in which the input
  skill list holds them.
\<close>

theorem C8_document_shape:
  assumes "buildTemplateContext hb fs input = Inr ctx"
  shows "(skillIndexTable ctx = ''No skills selected.'' \<longleftrightarrow> selectedSkills_of input = [])
       \<and> (in_harnesses input \<noteq> [] \<longrightarrow>
            harnessNotes ctx
              = js_join newline (map (\<lambda>harness. ''- '' @ harness) (in_harnesses input)))
       \<and> (harnessNotes ctx = ''- None''
            \<longleftrightarrow> in_harnesses input = [] \<or> in_harnesses input = [''None''])
       \<and> (\<exists>snippets.
             map (render_snippet hb fs input)
               (filter (\<lambda>skill. skill_id skill \<noteq> ''planner'')
                  (filter (\<lambda>skill. skill_id skill \<in> set (selectedSkillIds input)) (in_skills input)))
               = map Inr snippets
             \<and> skillGuides ctx = js_join (newline @ newline) snippets)"
proof -
  from assms obtain snippets rules plan where
    sn: "map_result (render_snippet hb fs input) (guideSkills_of input) = Inr snippets"
    and ctx: "ctx = \<lparr> projectName = in_projectName input,
                harnessNotes = harnessNotes_of (in_harnesses input),
                planSection = plan,
                skillIndexTable = buildSkillIndexTable (selectedSkills_of input),
                skillGuides = js_join (newline @ newline) snippets,
                activationRules = js_join (newline @ newline) rules \<rparr>"
    by (auto simp: buildTemplateContext_def split: sum.splits)
  have 1: "skillIndexTable ctx = ''No skills selected.'' \<longleftrightarrow> selectedSkills_of input = []"
    by (simp add: ctx buildSkillIndexTable_placeholder)
  have 2: "in_harnesses input \<noteq> [] \<longrightarrow>
            harnessNotes ctx
              = js_join newline (map (\<lambda>harness. ''- '' @ harness) (in_harnesses input))"
    by (simp add: ctx harnessNotes_of_def del: append.simps)
  have 3: "harnessNotes ctx = ''- None''
            \<longleftrightarrow> in_harnesses input = [] \<or> in_harnesses input = [''None'']"
    by (simp add: ctx harnessNotes_of_None)
  have 4: "map (render_snippet hb fs input)
               (filter (\<lambda>skill. skill_id skill \<noteq> ''planner'')
                  (filter (\<lambda>skill. skill_id skill \<in> set (selectedSkillIds input)) (in_skills input)))
               = map Inr snippets"
    using sn by (simp add: map_result_Inr guideSkills_of_def selectedSkills_of_def)
  have 5: "skillGuides ctx = js_join (newline @ newline) snippets"
    by (simp add: ctx)
  show ?thesis using 1 2 3 4 5 by blast
qed

theorem C8_document_shape_witness:
  "buildTemplateContext ex_hb ex_templates (ex_input [''frontend-design'', ''backend''] [''cursor''])
     = Inr \<lparr> projectName = ''proj'', harnessNotes = ''- cursor'', planSection = [],
             skillIndexTable =
               js_join newline [''| Id | Name | Description |'', ''| --- | --- | --- |'',
                                ''| backend | Backend | API |'', ''| frontend-design | Frontend | UI |''],
             skillGuides = ''guide-backend'' @ newline @ newline @ ''guide-frontend-design'',
             activationRules = [] \<rparr>
   \<and> map skill_id (selectedSkills_of (ex_input [''frontend-design'', ''backend''] [''cursor'']))
       = [''backend'', ''frontend-design'']
   \<and> map (render_snippet ex_hb ex_templates (ex_input [''frontend-design'', ''backend''] [''cursor'']))
         (filter (\<lambda>skill. skill_id skill \<noteq> ''planner'')
            (filter (\<lambda>skill. skill_id skill \<in> set [''frontend-design'', ''backend''])
               [ex_backend, ex_frontend]))
       = [Inr ''guide-backend'', Inr ''guide-frontend-design'']"
proof -
  let ?input = "ex_input [''frontend-design'', ''backend''] [''cursor'']"
  let ?ctx = "\<lparr> projectName = ''proj'', harnessNotes = ''- cursor'', planSection = [],
             skillIndexTable =
               js_join newline [''| Id | Name | Description |'', ''| --- | --- | --- |'',
                                ''| backend | Backend | API |'', ''| frontend-design | Frontend | UI |''],
             skillGuides = ''guide-backend'' @ newline @ newline @ ''guide-frontend-design'',
             activationRules = [] \<rparr>"
  have h: "buildTemplateContext ex_hb ex_templates ?input = Inr ?ctx"
    by code_simp
  have sel: "map skill_id (selectedSkills_of ?input) = [''backend'', ''frontend-design'']"
    by code_simp
  have r: "map (render_snippet ex_hb ex_templates ?input)
         (filter (\<lambda>skill. skill_id skill \<noteq> ''planner'')
            (filter (\<lambda>skill. skill_id skill \<in> set [''frontend-design'', ''backend''])
               [ex_backend, ex_frontend]))
       = [Inr ''guide-backend'', Inr ''guide-frontend-design'']"
    by code_simp
  show ?thesis
    using C8_document_shape [OF h] h sel r by simp
qed

text \<open>
  The claim as stated fails for the harness list that holds the one id \<^verbatim>\<open>None\<close>:
  harnessNotes is \<^verbatim>\<open>- None\<close> and the list is not empty.
\<close>

theorem C8_harnessNotes_counterexample:
  "buildTemplateContext ex_hb ex_templates (ex_input [] [''None''])
     = Inr \<lparr> projectName = ''proj'', harnessNotes = ''- None'', planSection = [],
             skillIndexTable = ''No skills selected.'', skillGuides = [],
             activationRules = [] \<rparr>
   \<and> in_harnesses (ex_input [] [''None'']) \<noteq> []"
  by code_simp

section \<open>Backup location\<close>

lemma normalize_nonempty: "normalize p \<noteq> []"
  by (simp add: normalize_def Let_def)

lemma path_join_nonempty: "path_join args \<noteq> []"
  by (simp add: path_join_def normalize_nonempty split: list.splits)

lemma isAbsolute_normalize: "isAbsolute p \<Longrightarrow> isAbsolute (normalize p)"
  by (auto simp: normalize_def Let_def isAbsolute_def split: list.splits)

lemma isAbsolute_js_join: "isAbsolute x \<Longrightarrow> isAbsolute (js_join ''/'' (x # xs))"
  by (cases xs) (auto simp: isAbsolute_def split: list.splits)

lemma isAbsolute_path_join: "isAbsolute root \<Longrightarrow> isAbsolute (path_join (root # rest))"
proof -
  assume a: "isAbsolute root"
  then have "root \<noteq> []" by (auto simp: isAbsolute_def)
  then have "filter (\<lambda>arg. arg \<noteq> []) (root # rest) = root # filter (\<lambda>arg. arg \<noteq> []) rest"
    by simp
  then show ?thesis
    using a by (simp add: path_join_def isAbsolute_normalize isAbsolute_js_join)
qed

lemma resolveBackupPath_absolute:
  "isAbsolute targetPath \<Longrightarrow> resolveBackupPath targetPath root = path_join [root, drop 1 targetPath]"
  by (simp add: resolveBackupPath_def parse_root_def)

text \<open>
  Claim C2, as amended. For a project root that is an absolute path (the program resolves
  it), a target file that exists is copied, when it is backed up before a removal or an
  overwrite, to the backup root \<^verbatim>\<open>ai/.backups/<timestamp>\<close> of the project joined
  with the absolute path of the target file less its leading slash: the backup tree
  mirrors the absolute path of the file, not its path relative to the project root. The
  timestamp is the ISO string with colons and dots replaced by dashes.
\<close>

theorem C2_backup_location:
  assumes "isAbsolute projectRoot"
    and "files w (path_join [projectRoot, t]) = Some old"
  shows "events (backupExistingFile w (path_join [projectRoot, t])
                   (buildBackupOptions projectRoot True isoString))
           = events w @
             [WriteFile
                (path_join [path_join [projectRoot, ''ai'', ''.backups'', backup_timestamp isoString],
                            drop 1 (path_join [projectRoot, t])]) old]
       \<and> events (writeFileAlways w (path_join [projectRoot, t]) contents
                   (buildBackupOptions projectRoot True isoString))
           = events w @
             [WriteFile
                (path_join [path_join [projectRoot, ''ai'', ''.backups'', backup_timestamp isoString],
                            drop 1 (path_join [projectRoot, t])]) old,
              WriteFile (path_join [projectRoot, t]) contents]"
proof -
  have abs: "isAbsolute (path_join [projectRoot, t])"
    using assms(1) by (rule isAbsolute_path_join)
  have ne: "path_join [projectRoot, ''ai'', ''.backups'', backup_timestamp isoString] \<noteq> []"
    by (rule path_join_nonempty)
  show ?thesis
    using assms(2) ne
    by (simp add: backupExistingFile_def writeFileAlways_def buildBackupOptions_def
        fs_writeFile_def resolveBackupPath_absolute [OF abs])
qed


theorem C2_backup_location_witness:
  "isAbsolute ''/proj''
   \<and> events (backupExistingFile \<lparr> files = [''/proj/ai/agents.md'' \<mapsto> ''old''], events = [] \<rparr>
               (path_join [''/proj'', ''ai/agents.md''])
               (buildBackupOptions ''/proj'' True ''2026-01-01T00:00:00.000Z''))
       = [WriteFile ''/proj/ai/.backups/2026-01-01T00-00-00-000Z/proj/ai/agents.md'' ''old'']"
proof -
  have a: "isAbsolute ''/proj''" by code_simp
  have f: "files \<lparr> files = [''/proj/ai/agents.md'' \<mapsto> ''old''], events = [] \<rparr>
             (path_join [''/proj'', ''ai/agents.md'']) = Some ''old''"
    by code_simp
  have p: "path_join [path_join [''/proj'', ''ai'', ''.backups'',
                                 backup_timestamp ''2026-01-01T00:00:00.000Z''],
                      drop 1 (path_join [''/proj'', ''ai/agents.md''])]
           = ''/proj/ai/.backups/2026-01-01T00-00-00-000Z/proj/ai/agents.md''"
    by code_simp
  show ?thesis
    using C2_backup_location [OF a f, of "''2026-01-01T00:00:00.000Z''"] a p by simp
qed

text \<open>
  The claim as stated fails: for the project \<^verbatim>\<open>/proj\<close> the backup of
  \<^verbatim>\<open>ai/agents.md\<close> is not at the timestamped root joined with \<^verbatim>\<open>ai/agents.md\<close>.
\<close>

theorem C2_project_relative_counterexample:
  "events (writeFileAlways \<lparr> files = [''/proj/ai/agents.md'' \<mapsto> ''old''], events = [] \<rparr>
             (path_join [''/proj'', ''ai/agents.md'']) ''new''
             (buildBackupOptions ''/proj'' True ''2026-01-01T00:00:00.000Z''))
     = [WriteFile ''/proj/ai/.backups/2026-01-01T00-00-00-000Z/proj/ai/agents.md'' ''old'',
        WriteFile ''/proj/ai/agents.md'' ''new'']
   \<and> path_join [''/proj'', ''ai'', ''.backups'', backup_timestamp ''2026-01-01T00:00:00.000Z'',
                 ''ai/agents.md'']
       = ''/proj/ai/.backups/2026-01-01T00-00-00-000Z/ai/agents.md''
   \<and> ''/proj/ai/.backups/2026-01-01T00-00-00-000Z/proj/ai/agents.md''
       \<noteq> ''/proj/ai/.backups/2026-01-01T00-00-00-000Z/ai/agents.md''"
  by code_simp

section \<open>Backups\<close>

lemma files_fs_writeFile: "files (fs_writeFile w p c) = (files w)(p \<mapsto> c)"
  by (simp add: fs_writeFile_def)

lemma events_fs_writeFile: "events (fs_writeFile w p c) = events w @ [WriteFile p c]"
  by (simp add: fs_writeFile_def)

lemma removed_paths_append: "removed_paths (es @ fs) = removed_paths es @ removed_paths fs"
  by (induction es rule: removed_paths.induct) auto


lemma writeFileAlways_backup_then_write:
  "writeFileAlways w targetPath contents backup
     = fs_writeFile (backupExistingFile w targetPath backup) targetPath contents"
  by (auto simp: writeFileAlways_def backupExistingFile_def split: option.splits)






section \<open>Registry loading\<close>

lemma map_result_id_Inr: "map_result (\<lambda>entry. entry) entries = Inr xs \<longleftrightarrow> entries = map Inr xs"
  using map_result_Inr [of "\<lambda>entry. entry" entries xs] by simp

lemma length_remdups_distinct: "length (remdups xs) = length xs \<longleftrightarrow> distinct xs"
  by (metis length_remdups_eq remdups_id_iff_distinct)

lemma length_remdups_map_distinct:
  "length (remdups (map f xs)) = length xs \<longleftrightarrow> distinct (map f xs)"
  using length_remdups_distinct [of "map f xs"] by simp

text \<open>
  Claim C6. When the manifests of both directories load, the loaded lists are the
  manifests of the directories sorted by id. If two loaded skills share an id, or two
  loaded harnesses do, \<^verbatim>\<open>loadRegistry\<close> fails with the validation error and returns no
  registry; if the ids of both lists are unique it returns the two sorted lists.
\<close>

theorem C6_registry_uniqueness:
  assumes "loadSkills cmp skillEntries = Inr skills"
    and "loadHarnesses cmp harnessEntries = Inr harnesses"
  shows "(\<not> distinct (map skill_id skills) \<longrightarrow>
            loadRegistry cmp skillEntries harnessEntries
              = Inl (ZodError ''skills'' ''Duplicate skill ids''))
       \<and> (distinct (map skill_id skills) \<and> \<not> distinct (map harness_id harnesses) \<longrightarrow>
            loadRegistry cmp skillEntries harnessEntries
              = Inl (ZodError ''harnesses'' ''Duplicate harness ids''))
       \<and> (distinct (map skill_id skills) \<and> distinct (map harness_id harnesses) \<longrightarrow>
            loadRegistry cmp skillEntries harnessEntries
              = Inr \<lparr> reg_skills = skills, reg_harnesses = harnesses \<rparr>)
       \<and> Sorting_Algorithms.sorted (key skill_id cmp) skills
       \<and> Sorting_Algorithms.sorted (key harness_id cmp) harnesses
       \<and> mset (map Inr skills) = mset skillEntries
       \<and> mset (map Inr harnesses) = mset harnessEntries"
proof -
  from assms(1) obtain ms where ms: "skillEntries = map Inr ms"
    and s: "skills = Sorting_Algorithms.sort (key skill_id cmp) ms"
    by (auto simp: loadSkills_def map_result_id_Inr split: sum.splits)
  from assms(2) obtain hs where hs: "harnessEntries = map Inr hs"
    and h: "harnesses = Sorting_Algorithms.sort (key harness_id cmp) hs"
    by (auto simp: loadHarnesses_def map_result_id_Inr split: sum.splits)
  have sorted: "Sorting_Algorithms.sorted (key skill_id cmp) skills"
    "Sorting_Algorithms.sorted (key harness_id cmp) harnesses"
    by (simp_all add: s h)
  have perm: "mset (map Inr skills) = mset skillEntries"
    "mset (map Inr harnesses) = mset harnessEntries"
    by (simp_all add: s h ms hs)
  have reg: "loadRegistry cmp skillEntries harnessEntries =
      (if \<not> distinct (map skill_id skills) then Inl (ZodError ''skills'' ''Duplicate skill ids'')
       else if \<not> distinct (map harness_id harnesses)
       then Inl (ZodError ''harnesses'' ''Duplicate harness ids'')
       else Inr \<lparr> reg_skills = skills, reg_harnesses = harnesses \<rparr>)"
    using assms
    by (simp add: loadRegistry_def assertValidRegistryIds_def Let_def
        length_remdups_map_distinct)
  show ?thesis using sorted perm reg by simp
qed
theorem C6_registry_uniqueness_witness:
  "loadRegistry ex_cmp [Inr ex_frontend, Inr ex_backend, Inr ex_frontend] [Inr ex_cursor]
     = Inl (ZodError ''skills'' ''Duplicate skill ids'')
   \<and> loadRegistry ex_cmp [Inr ex_frontend, Inr ex_backend] [Inr ex_cursor]
       = Inr \<lparr> reg_skills = [ex_backend, ex_frontend], reg_harnesses = [ex_cursor] \<rparr>"
proof -
  have s1: "loadSkills ex_cmp [Inr ex_frontend, Inr ex_backend, Inr ex_frontend]
              = Inr [ex_backend, ex_frontend, ex_frontend]"
    by code_simp
  have s2: "loadSkills ex_cmp [Inr ex_frontend, Inr ex_backend] = Inr [ex_backend, ex_frontend]"
    by code_simp
  have h: "loadHarnesses ex_cmp [Inr ex_cursor] = Inr [ex_cursor]"
    by code_simp
  have d1: "\<not> distinct (map skill_id [ex_backend, ex_frontend, ex_frontend])"
    by simp
  have d2: "distinct (map skill_id [ex_backend, ex_frontend])
            \<and> distinct (map harness_id [ex_cursor])"
    by code_simp
  from C6_registry_uniqueness [OF s1 h] d1
  have a: "loadRegistry ex_cmp [Inr ex_frontend, Inr ex_backend, Inr ex_frontend] [Inr ex_cursor]
     = Inl (ZodError ''skills'' ''Duplicate skill ids'')"
    by blast
  from C6_registry_uniqueness [OF s2 h] d2
  have b: "loadRegistry ex_cmp [Inr ex_frontend, Inr ex_backend] [Inr ex_cursor]
       = Inr \<lparr> reg_skills = [ex_backend, ex_frontend], reg_harnesses = [ex_cursor] \<rparr>"
    by blast
  show ?thesis using a b by simp
qed

section \<open>renderAll as a sequence of writes\<close>

lemma run_jobs_append:
  "run_jobs hb root b (js @ ks) w created =
     (case run_jobs hb root b js w created of
        (Inl e, w') \<Rightarrow> (Inl e, w')
      | (Inr created', w') \<Rightarrow> run_jobs hb root b ks w' created')"
  by (induction js arbitrary: w created) (auto split: prod.splits sum.splits)

lemma write_outputs_jobs:
  "write_outputs hb root troot ctx b outs w created
     = run_jobs hb root b (map (\<lambda>output. (output, troot, ctx)) outs) w created"
  by (induction outs arbitrary: w created) (auto split: prod.splits sum.splits)

lemma render_skills_jobs:
  "render_skills hb root regRoot skills b selectedSkills w created
     = run_jobs hb root b (skill_jobs regRoot skills selectedSkills) w created"
proof (induction selectedSkills arbitrary: w created)
  case Nil
  then show ?case by (simp add: skill_jobs_def)
next
  case (Cons selected rest)
  have unfold: "skill_jobs regRoot skills (selected # rest)
    = (case find_skill skills (sel_id selected) of
         None \<Rightarrow> []
       | Some manifest \<Rightarrow>
           map (\<lambda>output. (output, resolveSkillDir regRoot (skill_id manifest),
                           SkillContext manifest (answers selected)))
               (skill_outputs manifest))
      @ skill_jobs regRoot skills rest"
    by (simp add: skill_jobs_def)
  show ?case
    unfolding unfold run_jobs_append
    by (simp add: Cons.IH write_outputs_jobs split: option.splits prod.splits sum.splits)
qed

lemma render_harnesses_jobs:
  "render_harnesses hb root regRoot harnesses b selectedHarnesses w created
     = run_jobs hb root b (harness_jobs regRoot harnesses selectedHarnesses) w created"
proof (induction selectedHarnesses arbitrary: w created)
  case Nil
  then show ?case by (simp add: harness_jobs_def)
next
  case (Cons selected rest)
  have unfold: "harness_jobs regRoot harnesses (selected # rest)
    = (case find_harness harnesses (selh_id selected) of
         None \<Rightarrow> []
       | Some manifest \<Rightarrow>
           map (\<lambda>output. (output, resolveHarnessDir regRoot (harness_id manifest),
                           HarnessContext manifest))
               (harness_outputs manifest))
      @ harness_jobs regRoot harnesses rest"
    by (simp add: harness_jobs_def)
  show ?case
    unfolding unfold run_jobs_append
    by (simp add: Cons.IH write_outputs_jobs split: option.splits prod.splits sum.splits)
qed

lemma agentsPath_of_eq: "agentsPath_of root = path_join [root, target agentsOutput]"
  by (cases "root = []") (simp_all add: agentsPath_of_def agentsOutput_def path_join_def)

lemma renderAll_jobs:
  "renderAll hb w root regRoot skills harnesses selectedSkills selectedHarnesses b =
     (case buildAgentsMarkdown hb (files w)
             (agentsInput root regRoot skills selectedSkills selectedHarnesses) of
        Inl e \<Rightarrow> (Inl e, w)
      | Inr agentsContents \<Rightarrow>
          run_jobs hb root b
            ((agentsOutput, regRoot, ContentContext agentsContents)
             # skill_jobs regRoot skills selectedSkills
             @ harness_jobs regRoot harnesses selectedHarnesses) w [])"
proof (cases "buildAgentsMarkdown hb (files w)
             (agentsInput root regRoot skills selectedSkills selectedHarnesses)")
  case (Inl e)
  then show ?thesis by (simp add: renderAll_def)
next
  case (Inr agentsContents)
  show ?thesis
  proof (cases "writeRenderedOutput hb w root agentsOutput regRoot (ContentContext agentsContents) b")
    case (Pair r w1)
    show ?thesis
    proof (cases r)
      case (Inl e)
      with Pair Inr show ?thesis by (simp add: renderAll_def)
    next
      case (Inr p)
      with Pair have "p = agentsPath_of root"
        by (auto simp: writeRenderedOutput_def Let_def agentsPath_of_eq split: sum.splits)
      with Pair Inr \<open>buildAgentsMarkdown hb (files w) _ = Inr agentsContents\<close>
      show ?thesis
        by (simp add: renderAll_def render_skills_jobs render_harnesses_jobs run_jobs_append
            split: prod.splits sum.splits)
    qed
  qed
qed

section \<open>The init command\<close>

lemma files_writeFileAlways_target:
  "files (writeFileAlways w targetPath contents backup) targetPath = Some contents"
  by (simp add: writeFileAlways_backup_then_write files_fs_writeFile)

lemma last_events_writeFileAlways:
  "last (events (writeFileAlways w targetPath contents backup)) = WriteFile targetPath contents"
  by (simp add: writeFileAlways_backup_then_write events_fs_writeFile)

lemma files_writeState:
  "files (writeState stringify w root state b) (statePath_of root)
     = Some (stringify state @ newline)"
  by (simp add: writeState_def writeJsonFile_def files_writeFileAlways_target)

lemma pathExists_writeFileAlways:
  "pathExists w p \<Longrightarrow> pathExists (writeFileAlways w q c b) p"
  by (auto simp: pathExists_def writeFileAlways_backup_then_write backupExistingFile_def
      files_fs_writeFile split: option.splits)

lemma pathExists_run_jobs:
  "pathExists w p \<Longrightarrow> pathExists (snd (run_jobs hb root b jobs w created)) p"
proof (induction jobs arbitrary: w created)
  case Nil
  then show ?case by simp
next
  case (Cons j jobs)
  obtain out troot ctx where j: "j = (out, troot, ctx)" by (cases j)
  show ?case
  proof (cases "writeRenderedOutput hb w root out troot ctx b")
    case (Pair r w')
    then have w': "pathExists w' p"
      using Cons.prems
      by (auto simp: writeRenderedOutput_def Let_def pathExists_writeFileAlways split: sum.splits)
    show ?thesis
      using Pair Cons.IH [OF w'] w' by (cases r) (simp_all add: j)
  qed
qed

lemma pathExists_renderAll_agents:
  assumes "renderAll hb w root regRoot skills harnesses S H b = (Inr created, w1)"
  shows "pathExists w1 (agentsPath_of root)"
proof -
  from assms obtain c where
    rj: "run_jobs hb root b
           ((agentsOutput, regRoot, ContentContext c) # skill_jobs regRoot skills S
            @ harness_jobs regRoot harnesses H) w [] = (Inr created, w1)"
    by (cases "buildAgentsMarkdown hb (files w) (agentsInput root regRoot skills S H)")
       (auto simp: renderAll_jobs simp del: run_jobs.simps)
  let ?jobs = "skill_jobs regRoot skills S @ harness_jobs regRoot harnesses H"
  obtain r wa where wr: "writeRenderedOutput hb w root agentsOutput regRoot (ContentContext c) b
                           = (r, wa)"
    by (cases "writeRenderedOutput hb w root agentsOutput regRoot (ContentContext c) b")
  with rj obtain p where r: "r = Inr p"
    and rest: "run_jobs hb root b ?jobs wa [p] = (Inr created, w1)"
    by (cases r) auto
  from wr r have "pathExists wa (agentsPath_of root)"
    by (auto simp: writeRenderedOutput_def Let_def pathExists_def agentsPath_of_eq
        files_writeFileAlways_target split: sum.splits)
  from pathExists_run_jobs [OF this, of hb root b ?jobs "[p]"] rest show ?thesis by simp
qed

lemma runInit_inited:
  assumes run: "runInit ext w projectRoot registryRoot' enableBackup = (Inr (), w')"
  shows "isInited w' projectRoot"
proof -
  from run obtain registry where r: "load_registry ext = Inr registry"
    by (cases "load_registry ext") (auto simp: runInit_def)
  let ?ask = "add_skills (ext_ask ext) (reg_skills registry)
                (prompt_values ext ''Select skills'' (map skill_id (reg_skills registry))) []"
  from run r obtain selectedSkills where a: "?ask = Inr selectedSkills"
    by (cases ?ask) (auto simp: runInit_def Let_def)
  let ?hs = "harness_selection (reg_harnesses registry)
               (prompt_values ext ''Select harnesses'' (map harness_id (reg_harnesses registry)))"
  let ?b = "buildBackupOptions projectRoot enableBackup (ext_backupTime ext)"
  let ?ra = "renderAll (ext_hb ext) w projectRoot registryRoot' (reg_skills registry)
               (reg_harnesses registry) selectedSkills ?hs ?b"
  from run r a obtain created w1 where ra: "?ra = (Inr created, w1)"
    by (cases ?ra) (auto simp: runInit_def Let_def split: sum.splits)
  define st where "st = \<lparr> st_version = CURRENT_VERSION, createdAt = ext_now ext,
                            updatedAt = ext_now ext, st_projectRoot = projectRoot,
                            facts = ext_facts ext, st_skills = selectedSkills,
                            st_harnesses = ?hs \<rparr>"
  from run r a ra have w': "w' = writeState (ext_stringify ext) w1 projectRoot st ?b"
    by (simp add: runInit_def Let_def st_def)
  have "pathExists w1 (agentsPath_of projectRoot)"
    using ra by (rule pathExists_renderAll_agents)
  then have 1: "pathExists w' (agentsPath_of projectRoot)"
    by (simp add: w' writeState_def writeJsonFile_def pathExists_writeFileAlways)
  have 2: "pathExists w' (statePath_of projectRoot)"
    by (simp add: w' pathExists_def files_writeState)
  show ?thesis using 1 2 by (simp add: isInited_def)
qed

text \<open>
  Claim C7. When both \<^verbatim>\<open>ai/agents.md\<close> and \<^verbatim>\<open>ai/ai-manager.json\<close> exist in the
  project, the init command returns at once: the file system and the log of its writes
  and removals are what they were. After an initialisation that succeeded both files
  exist, so that an init command that follows it, whatever the replies to its prompts
  would be, is refused in the same way.
\<close>

theorem C7_init_refusal:
  "(pathExists w (path_join [projectRoot, ''ai'', ''agents.md''])
      \<and> pathExists w (path_join [projectRoot, ''ai'', ''ai-manager.json'']) \<longrightarrow>
        init_action ext w projectRoot registryRoot' enableBackup = (Inr (), w))
   \<and> (runInit ext w projectRoot registryRoot' enableBackup = (Inr (), w') \<longrightarrow>
        pathExists w' (path_join [projectRoot, ''ai'', ''agents.md''])
      \<and> pathExists w' (path_join [projectRoot, ''ai'', ''ai-manager.json''])
      \<and> init_action ext_again w' projectRoot registryRoot_again enableBackup_again = (Inr (), w'))"
  using runInit_inited [of ext w projectRoot registryRoot' enableBackup w']
  by (auto simp: init_action_def isInited_def agentsPath_of_def statePath_of_def)

theorem C7_init_refusal_witness:
  "pathExists ex_world (path_join [''/proj'', ''ai'', ''agents.md''])
   \<and> pathExists ex_world (path_join [''/proj'', ''ai'', ''ai-manager.json''])
   \<and> init_action ex_ext ex_world ''/proj'' ''/reg'' True = (Inr (), ex_world)
   \<and> \<not> isInited ex_partial ''/proj''
   \<and> fst (runInit ex_ext ex_partial ''/proj'' ''/reg'' False) = Inr ()
   \<and> init_action ex_ext (snd (runInit ex_ext ex_partial ''/proj'' ''/reg'' False)) ''/proj'' ''/reg''
         False
       = (Inr (), snd (runInit ex_ext ex_partial ''/proj'' ''/reg'' False))"
proof -
  have a: "pathExists ex_world (path_join [''/proj'', ''ai'', ''agents.md''])"
    by code_simp
  have b: "pathExists ex_world (path_join [''/proj'', ''ai'', ''ai-manager.json''])"
    by code_simp
  have n: "\<not> isInited ex_partial ''/proj''"
    by code_simp
  have ok: "fst (runInit ex_ext ex_partial ''/proj'' ''/reg'' False) = Inr ()"
    by code_simp
  then have run: "runInit ex_ext ex_partial ''/proj'' ''/reg'' False
                    = (Inr (), snd (runInit ex_ext ex_partial ''/proj'' ''/reg'' False))"
    by (metis prod.collapse)
  note c1 = C7_init_refusal [where w = ex_world and projectRoot = "''/proj''" and ext = ex_ext
      and registryRoot' = "''/reg''" and enableBackup = True and ext_again = ex_ext
      and registryRoot_again = "''/reg''" and enableBackup_again = False
      and w' = "snd (runInit ex_ext ex_world ''/proj'' ''/reg'' True)"]
  note c2 = C7_init_refusal [where w = ex_partial and projectRoot = "''/proj''" and ext = ex_ext
      and registryRoot' = "''/reg''" and enableBackup = False and ext_again = ex_ext
      and registryRoot_again = "''/reg''" and enableBackup_again = False
      and w' = "snd (runInit ex_ext ex_partial ''/proj'' ''/reg'' False)"]
  from c1 a b have r1: "init_action ex_ext ex_world ''/proj'' ''/reg'' True = (Inr (), ex_world)"
    by blast
  from c2 run have r2:
    "init_action ex_ext (snd (runInit ex_ext ex_partial ''/proj'' ''/reg'' False)) ''/proj'' ''/reg''
         False
       = (Inr (), snd (runInit ex_ext ex_partial ''/proj'' ''/reg'' False))"
    by blast
  show ?thesis using a b n ok r1 r2 by blast
qed

text \<open>
  Claim C10. When exactly one of \<^verbatim>\<open>ai/agents.md\<close> and \<^verbatim>\<open>ai/ai-manager.json\<close> exists,
  the init command runs \<^verbatim>\<open>runInit\<close>; when that succeeds, the last write is the state
  file, whose contents are a fresh state, independent of what the file held, with
  \<^verbatim>\<open>createdAt\<close> and \<^verbatim>\<open>updatedAt\<close> both the current time.
\<close>

theorem C10_partial_marker_init:
  assumes "pathExists w (agentsPath_of projectRoot) \<noteq> pathExists w (statePath_of projectRoot)"
  shows "init_action ext w projectRoot registryRoot' enableBackup
           = runInit ext w projectRoot registryRoot' enableBackup
       \<and> (\<forall>w'. runInit ext w projectRoot registryRoot' enableBackup = (Inr (), w') \<longrightarrow>
            (\<exists>selectedSkills selectedHarnesses.
               files w' (statePath_of projectRoot)
                 = Some (ext_stringify ext
                           \<lparr> st_version = CURRENT_VERSION, createdAt = ext_now ext,
                             updatedAt = ext_now ext, st_projectRoot = projectRoot,
                             facts = ext_facts ext, st_skills = selectedSkills,
                             st_harnesses = selectedHarnesses \<rparr> @ newline)
             \<and> last (events w')
                 = WriteFile (statePath_of projectRoot)
                     (ext_stringify ext
                        \<lparr> st_version = CURRENT_VERSION, createdAt = ext_now ext,
                          updatedAt = ext_now ext, st_projectRoot = projectRoot,
                          facts = ext_facts ext, st_skills = selectedSkills,
                          st_harnesses = selectedHarnesses \<rparr> @ newline)))"
proof -
  have 1: "init_action ext w projectRoot registryRoot' enableBackup
           = runInit ext w projectRoot registryRoot' enableBackup"
    using assms by (auto simp: init_action_def isInited_def)
  have 2: "\<exists>selectedSkills selectedHarnesses.
               files w' (statePath_of projectRoot)
                 = Some (ext_stringify ext
                           \<lparr> st_version = CURRENT_VERSION, createdAt = ext_now ext,
                             updatedAt = ext_now ext, st_projectRoot = projectRoot,
                             facts = ext_facts ext, st_skills = selectedSkills,
                             st_harnesses = selectedHarnesses \<rparr> @ newline)
             \<and> last (events w')
                 = WriteFile (statePath_of projectRoot)
                     (ext_stringify ext
                        \<lparr> st_version = CURRENT_VERSION, createdAt = ext_now ext,
                          updatedAt = ext_now ext, st_projectRoot = projectRoot,
                          facts = ext_facts ext, st_skills = selectedSkills,
                          st_harnesses = selectedHarnesses \<rparr> @ newline)"
    if run: "runInit ext w projectRoot registryRoot' enableBackup = (Inr (), w')" for w'
  proof -
    from run obtain registry where r: "load_registry ext = Inr registry"
      by (cases "load_registry ext") (auto simp: runInit_def)
    from run r obtain selectedSkills where
      a: "add_skills (ext_ask ext) (reg_skills registry)
            (prompt_values ext ''Select skills'' (map skill_id (reg_skills registry))) []
          = Inr selectedSkills"
      by (cases "add_skills (ext_ask ext) (reg_skills registry)
                   (prompt_values ext ''Select skills'' (map skill_id (reg_skills registry))) []")
         (auto simp: runInit_def Let_def)
    from run r a obtain created w1 where
      ra: "renderAll (ext_hb ext) w projectRoot registryRoot' (reg_skills registry)
             (reg_harnesses registry) selectedSkills
             (harness_selection (reg_harnesses registry)
                (prompt_values ext ''Select harnesses''
                   (map harness_id (reg_harnesses registry))))
             (buildBackupOptions projectRoot enableBackup (ext_backupTime ext))
           = (Inr created, w1)"
      by (cases "renderAll (ext_hb ext) w projectRoot registryRoot' (reg_skills registry)
             (reg_harnesses registry) selectedSkills
             (harness_selection (reg_harnesses registry)
                (prompt_values ext ''Select harnesses''
                   (map harness_id (reg_harnesses registry))))
             (buildBackupOptions projectRoot enableBackup (ext_backupTime ext))")
         (auto simp: runInit_def Let_def split: sum.splits)
    from run r a ra have
      w': "w' = writeState (ext_stringify ext) w1 projectRoot
                 \<lparr> st_version = CURRENT_VERSION, createdAt = ext_now ext,
                   updatedAt = ext_now ext, st_projectRoot = projectRoot,
                   facts = ext_facts ext, st_skills = selectedSkills,
                   st_harnesses =
                     harness_selection (reg_harnesses registry)
                       (prompt_values ext ''Select harnesses''
                          (map harness_id (reg_harnesses registry))) \<rparr>
                 (buildBackupOptions projectRoot enableBackup (ext_backupTime ext))"
      by (simp add: runInit_def Let_def)
    show ?thesis
      unfolding w' writeState_def writeJsonFile_def
      by (intro exI [of _ selectedSkills]
            exI [of _ "harness_selection (reg_harnesses registry)
                         (prompt_values ext ''Select harnesses''
                            (map harness_id (reg_harnesses registry)))"])
         (simp add: files_writeFileAlways_target last_events_writeFileAlways)
  qed
  show ?thesis using 1 2 by blast
qed

theorem C10_partial_marker_init_witness:
  "pathExists ex_partial (agentsPath_of ''/proj'') \<noteq> pathExists ex_partial (statePath_of ''/proj'')
   \<and> files ex_partial ''/proj/ai/ai-manager.json'' = Some ''old state''
   \<and> fst (init_action ex_ext ex_partial ''/proj'' ''/reg'' False) = Inr ()
   \<and> files (snd (init_action ex_ext ex_partial ''/proj'' ''/reg'' False)) ''/proj/ai/ai-manager.json''
       = Some (''created=2026-01-01T00:00:01.000Z updated=2026-01-01T00:00:01.000Z''
               @ '' skills=frontend-design harnesses=cursor'' @ newline)"
proof -
  have h: "pathExists ex_partial (agentsPath_of ''/proj'')
           \<noteq> pathExists ex_partial (statePath_of ''/proj'')"
    by code_simp
  have old: "files ex_partial ''/proj/ai/ai-manager.json'' = Some ''old state''"
    by code_simp
  have ok: "fst (runInit ex_ext ex_partial ''/proj'' ''/reg'' False) = Inr ()"
    by code_simp
  have st: "files (snd (runInit ex_ext ex_partial ''/proj'' ''/reg'' False)) ''/proj/ai/ai-manager.json''
       = Some (''created=2026-01-01T00:00:01.000Z updated=2026-01-01T00:00:01.000Z''
               @ '' skills=frontend-design harnesses=cursor'' @ newline)"
    by code_simp
  from C10_partial_marker_init [OF h, of ex_ext "''/reg''" False]
  have eq: "init_action ex_ext ex_partial ''/proj'' ''/reg'' False
            = runInit ex_ext ex_partial ''/proj'' ''/reg'' False"
    by blast
  show ?thesis
    unfolding eq using h old ok st by blast
qed

section \<open>Removals\<close>

lemma files_backupExistingFile_other:
  "q \<notin> set (backup_path_of b p) \<Longrightarrow> files (backupExistingFile w p b) q = files w q"
  by (auto simp: backupExistingFile_def backup_path_of_def files_fs_writeFile split: option.splits)

lemma files_writeFileAlways_other:
  "q \<noteq> p \<Longrightarrow> q \<notin> set (backup_path_of b p) \<Longrightarrow> files (writeFileAlways w p c b) q = files w q"
  by (simp add: writeFileAlways_backup_then_write files_fs_writeFile files_backupExistingFile_other)

lemma run_jobs_frame:
  assumes "\<forall>j\<in>set jobs. q \<noteq> job_target root j \<and> q \<notin> set (backup_path_of b (job_target root j))"
  shows "files (snd (run_jobs hb root b jobs w created)) q = files w q"
  using assms
proof (induction jobs arbitrary: w created)
  case Nil
  then show ?case by simp
next
  case (Cons j jobs)
  obtain out troot ctx where j: "j = (out, troot, ctx)" by (cases j)
  have q: "q \<noteq> path_join [root, target out]"
    "q \<notin> set (backup_path_of b (path_join [root, target out]))"
    using Cons.prems by (auto simp: j job_target_def)
  show ?case
  proof (cases "writeRenderedOutput hb w root out troot ctx b")
    case (Pair r w')
    then have w': "files w' q = files w q"
      using q by (auto simp: writeRenderedOutput_def Let_def files_writeFileAlways_other
          split: sum.splits)
    show ?thesis
    proof (cases r)
      case (Inl e)
      with Pair w' show ?thesis by (simp add: j)
    next
      case (Inr p)
      have "files (snd (run_jobs hb root b jobs w' (created @ [p]))) q = files w' q"
        using Cons.prems by (intro Cons.IH) simp
      with Pair Inr w' show ?thesis by (simp add: j)
    qed
  qed
qed

lemma files_writeState_other:
  "q \<noteq> statePath_of root \<Longrightarrow> q \<notin> set (backup_path_of b (statePath_of root))
   \<Longrightarrow> files (writeState stringify w root state b) q = files w q"
  by (simp add: writeState_def writeJsonFile_def files_writeFileAlways_other)

lemma removed_paths_backupExistingFile:
  "removed_paths (events (backupExistingFile w p b)) = removed_paths (events w)"
  by (simp add: backupExistingFile_def events_fs_writeFile removed_paths_append
      split: option.splits)

lemma removed_paths_writeFileAlways:
  "removed_paths (events (writeFileAlways w p c b)) = removed_paths (events w)"
  by (simp add: writeFileAlways_backup_then_write events_fs_writeFile removed_paths_append
      removed_paths_backupExistingFile)

lemma removed_paths_writeRenderedOutput:
  "removed_paths (events (snd (writeRenderedOutput hb w root out troot ctx b)))
     = removed_paths (events w)"
  by (simp add: writeRenderedOutput_def Let_def removed_paths_writeFileAlways split: sum.splits)

lemma removed_paths_run_jobs:
  "removed_paths (events (snd (run_jobs hb root b js w created))) = removed_paths (events w)"
proof (induction js arbitrary: w created)
  case Nil
  then show ?case by simp
next
  case (Cons j js)
  obtain out troot ctx where j: "j = (out, troot, ctx)" by (cases j)
  show ?case
  proof (cases "writeRenderedOutput hb w root out troot ctx b")
    case (Pair r w1)
    then have w1: "removed_paths (events w1) = removed_paths (events w)"
      using removed_paths_writeRenderedOutput [of hb w root out troot ctx b] by simp
    show ?thesis
      using Pair w1 Cons.IH by (cases r) (simp_all add: j)
  qed
qed

lemma removed_paths_renderAll:
  "removed_paths (events (snd (renderAll hb w root regRoot skills harnesses sel selh b)))
     = removed_paths (events w)"
  by (simp add: renderAll_jobs removed_paths_run_jobs del: run_jobs.simps split: sum.splits)

lemma removed_paths_writeState:
  "removed_paths (events (writeState stringify w root state b)) = removed_paths (events w)"
  by (simp add: writeState_def writeJsonFile_def removed_paths_writeFileAlways)

lemma removed_paths_removeStaleOutputs:
  "removed_paths (events (removeStaleOutputs w root ts b))
     = removed_paths (events w) @ map (\<lambda>t. path_join [root, t]) ts"
  unfolding removeStaleOutputs_def
  by (induction ts arbitrary: w)
     (simp_all add: Let_def fs_rm_def removed_paths_append removed_paths_backupExistingFile)

lemma removed_paths_runInit:
  "removed_paths (events (snd (runInit ext w root regRoot b))) = removed_paths (events w)"
proof -
  have r: "removed_paths (events w1) = removed_paths (events w)"
    if "renderAll hb w root regRoot skills harnesses sel selh bk = (res, w1)"
    for hb skills harnesses sel selh bk res w1
    using removed_paths_renderAll [of hb w root regRoot skills harnesses sel selh bk] that
    by simp
  show ?thesis
    by (auto simp: runInit_def Let_def removed_paths_writeState r
        split: sum.splits prod.splits)
qed

lemma removed_paths_skills_apply:
  "removed_paths (events (snd (skills_apply ext w root regRoot act b state registry ids)))
     = removed_paths (events w) @
       (case act of
          Add \<Rightarrow> []
        | Remove \<Rightarrow>
            map (\<lambda>t. path_join [root, t])
              (staleTargets (targetSet registry (st_skills state) (st_harnesses state))
                 (targetSet registry
                    (filter (\<lambda>skill. sel_id skill \<notin> set ids) (st_skills state))
                    (st_harnesses state))))"
proof -
  have r: "removed_paths (events w2) = removed_paths (events w1)"
    if "renderAll hb w1 root regRoot skills harnesses sel selh bk = (res, w2)"
    for hb skills harnesses sel selh bk res w1 w2
    using removed_paths_renderAll [of hb w1 root regRoot skills harnesses sel selh bk] that
    by simp
  show ?thesis
    by (cases act)
       (auto simp: skills_apply_def Let_def targetSet_def removed_paths_writeState r
          removed_paths_removeStaleOutputs split: sum.splits prod.splits)
qed

lemma removed_paths_harnesses_apply:
  "removed_paths (events (snd (harnesses_apply ext w root regRoot act b state registry ids)))
     = removed_paths (events w) @
       (case act of
          Add \<Rightarrow> []
        | Remove \<Rightarrow>
            map (\<lambda>t. path_join [root, t])
              (staleTargets (targetSet registry (st_skills state) (st_harnesses state))
                 (targetSet registry (st_skills state)
                    (filter (\<lambda>harness. selh_id harness \<notin> set ids) (st_harnesses state)))))"
proof -
  have r: "removed_paths (events w2) = removed_paths (events w1)"
    if "renderAll hb w1 root regRoot skills harnesses sel selh bk = (res, w2)"
    for hb skills harnesses sel selh bk res w1 w2
    using removed_paths_renderAll [of hb w1 root regRoot skills harnesses sel selh bk] that
    by simp
  show ?thesis
    by (cases act)
       (auto simp: harnesses_apply_def Let_def targetSet_def removed_paths_writeState r
          removed_paths_removeStaleOutputs split: sum.splits prod.splits)
qed

lemma staleTargets_self: "staleTargets ts ts = []"
  by (simp add: staleTargets_def set_has_def)

lemma staleTargets_empty_iff: "staleTargets prev next = [] \<longleftrightarrow> set prev \<subseteq> set next"
  using set_staleTargets [of prev "next"] by (metis Diff_eq_empty_iff set_empty)


lemma add_skills_extends:
  "add_skills ask skills ids sel = Inr upd \<Longrightarrow> \<exists>new. upd = sel @ new"
proof (induction ids arbitrary: sel)
  case Nil
  then show ?case by simp
next
  case (Cons i ids)
  show ?case
  proof (cases "find_skill skills i")
    case None
    with Cons show ?thesis by simp
  next
    case (Some m)
    show ?thesis
    proof (cases "askSkillQuestions ask m")
      case (Inl e)
      with Some Cons.prems show ?thesis by simp
    next
      case (Inr a)
      with Some Cons.prems have
        "add_skills ask skills ids
           (sel @ [\<lparr> sel_id = skill_id m, sel_version = skill_version m, answers = a \<rparr>])
         = Inr upd"
        by simp
      from Cons.IH [OF this] show ?thesis by auto
    qed
  qed
qed

lemma targetSet_mono:
  "set (map sel_id S1) \<subseteq> set (map sel_id S2) \<Longrightarrow> set (map selh_id H1) \<subseteq> set (map selh_id H2)
   \<Longrightarrow> set (targetSet registry S1 H1) \<subseteq> set (targetSet registry S2 H2)"
  unfolding targetSet_def set_collectOutputTargets by blast

lemma snd_runSkillsAddRemove_cases:
  "snd (runSkillsAddRemove ext w root regRoot act b) = w
   \<or> (\<exists>state registry.
        findManagerState (ext_parse ext) w root = Inr (Some state)
        \<and> load_registry ext = Inr registry
        \<and> prompt_values ext (case act of Add \<Rightarrow> ''Add skills'' | Remove \<Rightarrow> ''Remove skills'')
              (map skill_id (skill_choices registry state act)) \<noteq> []
        \<and> runSkillsAddRemove ext w root regRoot act b
            = skills_apply ext w root regRoot act b state registry
                (prompt_values ext (case act of Add \<Rightarrow> ''Add skills'' | Remove \<Rightarrow> ''Remove skills'')
                   (map skill_id (skill_choices registry state act))))"
  by (auto simp: runSkillsAddRemove_def Let_def split: sum.splits option.splits)

lemma snd_runHarnessesAddRemove_cases:
  "snd (runHarnessesAddRemove ext w root regRoot act b) = w
   \<or> (\<exists>state registry.
        findManagerState (ext_parse ext) w root = Inr (Some state)
        \<and> load_registry ext = Inr registry
        \<and> prompt_values ext
              (case act of Add \<Rightarrow> ''Add harnesses'' | Remove \<Rightarrow> ''Remove harnesses'')
              (map harness_id (harness_choices registry state act)) \<noteq> []
        \<and> runHarnessesAddRemove ext w root regRoot act b
            = harnesses_apply ext w root regRoot act b state registry
                (prompt_values ext
                   (case act of Add \<Rightarrow> ''Add harnesses'' | Remove \<Rightarrow> ''Remove harnesses'')
                   (map harness_id (harness_choices registry state act))))"
  by (auto simp: runHarnessesAddRemove_def Let_def split: sum.splits option.splits)

lemma removed_paths_skills_add:
  "removed_paths (events (snd (runSkillsAddRemove ext w root regRoot Add b)))
     = removed_paths (events w)"
  using snd_runSkillsAddRemove_cases [of ext w root regRoot Add b]
  by (auto simp: removed_paths_skills_apply)

lemma removed_paths_harnesses_add:
  "removed_paths (events (snd (runHarnessesAddRemove ext w root regRoot Add b)))
     = removed_paths (events w)"
  using snd_runHarnessesAddRemove_cases [of ext w root regRoot Add b]
  by (auto simp: removed_paths_harnesses_apply)

lemma removed_paths_init_action:
  "removed_paths (events (snd (init_action ext w root regRoot b))) = removed_paths (events w)"
  by (simp add: init_action_def removed_paths_runInit)

lemma removed_paths_skills_remove:
  assumes st: "findManagerState (ext_parse ext) w root = Inr (Some state)"
    and reg: "load_registry ext = Inr registry"
    and pick: "set (prompt_values ext ''Remove skills'' (map skill_id (skill_choices registry state Remove)))
                 \<subseteq> set (map skill_id (skill_choices registry state Remove))"
  shows "removed_paths (events (snd (runSkillsAddRemove ext w root regRoot Remove b)))
     = removed_paths (events w) @
       map (\<lambda>t. path_join [root, t])
         (staleTargets (targetSet registry (st_skills state) (st_harnesses state))
            (targetSet registry
               (filter (\<lambda>skill. sel_id skill \<notin>
                          set (prompt_values ext ''Remove skills''
                                 (map skill_id (skill_choices registry state Remove))))
                  (st_skills state))
               (st_harnesses state)))"
proof (cases "prompt_values ext ''Remove skills'' (map skill_id (skill_choices registry state Remove)) = []")
  case True
  then have "snd (runSkillsAddRemove ext w root regRoot Remove b) = w"
    using st reg by (simp add: runSkillsAddRemove_def Let_def)
  then show ?thesis using True by (simp add: staleTargets_self)
next
  case False
  with pick have "skill_choices registry state Remove \<noteq> []" by auto
  with False st reg have
    "runSkillsAddRemove ext w root regRoot Remove b
       = skills_apply ext w root regRoot Remove b state registry
           (prompt_values ext ''Remove skills'' (map skill_id (skill_choices registry state Remove)))"
    by (simp add: runSkillsAddRemove_def Let_def)
  then show ?thesis by (simp add: removed_paths_skills_apply)
qed

lemma removed_paths_harnesses_remove:
  assumes st: "findManagerState (ext_parse ext) w root = Inr (Some state)"
    and reg: "load_registry ext = Inr registry"
    and pick: "set (prompt_values ext ''Remove harnesses''
                      (map harness_id (harness_choices registry state Remove)))
                 \<subseteq> set (map harness_id (harness_choices registry state Remove))"
  shows "removed_paths (events (snd (runHarnessesAddRemove ext w root regRoot Remove b)))
     = removed_paths (events w) @
       map (\<lambda>t. path_join [root, t])
         (staleTargets (targetSet registry (st_skills state) (st_harnesses state))
            (targetSet registry (st_skills state)
               (filter (\<lambda>harness. selh_id harness \<notin>
                          set (prompt_values ext ''Remove harnesses''
                                 (map harness_id (harness_choices registry state Remove))))
                  (st_harnesses state))))"
proof (cases "prompt_values ext ''Remove harnesses''
                (map harness_id (harness_choices registry state Remove)) = []")
  case True
  then have "snd (runHarnessesAddRemove ext w root regRoot Remove b) = w"
    using st reg by (simp add: runHarnessesAddRemove_def Let_def)
  then show ?thesis using True by (simp add: staleTargets_self)
next
  case False
  with pick have "harness_choices registry state Remove \<noteq> []" by auto
  with False st reg have
    "runHarnessesAddRemove ext w root regRoot Remove b
       = harnesses_apply ext w root regRoot Remove b state registry
           (prompt_values ext ''Remove harnesses''
              (map harness_id (harness_choices registry state Remove)))"
    by (simp add: runHarnessesAddRemove_def Let_def)
  then show ?thesis by (simp add: removed_paths_harnesses_apply)
qed

lemma pathExists_backupExistingFile:
  "pathExists w p \<Longrightarrow> pathExists (backupExistingFile w q b) p"
  by (auto simp: pathExists_def backupExistingFile_def files_fs_writeFile split: option.splits)

lemma pathExists_removeStaleOutputs:
  "pathExists w p \<Longrightarrow> p \<notin> (\<lambda>t. path_join [root, t]) ` set ts
   \<Longrightarrow> pathExists (removeStaleOutputs w root ts b) p"
  unfolding removeStaleOutputs_def
proof (induction ts arbitrary: w)
  case Nil
  then show ?case by simp
next
  case (Cons t ts)
  have "pathExists (fs_rm (backupExistingFile w (path_join [root, t]) b) (path_join [root, t])) p"
    using Cons.prems pathExists_backupExistingFile [of w p "path_join [root, t]" b]
    by (auto simp: pathExists_def fs_rm_def)
  then show ?case using Cons by (simp add: Let_def)
qed

lemma pathExists_renderAll:
  "pathExists w p \<Longrightarrow> pathExists (snd (renderAll hb w root regRoot skills harnesses S H b)) p"
  by (simp add: renderAll_jobs pathExists_run_jobs del: run_jobs.simps split: sum.splits)

lemma pathExists_writeState:
  "pathExists w p \<Longrightarrow> pathExists (writeState stringify w root state b) p"
  by (simp add: writeState_def writeJsonFile_def pathExists_writeFileAlways)

lemma pathExists_runInit:
  "pathExists w p \<Longrightarrow> pathExists (snd (runInit ext w root regRoot b)) p"
proof -
  assume p: "pathExists w p"
  have r: "pathExists w1 p"
    if "renderAll hb w root regRoot skills harnesses sel selh bk = (res, w1)"
    for hb skills harnesses sel selh bk res w1
    using pathExists_renderAll [OF p, of hb root regRoot skills harnesses sel selh bk] that
    by simp
  show ?thesis
    using p by (auto simp: runInit_def Let_def pathExists_writeState r
        split: sum.splits prod.splits)
qed

lemma pathExists_tail:
  assumes "pathExists w1 p"
  shows "pathExists
           (snd (case renderAll hb w1 root regRoot skills harnesses S H b of
                   (Inl e, w2) \<Rightarrow> (Inl e, w2)
                 | (Inr createdFiles, w2) \<Rightarrow>
                     (Inr (), writeState stringify w2 root st b))) p"
proof (cases "renderAll hb w1 root regRoot skills harnesses S H b")
  case (Pair r w2)
  then have "pathExists w2 p"
    using pathExists_renderAll [OF assms, of hb root regRoot skills harnesses S H b] by simp
  with Pair show ?thesis by (cases r) (simp_all add: pathExists_writeState)
qed

lemma pathExists_skills_apply:
  assumes p: "pathExists w p"
    and stale: "act = Remove \<longrightarrow>
       p \<notin> (\<lambda>t. path_join [root, t]) `
             set (staleTargets (targetSet registry (st_skills state) (st_harnesses state))
                    (targetSet registry
                       (filter (\<lambda>skill. sel_id skill \<notin> set ids) (st_skills state))
                       (st_harnesses state)))"
  shows "pathExists (snd (skills_apply ext w root regRoot act b state registry ids)) p"
proof (cases act)
  case Add
  show ?thesis
  proof (cases "add_skills (ext_ask ext) (reg_skills registry) ids (st_skills state)")
    case (Inl e)
    with Add p show ?thesis by (simp add: skills_apply_def)
  next
    case (Inr updated)
    with Add show ?thesis
      using pathExists_tail [OF p] by (simp add: skills_apply_def Let_def)
  qed
next
  case Remove
  with stale p have
    "pathExists (removeStaleOutputs w root
       (staleTargets (targetSet registry (st_skills state) (st_harnesses state))
          (targetSet registry
             (filter (\<lambda>skill. sel_id skill \<notin> set ids) (st_skills state))
             (st_harnesses state)))
       (buildBackupOptions root b (ext_backupTime ext))) p"
    by (intro pathExists_removeStaleOutputs) auto
  from pathExists_tail [OF this] Remove show ?thesis
    by (simp add: skills_apply_def Let_def targetSet_def)
qed

lemma pathExists_harnesses_apply:
  assumes p: "pathExists w p"
    and stale: "act = Remove \<longrightarrow>
       p \<notin> (\<lambda>t. path_join [root, t]) `
             set (staleTargets (targetSet registry (st_skills state) (st_harnesses state))
                    (targetSet registry (st_skills state)
                       (filter (\<lambda>harness. selh_id harness \<notin> set ids) (st_harnesses state))))"
  shows "pathExists (snd (harnesses_apply ext w root regRoot act b state registry ids)) p"
proof (cases act)
  case Add
  then show ?thesis
    using pathExists_tail [OF p] by (simp add: harnesses_apply_def Let_def)
next
  case Remove
  with stale p have
    "pathExists (removeStaleOutputs w root
       (staleTargets (targetSet registry (st_skills state) (st_harnesses state))
          (targetSet registry (st_skills state)
             (filter (\<lambda>harness. selh_id harness \<notin> set ids) (st_harnesses state))))
       (buildBackupOptions root b (ext_backupTime ext))) p"
    by (intro pathExists_removeStaleOutputs) auto
  from pathExists_tail [OF this] Remove show ?thesis
    by (simp add: harnesses_apply_def Let_def targetSet_def)
qed

lemma pathExists_skills_remove:
  assumes st: "findManagerState (ext_parse ext) w root = Inr (Some state)"
    and reg: "load_registry ext = Inr registry"
    and p: "pathExists w p"
    and stale: "p \<notin> (\<lambda>t. path_join [root, t]) `
                  set (staleTargets (targetSet registry (st_skills state) (st_harnesses state))
                         (targetSet registry
                            (filter (\<lambda>skill. sel_id skill \<notin>
                                       set (prompt_values ext ''Remove skills''
                                              (map skill_id (skill_choices registry state Remove))))
                               (st_skills state))
                            (st_harnesses state)))"
  shows "pathExists (snd (runSkillsAddRemove ext w root regRoot Remove b)) p"
  using snd_runSkillsAddRemove_cases [of ext w root regRoot Remove b] st reg p stale
  by (auto intro!: pathExists_skills_apply)

lemma pathExists_harnesses_remove:
  assumes st: "findManagerState (ext_parse ext) w root = Inr (Some state)"
    and reg: "load_registry ext = Inr registry"
    and p: "pathExists w p"
    and stale: "p \<notin> (\<lambda>t. path_join [root, t]) `
                  set (staleTargets (targetSet registry (st_skills state) (st_harnesses state))
                         (targetSet registry (st_skills state)
                            (filter (\<lambda>harness. selh_id harness \<notin>
                                       set (prompt_values ext ''Remove harnesses''
                                              (map harness_id
                                                 (harness_choices registry state Remove))))
                               (st_harnesses state))))"
  shows "pathExists (snd (runHarnessesAddRemove ext w root regRoot Remove b)) p"
  using snd_runHarnessesAddRemove_cases [of ext w root regRoot Remove b] st reg p stale
  by (auto intro!: pathExists_harnesses_apply)

lemma pathExists_skills_add:
  "pathExists w p \<Longrightarrow> pathExists (snd (runSkillsAddRemove ext w root regRoot Add b)) p"
  using snd_runSkillsAddRemove_cases [of ext w root regRoot Add b]
  by (auto intro!: pathExists_skills_apply)

lemma pathExists_harnesses_add:
  "pathExists w p \<Longrightarrow> pathExists (snd (runHarnessesAddRemove ext w root regRoot Add b)) p"
  using snd_runHarnessesAddRemove_cases [of ext w root regRoot Add b]
  by (auto intro!: pathExists_harnesses_apply)

lemma pathExists_init_action:
  "pathExists w p \<Longrightarrow> pathExists (snd (init_action ext w root regRoot b)) p"
  by (simp add: init_action_def pathExists_runInit)

lemma files_removeStaleOutputs_stale:
  assumes "p \<in> (\<lambda>t. path_join [root, t]) ` set ts"
    and "p \<notin> set (concat (map (backup_path_of b) (map (\<lambda>t. path_join [root, t]) ts)))"
  shows "files (removeStaleOutputs w root ts b) p = None"
  using assms unfolding removeStaleOutputs_def
proof (induction ts rule: rev_induct)
  case Nil
  then show ?case by simp
next
  case (snoc t ts)
  show ?case
  proof (cases "p = path_join [root, t]")
    case True
    then show ?thesis by (simp add: fs_rm_def Let_def)
  next
    case False
    with snoc.prems have "p \<in> (\<lambda>t. path_join [root, t]) ` set ts" by auto
    moreover have "p \<notin> set (concat (map (backup_path_of b) (map (\<lambda>t. path_join [root, t]) ts)))"
      using snoc.prems by simp
    ultimately have "files (foldl (\<lambda>w' target'.
              (let fullPath = path_join [root, target']
               in fs_rm (backupExistingFile w' fullPath b) fullPath)) w ts) p = None"
      by (rule snoc.IH)
    moreover have "p \<notin> set (backup_path_of b (path_join [root, t]))"
      using snoc.prems by simp
    ultimately show ?thesis
      using False by (simp add: Let_def fs_rm_def files_backupExistingFile_other)
  qed
qed

lemma files_renderAll_other:
  assumes "p \<notin> set (agentsPath_of root
                     # map (job_target root)
                         (skill_jobs regRoot skills S @ harness_jobs regRoot harnesses H))"
    and "p \<notin> set (concat (map (backup_path_of b)
                     (agentsPath_of root
                      # map (job_target root)
                          (skill_jobs regRoot skills S @ harness_jobs regRoot harnesses H))))"
  shows "files (snd (renderAll hb w root regRoot skills harnesses S H b)) p = files w p"
proof (cases "buildAgentsMarkdown hb (files w) (agentsInput root regRoot skills S H)")
  case (Inl e)
  then show ?thesis by (simp add: renderAll_jobs)
next
  case (Inr c)
  have "\<forall>j\<in>set ((agentsOutput, regRoot, ContentContext c)
                  # skill_jobs regRoot skills S @ harness_jobs regRoot harnesses H).
          p \<noteq> job_target root j \<and> p \<notin> set (backup_path_of b (job_target root j))"
    using assms by (auto simp: job_target_def agentsPath_of_eq)
  from run_jobs_frame [OF this] Inr show ?thesis
    by (simp add: renderAll_jobs del: run_jobs.simps)
qed

lemma files_tail_other:
  assumes "p \<notin> set (statePath_of root # agentsPath_of root
                     # map (job_target root)
                         (skill_jobs regRoot skills S @ harness_jobs regRoot harnesses H))"
    and "p \<notin> set (concat (map (backup_path_of b)
                     (statePath_of root # agentsPath_of root
                      # map (job_target root)
                          (skill_jobs regRoot skills S @ harness_jobs regRoot harnesses H))))"
  shows "files
           (snd (case renderAll hb w1 root regRoot skills harnesses S H b of
                   (Inl e, w2) \<Rightarrow> (Inl e, w2)
                 | (Inr createdFiles, w2) \<Rightarrow>
                     (Inr (), writeState stringify w2 root st b))) p = files w1 p"
proof (cases "renderAll hb w1 root regRoot skills harnesses S H b")
  case (Pair r w2)
  have "files (snd (renderAll hb w1 root regRoot skills harnesses S H b)) p = files w1 p"
    using assms by (intro files_renderAll_other) auto
  with Pair have "files w2 p = files w1 p" by simp
  moreover have "files (writeState stringify w2 root st b) p = files w2 p"
    using assms by (intro files_writeState_other) auto
  ultimately show ?thesis using Pair by (cases r) simp_all
qed

lemma files_skills_apply_stale:
  assumes stale: "p \<in> (\<lambda>t. path_join [root, t]) `
             set (staleTargets (targetSet registry (st_skills state) (st_harnesses state))
                    (targetSet registry
                       (filter (\<lambda>skill. sel_id skill \<notin> set ids) (st_skills state))
                       (st_harnesses state)))"
    and written: "p \<notin> set (statePath_of root
                     # write_targets root regRoot registry
                         (state\<lparr>st_skills :=
                                  filter (\<lambda>skill. sel_id skill \<notin> set ids) (st_skills state)\<rparr>))"
    and copies: "p \<notin> set (concat (map (backup_path_of (buildBackupOptions root b (ext_backupTime ext)))
                     (statePath_of root
                      # write_targets root regRoot registry
                          (state\<lparr>st_skills :=
                                   filter (\<lambda>skill. sel_id skill \<notin> set ids) (st_skills state)\<rparr>)
                      @ map (\<lambda>t. path_join [root, t])
                          (staleTargets (targetSet registry (st_skills state) (st_harnesses state))
                             (targetSet registry
                                (filter (\<lambda>skill. sel_id skill \<notin> set ids) (st_skills state))
                                (st_harnesses state))))))"
  shows "files (snd (skills_apply ext w root regRoot Remove b state registry ids)) p = None"
proof -
  have "files (removeStaleOutputs w root
       (staleTargets (targetSet registry (st_skills state) (st_harnesses state))
          (targetSet registry
             (filter (\<lambda>skill. sel_id skill \<notin> set ids) (st_skills state))
             (st_harnesses state)))
       (buildBackupOptions root b (ext_backupTime ext))) p = None"
    using stale copies by (intro files_removeStaleOutputs_stale) auto
  moreover have "files
           (snd (case renderAll hb w1 root regRoot (reg_skills registry) (reg_harnesses registry)
                        (filter (\<lambda>skill. sel_id skill \<notin> set ids) (st_skills state))
                        (st_harnesses state)
                        (buildBackupOptions root b (ext_backupTime ext)) of
                   (Inl e, w2) \<Rightarrow> (Inl e, w2)
                 | (Inr createdFiles, w2) \<Rightarrow>
                     (Inr (), writeState stringify w2 root st
                                (buildBackupOptions root b (ext_backupTime ext))))) p
        = files w1 p" for hb w1 stringify st
    using written copies by (intro files_tail_other) (auto simp: write_targets_def)
  ultimately show ?thesis
    by (simp add: skills_apply_def Let_def targetSet_def)
qed

lemma files_harnesses_apply_stale:
  assumes stale: "p \<in> (\<lambda>t. path_join [root, t]) `
             set (staleTargets (targetSet registry (st_skills state) (st_harnesses state))
                    (targetSet registry (st_skills state)
                       (filter (\<lambda>harness. selh_id harness \<notin> set ids) (st_harnesses state))))"
    and written: "p \<notin> set (statePath_of root
                     # write_targets root regRoot registry
                         (state\<lparr>st_harnesses :=
                                  filter (\<lambda>harness. selh_id harness \<notin> set ids)
                                    (st_harnesses state)\<rparr>))"
    and copies: "p \<notin> set (concat (map (backup_path_of (buildBackupOptions root b (ext_backupTime ext)))
                     (statePath_of root
                      # write_targets root regRoot registry
                          (state\<lparr>st_harnesses :=
                                   filter (\<lambda>harness. selh_id harness \<notin> set ids)
                                     (st_harnesses state)\<rparr>)
                      @ map (\<lambda>t. path_join [root, t])
                          (staleTargets (targetSet registry (st_skills state) (st_harnesses state))
                             (targetSet registry (st_skills state)
                                (filter (\<lambda>harness. selh_id harness \<notin> set ids)
                                   (st_harnesses state)))))))"
  shows "files (snd (harnesses_apply ext w root regRoot Remove b state registry ids)) p = None"
proof -
  have "files (removeStaleOutputs w root
       (staleTargets (targetSet registry (st_skills state) (st_harnesses state))
          (targetSet registry (st_skills state)
             (filter (\<lambda>harness. selh_id harness \<notin> set ids) (st_harnesses state))))
       (buildBackupOptions root b (ext_backupTime ext))) p = None"
    using stale copies by (intro files_removeStaleOutputs_stale) auto
  moreover have "files
           (snd (case renderAll hb w1 root regRoot (reg_skills registry) (reg_harnesses registry)
                        (st_skills state)
                        (filter (\<lambda>harness. selh_id harness \<notin> set ids) (st_harnesses state))
                        (buildBackupOptions root b (ext_backupTime ext)) of
                   (Inl e, w2) \<Rightarrow> (Inl e, w2)
                 | (Inr createdFiles, w2) \<Rightarrow>
                     (Inr (), writeState stringify w2 root st
                                (buildBackupOptions root b (ext_backupTime ext))))) p
        = files w1 p" for hb w1 stringify st
    using written copies by (intro files_tail_other) (auto simp: write_targets_def)
  ultimately show ?thesis
    by (simp add: harnesses_apply_def Let_def targetSet_def)
qed

lemma files_skills_remove_stale:
  assumes st: "findManagerState (ext_parse ext) w root = Inr (Some state)"
    and reg: "load_registry ext = Inr registry"
    and pick: "set (prompt_values ext ''Remove skills'' (map skill_id (skill_choices registry state Remove)))
                 \<subseteq> set (map skill_id (skill_choices registry state Remove))"
    and stale: "p \<in> (\<lambda>t. path_join [root, t]) `
             set (staleTargets (targetSet registry (st_skills state) (st_harnesses state))
                    (targetSet registry
                       (filter (\<lambda>skill. sel_id skill \<notin>
                                  set (prompt_values ext ''Remove skills''
                                         (map skill_id (skill_choices registry state Remove))))
                          (st_skills state))
                       (st_harnesses state)))"
    and written: "p \<notin> set (statePath_of root
                     # write_targets root regRoot registry
                         (state\<lparr>st_skills :=
                                  filter (\<lambda>skill. sel_id skill \<notin>
                                            set (prompt_values ext ''Remove skills''
                                                   (map skill_id
                                                      (skill_choices registry state Remove))))
                                    (st_skills state)\<rparr>))"
    and copies: "p \<notin> set (concat (map (backup_path_of (buildBackupOptions root b (ext_backupTime ext)))
                     (statePath_of root
                      # write_targets root regRoot registry
                          (state\<lparr>st_skills :=
                                   filter (\<lambda>skill. sel_id skill \<notin>
                                             set (prompt_values ext ''Remove skills''
                                                    (map skill_id
                                                       (skill_choices registry state Remove))))
                                     (st_skills state)\<rparr>)
                      @ map (\<lambda>t. path_join [root, t])
                          (staleTargets (targetSet registry (st_skills state) (st_harnesses state))
                             (targetSet registry
                                (filter (\<lambda>skill. sel_id skill \<notin>
                                           set (prompt_values ext ''Remove skills''
                                                  (map skill_id
                                                     (skill_choices registry state Remove))))
                                   (st_skills state))
                                (st_harnesses state))))))"
  shows "files (snd (runSkillsAddRemove ext w root regRoot Remove b)) p = None"
proof (cases "prompt_values ext ''Remove skills'' (map skill_id (skill_choices registry state Remove)) = []")
  case True
  with stale show ?thesis by (simp add: staleTargets_self)
next
  case False
  with pick have "skill_choices registry state Remove \<noteq> []" by auto
  with False st reg have
    "runSkillsAddRemove ext w root regRoot Remove b
       = skills_apply ext w root regRoot Remove b state registry
           (prompt_values ext ''Remove skills'' (map skill_id (skill_choices registry state Remove)))"
    by (simp add: runSkillsAddRemove_def Let_def)
  then show ?thesis
    using files_skills_apply_stale [OF stale written copies] by simp
qed

lemma files_harnesses_remove_stale:
  assumes st: "findManagerState (ext_parse ext) w root = Inr (Some state)"
    and reg: "load_registry ext = Inr registry"
    and pick: "set (prompt_values ext ''Remove harnesses''
                      (map harness_id (harness_choices registry state Remove)))
                 \<subseteq> set (map harness_id (harness_choices registry state Remove))"
    and stale: "p \<in> (\<lambda>t. path_join [root, t]) `
             set (staleTargets (targetSet registry (st_skills state) (st_harnesses state))
                    (targetSet registry (st_skills state)
                       (filter (\<lambda>harness. selh_id harness \<notin>
                                  set (prompt_values ext ''Remove harnesses''
                                         (map harness_id (harness_choices registry state Remove))))
                          (st_harnesses state))))"
    and written: "p \<notin> set (statePath_of root
                     # write_targets root regRoot registry
                         (state\<lparr>st_harnesses :=
                                  filter (\<lambda>harness. selh_id harness \<notin>
                                            set (prompt_values ext ''Remove harnesses''
                                                   (map harness_id
                                                      (harness_choices registry state Remove))))
                                    (st_harnesses state)\<rparr>))"
    and copies: "p \<notin> set (concat (map (backup_path_of (buildBackupOptions root b (ext_backupTime ext)))
                     (statePath_of root
                      # write_targets root regRoot registry
                          (state\<lparr>st_harnesses :=
                                   filter (\<lambda>harness. selh_id harness \<notin>
                                             set (prompt_values ext ''Remove harnesses''
                                                    (map harness_id
                                                       (harness_choices registry state Remove))))
                                     (st_harnesses state)\<rparr>)
                      @ map (\<lambda>t. path_join [root, t])
                          (staleTargets (targetSet registry (st_skills state) (st_harnesses state))
                             (targetSet registry (st_skills state)
                                (filter (\<lambda>harness. selh_id harness \<notin>
                                           set (prompt_values ext ''Remove harnesses''
                                                  (map harness_id
                                                     (harness_choices registry state Remove))))
                                   (st_harnesses state)))))))"
  shows "files (snd (runHarnessesAddRemove ext w root regRoot Remove b)) p = None"
proof (cases "prompt_values ext ''Remove harnesses''
                (map harness_id (harness_choices registry state Remove)) = []")
  case True
  with stale show ?thesis by (simp add: staleTargets_self)
next
  case False
  with pick have "harness_choices registry state Remove \<noteq> []" by auto
  with False st reg have
    "runHarnessesAddRemove ext w root regRoot Remove b
       = harnesses_apply ext w root regRoot Remove b state registry
           (prompt_values ext ''Remove harnesses''
              (map harness_id (harness_choices registry state Remove)))"
    by (simp add: runHarnessesAddRemove_def Let_def)
  then show ?thesis
    using files_harnesses_apply_stale [OF stale written copies] by simp
qed

text \<open>
  Claim C1. For a project with a persisted state and a registry that loads, where the
  user picks among the choices the prompt offers: the paths the remove operation (of
  skills, and of harnesses) deletes are exactly the project paths of the stale targets,
  and the stale targets are the target set of the persisted selection less the target
  set of the selection that remains, both computed from the manifests' declared outputs.
  A file that exists before a remove operation, at a path that is not the project path of
  a stale target, exists after it. There is no file at the project path of a stale target
  after the remove operation, whether the renders that follow succeed or fail, unless the
  operation itself writes that path again: as the state file, as a target of the
  selection that remains, or as the backup copy of one of these or of a removed file; and
  after the loop of \<^verbatim>\<open>removeStaleOutputs\<close> over any list of targets there is no file
  at the project path of a target of the list that is not the backup copy of another. An
  add operation and the init command delete nothing, and every file that exists before
  them exists after them; for an add operation that difference is empty. Without a
  persisted state, or without a registry, the add and remove operations leave the file
  system as it is.
\<close>

theorem C1_delta_correctness:
  "(findManagerState (ext_parse ext) w projectRoot = Inr (Some state)
      \<and> load_registry ext = Inr registry
      \<and> set (prompt_values ext ''Remove skills'' (map skill_id (skill_choices registry state Remove)))
           \<subseteq> set (map skill_id (skill_choices registry state Remove))
      \<and> set (prompt_values ext ''Remove harnesses''
                (map harness_id (harness_choices registry state Remove)))
           \<subseteq> set (map harness_id (harness_choices registry state Remove))
    \<longrightarrow>
      removed_paths (events (snd (runSkillsAddRemove ext w projectRoot registryRoot' Remove enableBackup)))
        = removed_paths (events w) @
          map (\<lambda>t. path_join [projectRoot, t])
            (staleTargets (targetSet registry (st_skills state) (st_harnesses state))
               (targetSet registry
                  (filter (\<lambda>skill. sel_id skill \<notin>
                             set (prompt_values ext ''Remove skills''
                                    (map skill_id (skill_choices registry state Remove))))
                     (st_skills state))
                  (st_harnesses state)))
    \<and> removed_paths (events (snd (runHarnessesAddRemove ext w projectRoot registryRoot' Remove enableBackup)))
        = removed_paths (events w) @
          map (\<lambda>t. path_join [projectRoot, t])
            (staleTargets (targetSet registry (st_skills state) (st_harnesses state))
               (targetSet registry (st_skills state)
                  (filter (\<lambda>harness. selh_id harness \<notin>
                             set (prompt_values ext ''Remove harnesses''
                                    (map harness_id (harness_choices registry state Remove))))
                     (st_harnesses state)))))
   \<and> (findManagerState (ext_parse ext) w projectRoot = Inr (Some state)
      \<and> load_registry ext = Inr registry
      \<and> pathExists w p
    \<longrightarrow>
      (p \<notin> (\<lambda>t. path_join [projectRoot, t]) `
             set (staleTargets (targetSet registry (st_skills state) (st_harnesses state))
                    (targetSet registry
                       (filter (\<lambda>skill. sel_id skill \<notin>
                                  set (prompt_values ext ''Remove skills''
                                         (map skill_id (skill_choices registry state Remove))))
                          (st_skills state))
                       (st_harnesses state))) \<longrightarrow>
       pathExists (snd (runSkillsAddRemove ext w projectRoot registryRoot' Remove enableBackup)) p)
    \<and> (p \<notin> (\<lambda>t. path_join [projectRoot, t]) `
             set (staleTargets (targetSet registry (st_skills state) (st_harnesses state))
                    (targetSet registry (st_skills state)
                       (filter (\<lambda>harness. selh_id harness \<notin>
                                  set (prompt_values ext ''Remove harnesses''
                                         (map harness_id
                                            (harness_choices registry state Remove))))
                          (st_harnesses state)))) \<longrightarrow>
       pathExists (snd (runHarnessesAddRemove ext w projectRoot registryRoot' Remove enableBackup)) p))
   \<and> (findManagerState (ext_parse ext) w projectRoot = Inr (Some state)
      \<and> load_registry ext = Inr registry
      \<and> set (prompt_values ext ''Remove skills'' (map skill_id (skill_choices registry state Remove)))
           \<subseteq> set (map skill_id (skill_choices registry state Remove))
      \<and> set (prompt_values ext ''Remove harnesses''
                (map harness_id (harness_choices registry state Remove)))
           \<subseteq> set (map harness_id (harness_choices registry state Remove))
    \<longrightarrow>
      (q \<in> (\<lambda>t. path_join [projectRoot, t]) `
             set (staleTargets (targetSet registry (st_skills state) (st_harnesses state))
                    (targetSet registry
                       (filter (\<lambda>skill. sel_id skill \<notin>
                                  set (prompt_values ext ''Remove skills''
                                         (map skill_id (skill_choices registry state Remove))))
                          (st_skills state))
                       (st_harnesses state)))
       \<and> q \<notin> set (statePath_of projectRoot
                     # write_targets projectRoot registryRoot' registry
                         (state\<lparr>st_skills :=
                                  filter (\<lambda>skill. sel_id skill \<notin>
                                            set (prompt_values ext ''Remove skills''
                                                   (map skill_id
                                                      (skill_choices registry state Remove))))
                                    (st_skills state)\<rparr>))
       \<and> q \<notin> set (concat (map (backup_path_of (buildBackupOptions projectRoot enableBackup (ext_backupTime ext)))
                     (statePath_of projectRoot
                      # write_targets projectRoot registryRoot' registry
                          (state\<lparr>st_skills :=
                                   filter (\<lambda>skill. sel_id skill \<notin>
                                             set (prompt_values ext ''Remove skills''
                                                    (map skill_id
                                                       (skill_choices registry state Remove))))
                                     (st_skills state)\<rparr>)
                      @ map (\<lambda>t. path_join [projectRoot, t])
                          (staleTargets (targetSet registry (st_skills state) (st_harnesses state))
                             (targetSet registry
                                (filter (\<lambda>skill. sel_id skill \<notin>
                                           set (prompt_values ext ''Remove skills''
                                                  (map skill_id
                                                     (skill_choices registry state Remove))))
                                   (st_skills state))
                                (st_harnesses state))))))
       \<longrightarrow>
         files (snd (runSkillsAddRemove ext w projectRoot registryRoot' Remove enableBackup)) q = None)
    \<and> (q \<in> (\<lambda>t. path_join [projectRoot, t]) `
             set (staleTargets (targetSet registry (st_skills state) (st_harnesses state))
                    (targetSet registry (st_skills state)
                       (filter (\<lambda>harness. selh_id harness \<notin>
                                  set (prompt_values ext ''Remove harnesses''
                                         (map harness_id (harness_choices registry state Remove))))
                          (st_harnesses state))))
       \<and> q \<notin> set (statePath_of projectRoot
                     # write_targets projectRoot registryRoot' registry
                         (state\<lparr>st_harnesses :=
                                  filter (\<lambda>harness. selh_id harness \<notin>
                                            set (prompt_values ext ''Remove harnesses''
                                                   (map harness_id
                                                      (harness_choices registry state Remove))))
                                    (st_harnesses state)\<rparr>))
       \<and> q \<notin> set (concat (map (backup_path_of (buildBackupOptions projectRoot enableBackup (ext_backupTime ext)))
                     (statePath_of projectRoot
                      # write_targets projectRoot registryRoot' registry
                          (state\<lparr>st_harnesses :=
                                   filter (\<lambda>harness. selh_id harness \<notin>
                                             set (prompt_values ext ''Remove harnesses''
                                                    (map harness_id
                                                       (harness_choices registry state Remove))))
                                     (st_harnesses state)\<rparr>)
                      @ map (\<lambda>t. path_join [projectRoot, t])
                          (staleTargets (targetSet registry (st_skills state) (st_harnesses state))
                             (targetSet registry (st_skills state)
                                (filter (\<lambda>harness. selh_id harness \<notin>
                                           set (prompt_values ext ''Remove harnesses''
                                                  (map harness_id
                                                     (harness_choices registry state Remove))))
                                   (st_harnesses state)))))))
       \<longrightarrow>
         files (snd (runHarnessesAddRemove ext w projectRoot registryRoot' Remove enableBackup)) q = None))
   \<and> (q \<in> (\<lambda>t. path_join [projectRoot, t]) ` set ts
      \<and> q \<notin> set (concat (map (backup_path_of backup)
                                (map (\<lambda>t. path_join [projectRoot, t]) ts)))
    \<longrightarrow>
      files (removeStaleOutputs w projectRoot ts backup) q = None)
   \<and> set (staleTargets (targetSet registry S1 H1) (targetSet registry S2 H2))
       = set (targetSet registry S1 H1) - set (targetSet registry S2 H2)
   \<and> removed_paths (events (snd (runSkillsAddRemove ext w projectRoot registryRoot' Add enableBackup)))
       = removed_paths (events w)
   \<and> removed_paths (events (snd (runHarnessesAddRemove ext w projectRoot registryRoot' Add enableBackup)))
       = removed_paths (events w)
   \<and> removed_paths (events (snd (init_action ext w projectRoot registryRoot' enableBackup)))
       = removed_paths (events w)
   \<and> (pathExists w p \<longrightarrow>
        pathExists (snd (runSkillsAddRemove ext w projectRoot registryRoot' Add enableBackup)) p
      \<and> pathExists (snd (runHarnessesAddRemove ext w projectRoot registryRoot' Add enableBackup)) p
      \<and> pathExists (snd (init_action ext w projectRoot registryRoot' enableBackup)) p)
   \<and> (add_skills ask (reg_skills registry) ids S1 = Inr S2 \<longrightarrow>
        staleTargets (targetSet registry S1 H1) (targetSet registry S2 H1) = [])
   \<and> staleTargets (targetSet registry S1 H1)
        (targetSet registry S1 (H1 @ harness_selection (reg_harnesses registry) ids)) = []
   \<and> ((\<forall>state'. findManagerState (ext_parse ext) w projectRoot \<noteq> Inr (Some state'))
        \<or> (\<forall>registry'. load_registry ext \<noteq> Inr registry') \<longrightarrow>
        snd (runSkillsAddRemove ext w projectRoot registryRoot' act enableBackup) = w
      \<and> snd (runHarnessesAddRemove ext w projectRoot registryRoot' act enableBackup) = w)"
proof -
  have remove: "findManagerState (ext_parse ext) w projectRoot = Inr (Some state)
      \<and> load_registry ext = Inr registry
      \<and> set (prompt_values ext ''Remove skills'' (map skill_id (skill_choices registry state Remove)))
           \<subseteq> set (map skill_id (skill_choices registry state Remove))
      \<and> set (prompt_values ext ''Remove harnesses''
                (map harness_id (harness_choices registry state Remove)))
           \<subseteq> set (map harness_id (harness_choices registry state Remove))
    \<longrightarrow>
      removed_paths (events (snd (runSkillsAddRemove ext w projectRoot registryRoot' Remove enableBackup)))
        = removed_paths (events w) @
          map (\<lambda>t. path_join [projectRoot, t])
            (staleTargets (targetSet registry (st_skills state) (st_harnesses state))
               (targetSet registry
                  (filter (\<lambda>skill. sel_id skill \<notin>
                             set (prompt_values ext ''Remove skills''
                                    (map skill_id (skill_choices registry state Remove))))
                     (st_skills state))
                  (st_harnesses state)))
    \<and> removed_paths (events (snd (runHarnessesAddRemove ext w projectRoot registryRoot' Remove enableBackup)))
        = removed_paths (events w) @
          map (\<lambda>t. path_join [projectRoot, t])
            (staleTargets (targetSet registry (st_skills state) (st_harnesses state))
               (targetSet registry (st_skills state)
                  (filter (\<lambda>harness. selh_id harness \<notin>
                             set (prompt_values ext ''Remove harnesses''
                                    (map harness_id (harness_choices registry state Remove))))
                     (st_harnesses state))))"
    using removed_paths_skills_remove [of ext w projectRoot state registry registryRoot' enableBackup]
      removed_paths_harnesses_remove [of ext w projectRoot state registry registryRoot' enableBackup]
    by blast
  have gone: "(findManagerState (ext_parse ext) w projectRoot = Inr (Some state)
      \<and> load_registry ext = Inr registry
      \<and> set (prompt_values ext ''Remove skills'' (map skill_id (skill_choices registry state Remove)))
           \<subseteq> set (map skill_id (skill_choices registry state Remove))
      \<and> set (prompt_values ext ''Remove harnesses''
                (map harness_id (harness_choices registry state Remove)))
           \<subseteq> set (map harness_id (harness_choices registry state Remove))
    \<longrightarrow>
      (q \<in> (\<lambda>t. path_join [projectRoot, t]) `
             set (staleTargets (targetSet registry (st_skills state) (st_harnesses state))
                    (targetSet registry
                       (filter (\<lambda>skill. sel_id skill \<notin>
                                  set (prompt_values ext ''Remove skills''
                                         (map skill_id (skill_choices registry state Remove))))
                          (st_skills state))
                       (st_harnesses state)))
       \<and> q \<notin> set (statePath_of projectRoot
                     # write_targets projectRoot registryRoot' registry
                         (state\<lparr>st_skills :=
                                  filter (\<lambda>skill. sel_id skill \<notin>
                                            set (prompt_values ext ''Remove skills''
                                                   (map skill_id
                                                      (skill_choices registry state Remove))))
                                    (st_skills state)\<rparr>))
       \<and> q \<notin> set (concat (map (backup_path_of (buildBackupOptions projectRoot enableBackup (ext_backupTime ext)))
                     (statePath_of projectRoot
                      # write_targets projectRoot registryRoot' registry
                          (state\<lparr>st_skills :=
                                   filter (\<lambda>skill. sel_id skill \<notin>
                                             set (prompt_values ext ''Remove skills''
                                                    (map skill_id
                                                       (skill_choices registry state Remove))))
                                     (st_skills state)\<rparr>)
                      @ map (\<lambda>t. path_join [projectRoot, t])
                          (staleTargets (targetSet registry (st_skills state) (st_harnesses state))
                             (targetSet registry
                                (filter (\<lambda>skill. sel_id skill \<notin>
                                           set (prompt_values ext ''Remove skills''
                                                  (map skill_id
                                                     (skill_choices registry state Remove))))
                                   (st_skills state))
                                (st_harnesses state))))))
       \<longrightarrow>
         files (snd (runSkillsAddRemove ext w projectRoot registryRoot' Remove enableBackup)) q = None)
    \<and> (q \<in> (\<lambda>t. path_join [projectRoot, t]) `
             set (staleTargets (targetSet registry (st_skills state) (st_harnesses state))
                    (targetSet registry (st_skills state)
                       (filter (\<lambda>harness. selh_id harness \<notin>
                                  set (prompt_values ext ''Remove harnesses''
                                         (map harness_id (harness_choices registry state Remove))))
                          (st_harnesses state))))
       \<and> q \<notin> set (statePath_of projectRoot
                     # write_targets projectRoot registryRoot' registry
                         (state\<lparr>st_harnesses :=
                                  filter (\<lambda>harness. selh_id harness \<notin>
                                            set (prompt_values ext ''Remove harnesses''
                                                   (map harness_id
                                                      (harness_choices registry state Remove))))
                                    (st_harnesses state)\<rparr>))
       \<and> q \<notin> set (concat (map (backup_path_of (buildBackupOptions projectRoot enableBackup (ext_backupTime ext)))
                     (statePath_of projectRoot
                      # write_targets projectRoot registryRoot' registry
                          (state\<lparr>st_harnesses :=
                                   filter (\<lambda>harness. selh_id harness \<notin>
                                             set (prompt_values ext ''Remove harnesses''
                                                    (map harness_id
                                                       (harness_choices registry state Remove))))
                                     (st_harnesses state)\<rparr>)
                      @ map (\<lambda>t. path_join [projectRoot, t])
                          (staleTargets (targetSet registry (st_skills state) (st_harnesses state))
                             (targetSet registry (st_skills state)
                                (filter (\<lambda>harness. selh_id harness \<notin>
                                           set (prompt_values ext ''Remove harnesses''
                                                  (map harness_id
                                                     (harness_choices registry state Remove))))
                                   (st_harnesses state)))))))
       \<longrightarrow>
         files (snd (runHarnessesAddRemove ext w projectRoot registryRoot' Remove enableBackup)) q = None))"
    by (intro impI conjI; elim conjE;
        (rule files_skills_remove_stale files_harnesses_remove_stale; assumption))
  have loop: "(q \<in> (\<lambda>t. path_join [projectRoot, t]) ` set ts
      \<and> q \<notin> set (concat (map (backup_path_of backup)
                                (map (\<lambda>t. path_join [projectRoot, t]) ts)))
    \<longrightarrow>
      files (removeStaleOutputs w projectRoot ts backup) q = None)"
    by (intro impI; elim conjE; rule files_removeStaleOutputs_stale; assumption)
  have keep_remove: "(findManagerState (ext_parse ext) w projectRoot = Inr (Some state)
      \<and> load_registry ext = Inr registry
      \<and> pathExists w p
    \<longrightarrow>
      (p \<notin> (\<lambda>t. path_join [projectRoot, t]) `
             set (staleTargets (targetSet registry (st_skills state) (st_harnesses state))
                    (targetSet registry
                       (filter (\<lambda>skill. sel_id skill \<notin>
                                  set (prompt_values ext ''Remove skills''
                                         (map skill_id (skill_choices registry state Remove))))
                          (st_skills state))
                       (st_harnesses state))) \<longrightarrow>
       pathExists (snd (runSkillsAddRemove ext w projectRoot registryRoot' Remove enableBackup)) p)
    \<and> (p \<notin> (\<lambda>t. path_join [projectRoot, t]) `
             set (staleTargets (targetSet registry (st_skills state) (st_harnesses state))
                    (targetSet registry (st_skills state)
                       (filter (\<lambda>harness. selh_id harness \<notin>
                                  set (prompt_values ext ''Remove harnesses''
                                         (map harness_id
                                            (harness_choices registry state Remove))))
                          (st_harnesses state)))) \<longrightarrow>
       pathExists (snd (runHarnessesAddRemove ext w projectRoot registryRoot' Remove enableBackup)) p))"
    using pathExists_skills_remove [of ext w projectRoot state registry p registryRoot' enableBackup]
      pathExists_harnesses_remove [of ext w projectRoot state registry p registryRoot' enableBackup]
    by blast
  have keep_add: "(pathExists w p \<longrightarrow>
        pathExists (snd (runSkillsAddRemove ext w projectRoot registryRoot' Add enableBackup)) p
      \<and> pathExists (snd (runHarnessesAddRemove ext w projectRoot registryRoot' Add enableBackup)) p
      \<and> pathExists (snd (init_action ext w projectRoot registryRoot' enableBackup)) p)"
    using pathExists_skills_add pathExists_harnesses_add pathExists_init_action by blast
  have diff: "set (staleTargets (targetSet registry S1 H1) (targetSet registry S2 H2))
       = set (targetSet registry S1 H1) - set (targetSet registry S2 H2)"
    by (rule set_staleTargets)
  have add1: "add_skills ask (reg_skills registry) ids S1 = Inr S2 \<longrightarrow>
        staleTargets (targetSet registry S1 H1) (targetSet registry S2 H1) = []"
  proof
    assume "add_skills ask (reg_skills registry) ids S1 = Inr S2"
    then obtain new where "S2 = S1 @ new" using add_skills_extends by blast
    then have "set (targetSet registry S1 H1) \<subseteq> set (targetSet registry S2 H1)"
      by (intro targetSet_mono) auto
    then show "staleTargets (targetSet registry S1 H1) (targetSet registry S2 H1) = []"
      by (simp add: staleTargets_empty_iff)
  qed
  have add2: "staleTargets (targetSet registry S1 H1)
        (targetSet registry S1 (H1 @ harness_selection (reg_harnesses registry) ids)) = []"
    unfolding staleTargets_empty_iff by (intro targetSet_mono) auto
  have none: "(\<forall>state'. findManagerState (ext_parse ext) w projectRoot \<noteq> Inr (Some state'))
        \<or> (\<forall>registry'. load_registry ext \<noteq> Inr registry') \<longrightarrow>
        snd (runSkillsAddRemove ext w projectRoot registryRoot' act enableBackup) = w
      \<and> snd (runHarnessesAddRemove ext w projectRoot registryRoot' act enableBackup) = w"
    using snd_runSkillsAddRemove_cases [of ext w projectRoot registryRoot' act enableBackup]
      snd_runHarnessesAddRemove_cases [of ext w projectRoot registryRoot' act enableBackup]
    by auto
  show ?thesis
    by (intro conjI remove keep_remove gone loop keep_add diff add1 add2 none
        removed_paths_skills_add removed_paths_harnesses_add removed_paths_init_action)
qed

theorem C1_delta_correctness_witness:
  "findManagerState (ext_parse ex_ext) ex_world ''/proj'' = Inr (Some ex_state)
   \<and> load_registry ex_ext = Inr ex_registry
   \<and> prompt_values ex_ext ''Remove skills'' (map skill_id (skill_choices ex_registry ex_state Remove))
       = [''frontend-design'']
   \<and> prompt_values ex_ext ''Remove harnesses''
         (map harness_id (harness_choices ex_registry ex_state Remove))
       = [''cursor'']
   \<and> removed_paths (events (snd (runSkillsAddRemove ex_ext ex_world ''/proj'' ''/reg'' Remove True)))
       = [''/proj/ai/skills/frontend-design-skill.md'']
   \<and> removed_paths (events (snd (runHarnessesAddRemove ex_ext ex_world ''/proj'' ''/reg'' Remove True)))
       = [''/proj/.cursor/rules/ai-manager.mdc'']
   \<and> pathExists ex_world ''/proj/ai/skills/backend-skill.md''
   \<and> pathExists (snd (runSkillsAddRemove ex_ext ex_world ''/proj'' ''/reg'' Remove True))
         ''/proj/ai/skills/backend-skill.md''
   \<and> files ex_world ''/proj/ai/skills/frontend-design-skill.md'' = Some ''old frontend''
   \<and> files (snd (runSkillsAddRemove ex_ext ex_world ''/proj'' ''/reg'' Remove True))
         ''/proj/ai/skills/frontend-design-skill.md'' = None"
proof -
  have st: "findManagerState (ext_parse ex_ext) ex_world ''/proj'' = Inr (Some ex_state)"
    by code_simp
  have reg: "load_registry ex_ext = Inr ex_registry"
    by code_simp
  have p1: "prompt_values ex_ext ''Remove skills''
              (map skill_id (skill_choices ex_registry ex_state Remove)) = [''frontend-design'']"
    by code_simp
  have p2: "prompt_values ex_ext ''Remove harnesses''
              (map harness_id (harness_choices ex_registry ex_state Remove)) = [''cursor'']"
    by code_simp
  have c1: "set (prompt_values ex_ext ''Remove skills''
                  (map skill_id (skill_choices ex_registry ex_state Remove)))
            \<subseteq> set (map skill_id (skill_choices ex_registry ex_state Remove))"
    by code_simp
  have c2: "set (prompt_values ex_ext ''Remove harnesses''
                  (map harness_id (harness_choices ex_registry ex_state Remove)))
            \<subseteq> set (map harness_id (harness_choices ex_registry ex_state Remove))"
    by code_simp
  have s1: "removed_paths (events ex_world) @
          map (\<lambda>t. path_join [''/proj'', t])
            (staleTargets (targetSet ex_registry (st_skills ex_state) (st_harnesses ex_state))
               (targetSet ex_registry
                  (filter (\<lambda>skill. sel_id skill \<notin>
                             set (prompt_values ex_ext ''Remove skills''
                                    (map skill_id (skill_choices ex_registry ex_state Remove))))
                     (st_skills ex_state))
                  (st_harnesses ex_state)))
        = [''/proj/ai/skills/frontend-design-skill.md'']"
    by code_simp
  have s2: "removed_paths (events ex_world) @
          map (\<lambda>t. path_join [''/proj'', t])
            (staleTargets (targetSet ex_registry (st_skills ex_state) (st_harnesses ex_state))
               (targetSet ex_registry (st_skills ex_state)
                  (filter (\<lambda>harness. selh_id harness \<notin>
                             set (prompt_values ex_ext ''Remove harnesses''
                                    (map harness_id (harness_choices ex_registry ex_state Remove))))
                     (st_harnesses ex_state))))
        = [''/proj/.cursor/rules/ai-manager.mdc'']"
    by code_simp
  have e1: "pathExists ex_world ''/proj/ai/skills/backend-skill.md''"
    by code_simp
  have e2: "''/proj/ai/skills/backend-skill.md'' \<notin> (\<lambda>t. path_join [''/proj'', t]) `
             set (staleTargets (targetSet ex_registry (st_skills ex_state) (st_harnesses ex_state))
                    (targetSet ex_registry
                       (filter (\<lambda>skill. sel_id skill \<notin>
                                  set (prompt_values ex_ext ''Remove skills''
                                         (map skill_id (skill_choices ex_registry ex_state Remove))))
                          (st_skills ex_state))
                       (st_harnesses ex_state)))"
    by code_simp
  have g0: "files ex_world ''/proj/ai/skills/frontend-design-skill.md'' = Some ''old frontend''"
    by code_simp
  have g1: "''/proj/ai/skills/frontend-design-skill.md'' \<in> (\<lambda>t. path_join [''/proj'', t]) `
             set (staleTargets (targetSet ex_registry (st_skills ex_state) (st_harnesses ex_state))
                    (targetSet ex_registry
                       (filter (\<lambda>skill. sel_id skill \<notin>
                                  set (prompt_values ex_ext ''Remove skills''
                                         (map skill_id (skill_choices ex_registry ex_state Remove))))
                          (st_skills ex_state))
                       (st_harnesses ex_state)))"
    by code_simp
  have g2: "''/proj/ai/skills/frontend-design-skill.md'' \<notin> set (statePath_of ''/proj''
                     # write_targets ''/proj'' ''/reg'' ex_registry
                         (ex_state\<lparr>st_skills :=
                                  filter (\<lambda>skill. sel_id skill \<notin>
                                            set (prompt_values ex_ext ''Remove skills''
                                                   (map skill_id
                                                      (skill_choices ex_registry ex_state Remove))))
                                    (st_skills ex_state)\<rparr>))"
    by code_simp
  have g3: "''/proj/ai/skills/frontend-design-skill.md'' \<notin> set (concat (map (backup_path_of (buildBackupOptions ''/proj'' True (ext_backupTime ex_ext)))
                     (statePath_of ''/proj''
                      # write_targets ''/proj'' ''/reg'' ex_registry
                          (ex_state\<lparr>st_skills :=
                                   filter (\<lambda>skill. sel_id skill \<notin>
                                             set (prompt_values ex_ext ''Remove skills''
                                                    (map skill_id
                                                       (skill_choices ex_registry ex_state Remove))))
                                     (st_skills ex_state)\<rparr>)
                      @ map (\<lambda>t. path_join [''/proj'', t])
                          (staleTargets (targetSet ex_registry (st_skills ex_state) (st_harnesses ex_state))
                             (targetSet ex_registry
                                (filter (\<lambda>skill. sel_id skill \<notin>
                                           set (prompt_values ex_ext ''Remove skills''
                                                  (map skill_id
                                                     (skill_choices ex_registry ex_state Remove))))
                                   (st_skills ex_state))
                                (st_harnesses ex_state))))))"
    by code_simp
  note c = C1_delta_correctness [where ext = ex_ext and w = ex_world and projectRoot = "''/proj''"
      and state = ex_state and registry = ex_registry and registryRoot' = "''/reg''"
      and enableBackup = True and ?S1.0 = "[]" and ?H1.0 = "[]" and ?S2.0 = "[]"
      and ?H2.0 = "[]" and ask = "ext_ask ex_ext" and ids = "[]" and act = Remove
      and p = "''/proj/ai/skills/backend-skill.md''"
      and q = "''/proj/ai/skills/frontend-design-skill.md''"]
  from c st reg c1 c2 have
    r1: "removed_paths (events (snd (runSkillsAddRemove ex_ext ex_world ''/proj'' ''/reg'' Remove True)))
        = removed_paths (events ex_world) @
          map (\<lambda>t. path_join [''/proj'', t])
            (staleTargets (targetSet ex_registry (st_skills ex_state) (st_harnesses ex_state))
               (targetSet ex_registry
                  (filter (\<lambda>skill. sel_id skill \<notin>
                             set (prompt_values ex_ext ''Remove skills''
                                    (map skill_id (skill_choices ex_registry ex_state Remove))))
                     (st_skills ex_state))
                  (st_harnesses ex_state)))"
    and r2: "removed_paths (events (snd (runHarnessesAddRemove ex_ext ex_world ''/proj'' ''/reg'' Remove True)))
        = removed_paths (events ex_world) @
          map (\<lambda>t. path_join [''/proj'', t])
            (staleTargets (targetSet ex_registry (st_skills ex_state) (st_harnesses ex_state))
               (targetSet ex_registry (st_skills ex_state)
                  (filter (\<lambda>harness. selh_id harness \<notin>
                             set (prompt_values ex_ext ''Remove harnesses''
                                    (map harness_id (harness_choices ex_registry ex_state Remove))))
                     (st_harnesses ex_state))))"
    by blast+
  from c st reg e1 e2 have
    r3: "pathExists (snd (runSkillsAddRemove ex_ext ex_world ''/proj'' ''/reg'' Remove True))
           ''/proj/ai/skills/backend-skill.md''"
    by blast
  have r4: "files (snd (runSkillsAddRemove ex_ext ex_world ''/proj'' ''/reg'' Remove True))
           ''/proj/ai/skills/frontend-design-skill.md'' = None"
    by (rule c [THEN conjunct2, THEN conjunct2, THEN conjunct1, THEN mp,
          OF conjI [OF st conjI [OF reg conjI [OF c1 c2]]], THEN conjunct1, THEN mp,
          OF conjI [OF g1 conjI [OF g2 g3]]])
  show ?thesis
    using st reg p1 p2 r1 [unfolded s1] r2 [unfolded s2] e1 r3 g0 r4 by blast
qed

section \<open>Selected ids without a manifest\<close>

lemma find_skill_None_iff: "find_skill skills g = None \<longleftrightarrow> g \<notin> skill_id ` set skills"
  by (auto simp: find_skill_def find_None_iff)

lemma find_harness_None_iff: "find_harness harnesses h = None \<longleftrightarrow> h \<notin> harness_id ` set harnesses"
  by (auto simp: find_harness_def find_None_iff)

lemma collect_skills_skip:
  "find_skill skills g = None \<Longrightarrow>
   foldl (collect_skill_step skills) acc ids
     = foldl (collect_skill_step skills) acc (filter (\<lambda>i. i \<noteq> g) ids)"
  by (induction ids arbitrary: acc) (simp_all add: collect_skill_step_def)

lemma collect_harnesses_skip:
  "find_harness harnesses h = None \<Longrightarrow>
   foldl (collect_harness_step harnesses) acc ids
     = foldl (collect_harness_step harnesses) acc (filter (\<lambda>i. i \<noteq> h) ids)"
  by (induction ids arbitrary: acc) (simp_all add: collect_harness_step_def)

lemma skill_jobs_skip:
  "find_skill skills g = None \<Longrightarrow>
   skill_jobs regRoot skills S = skill_jobs regRoot skills (filter (\<lambda>s. sel_id s \<noteq> g) S)"
  by (induction S) (simp_all add: skill_jobs_def)

lemma harness_jobs_skip:
  "find_harness harnesses h = None \<Longrightarrow>
   harness_jobs regRoot harnesses H
     = harness_jobs regRoot harnesses (filter (\<lambda>s. selh_id s \<noteq> h) H)"
  by (induction H) (simp_all add: harness_jobs_def)

lemma map_result_cong:
  "(\<And>x. x \<in> set xs \<Longrightarrow> f x = g x) \<Longrightarrow> map_result f xs = map_result g xs"
  by (induction xs) (auto split: sum.splits)

lemma fromEntries_skip:
  "k \<noteq> g \<Longrightarrow>
   fromEntries (map (\<lambda>s. (sel_id s, answers s)) (filter (\<lambda>s. sel_id s \<noteq> g) S)) k
     = fromEntries (map (\<lambda>s. (sel_id s, answers s)) S) k"
  unfolding fromEntries_def
  by (induction S) (auto simp: map_add_def split: option.splits)

lemma buildAgentsMarkdown_skip:
  assumes g: "find_skill skills g = None"
  shows "buildAgentsMarkdown hb fs (agentsInput root regRoot skills S H)
       = buildAgentsMarkdown hb fs
           (agentsInput root regRoot skills (filter (\<lambda>s. sel_id s \<noteq> g) S) H)"
proof -
  let ?i1 = "agentsInput root regRoot skills S H"
  let ?i2 = "agentsInput root regRoot skills (filter (\<lambda>s. sel_id s \<noteq> g) S) H"
  have ne: "skill_id skill \<noteq> g" if "skill \<in> set skills" for skill
    using g that by (auto simp: find_skill_None_iff)
  have sel: "selectedSkills_of ?i1 = selectedSkills_of ?i2"
    unfolding selectedSkills_of_def agentsInput_def
    by (auto intro!: filter_cong dest: ne)
  have sub: "set (selectedSkills_of ?i1) \<subseteq> set skills"
    by (auto simp: selectedSkills_of_def agentsInput_def)
  have ans: "answers_for ?i1 skill = answers_for ?i2 skill" if "skill \<in> set skills" for skill
    using ne [OF that] by (simp add: answers_for_def agentsInput_def fromEntries_skip)
  have root: "registryRoot ?i1 = registryRoot ?i2" "in_projectName ?i1 = in_projectName ?i2"
    "in_harnesses ?i1 = in_harnesses ?i2"
    by (simp_all add: agentsInput_def)
  have snip: "render_snippet hb fs ?i1 skill = render_snippet hb fs ?i2 skill"
    if "skill \<in> set skills" for skill
    by (simp add: render_snippet_def ans [OF that] root)
  have act: "render_activationRules hb fs ?i1 skill = render_activationRules hb fs ?i2 skill"
    if "skill \<in> set skills" for skill
    by (simp add: render_activationRules_def ans [OF that] root)
  have guide: "guideSkills_of ?i1 = guideSkills_of ?i2"
    by (simp add: guideSkills_of_def sel)
  have m1: "map_result (render_snippet hb fs ?i1) (guideSkills_of ?i1)
          = map_result (render_snippet hb fs ?i2) (guideSkills_of ?i2)"
    unfolding guide [symmetric]
    using sub by (intro map_result_cong snip) (auto simp: guideSkills_of_def)
  have m2: "map_result (render_activationRules hb fs ?i1)
              (filter has_activationRules (selectedSkills_of ?i1))
          = map_result (render_activationRules hb fs ?i2)
              (filter has_activationRules (selectedSkills_of ?i2))"
    unfolding sel [symmetric]
    using sub by (intro map_result_cong act) auto
  have plan: "render_planSection hb fs ?i1 = render_planSection hb fs ?i2"
    by (simp add: render_planSection_def sel root cong: option.case_cong)
  have "buildTemplateContext hb fs ?i1 = buildTemplateContext hb fs ?i2"
    by (simp only: buildTemplateContext_def m1 m2 plan) (simp only: sel root)
  then show ?thesis
    by (simp add: buildAgentsMarkdown_def root cong: sum.case_cong)
qed

lemma renderAll_skip:
  assumes g: "find_skill skills g = None"
  shows "renderAll hb w root regRoot skills harnesses S H b
       = renderAll hb w root regRoot skills harnesses (filter (\<lambda>s. sel_id s \<noteq> g) S) H b"
  unfolding renderAll_jobs
  using buildAgentsMarkdown_skip [OF g, of hb "files w" root regRoot S H]
    skill_jobs_skip [OF g, of regRoot S]
  by (simp cong: sum.case_cong)


lemma find_skill_Some_id: "find_skill skills i = Some m \<Longrightarrow> skill_id m = i \<and> m \<in> set skills"
  by (auto simp: find_skill_def find_Some_iff)

lemma add_skills_keeps:
  "add_skills ask skills ids sel = Inr upd \<Longrightarrow> find_skill skills g = None \<Longrightarrow>
   filter (\<lambda>s. sel_id s = g) upd = filter (\<lambda>s. sel_id s = g) sel"
proof (induction ids arbitrary: sel)
  case Nil
  then show ?case by simp
next
  case (Cons i ids)
  show ?case
  proof (cases "find_skill skills i")
    case None
    with Cons show ?thesis by simp
  next
    case (Some m)
    then have "skill_id m \<noteq> g"
      using Cons.prems(2) find_skill_Some_id [OF Some] by (auto simp: find_skill_None_iff)
    show ?thesis
    proof (cases "askSkillQuestions ask m")
      case (Inl e)
      with Some Cons.prems show ?thesis by simp
    next
      case (Inr a)
      with Some Cons.prems have
        "add_skills ask skills ids
           (sel @ [\<lparr> sel_id = skill_id m, sel_version = skill_version m, answers = a \<rparr>])
         = Inr upd"
        by simp
      from Cons.IH [OF this Cons.prems(2)] \<open>skill_id m \<noteq> g\<close> show ?thesis by simp
    qed
  qed
qed

lemma skills_apply_state:
  assumes run: "skills_apply ext w root regRoot act b state registry ids = (Inr (), w')"
    and g: "find_skill (reg_skills registry) g = None"
    and ids: "g \<notin> set ids"
  shows "\<exists>updated.
           files w' (statePath_of root)
             = Some (ext_stringify ext (state\<lparr>updatedAt := ext_now ext, st_skills := updated\<rparr>)
                     @ newline)
         \<and> filter (\<lambda>s. sel_id s = g) updated = filter (\<lambda>s. sel_id s = g) (st_skills state)"
proof -
  let ?upd = "case act of
                 Add \<Rightarrow> add_skills (ext_ask ext) (reg_skills registry) ids (st_skills state)
               | Remove \<Rightarrow>
                   Inr (filter (\<lambda>skill. sel_id skill \<notin> set ids) (st_skills state))"
  from run obtain updated where u: "?upd = Inr updated"
    by (cases ?upd) (auto simp: skills_apply_def Let_def)
  have keep: "filter (\<lambda>s. sel_id s = g) updated = filter (\<lambda>s. sel_id s = g) (st_skills state)"
  proof (cases act)
    case Add
    with u show ?thesis using add_skills_keeps [OF _ g] by simp
  next
    case Remove
    with u have "updated = filter (\<lambda>skill. sel_id skill \<notin> set ids) (st_skills state)" by simp
    then show ?thesis using ids by (auto intro: filter_cong)
  qed
  from run u have
    "\<exists>w2. w' = writeState (ext_stringify ext) w2 root
                  (state\<lparr>updatedAt := ext_now ext, st_skills := updated\<rparr>)
                  (buildBackupOptions root b (ext_backupTime ext))"
    by (auto simp: skills_apply_def Let_def split: sum.splits prod.splits)
  then have "files w' (statePath_of root)
             = Some (ext_stringify ext (state\<lparr>updatedAt := ext_now ext, st_skills := updated\<rparr>)
                     @ newline)"
    by (auto simp: files_writeState)
  with keep show ?thesis by blast
qed

lemma harnesses_apply_state:
  assumes run: "harnesses_apply ext w root regRoot act b state registry ids = (Inr (), w')"
    and ids: "h \<notin> set ids"
  shows "\<exists>updated.
           files w' (statePath_of root)
             = Some (ext_stringify ext (state\<lparr>updatedAt := ext_now ext, st_harnesses := updated\<rparr>)
                     @ newline)
         \<and> filter (\<lambda>s. selh_id s = h) updated = filter (\<lambda>s. selh_id s = h) (st_harnesses state)"
proof -
  let ?upd = "case act of
               Add \<Rightarrow> st_harnesses state @ harness_selection (reg_harnesses registry) ids
             | Remove \<Rightarrow>
                 filter (\<lambda>harness. selh_id harness \<notin> set ids) (st_harnesses state)"
  have keep: "filter (\<lambda>s. selh_id s = h) ?upd = filter (\<lambda>s. selh_id s = h) (st_harnesses state)"
  proof (cases act)
    case Add
    have "filter (\<lambda>s. selh_id s = h) (harness_selection (reg_harnesses registry) ids) = []"
      using ids by (auto simp: harness_selection_def filter_empty_conv)
    with Add show ?thesis by simp
  next
    case Remove
    then show ?thesis using ids by (auto intro: filter_cong)
  qed
  from run have
    "\<exists>w2. w' = writeState (ext_stringify ext) w2 root
                  (state\<lparr>updatedAt := ext_now ext, st_harnesses := ?upd\<rparr>)
                  (buildBackupOptions root b (ext_backupTime ext))"
    by (auto simp: harnesses_apply_def Let_def split: sum.splits prod.splits)
  then have "files w' (statePath_of root)
             = Some (ext_stringify ext (state\<lparr>updatedAt := ext_now ext, st_harnesses := ?upd\<rparr>)
                     @ newline)"
    by (auto simp: files_writeState)
  with keep show ?thesis by blast
qed

lemma stale_resolvable:
  assumes g: "find_skill (reg_skills registry) g = None"
    and h: "find_harness (reg_harnesses registry) h = None"
  shows "set (staleTargets (targetSet registry S H) nextTargets)
       \<subseteq> (\<Union>i \<in> set (map sel_id S) - {g}. skill_targets (reg_skills registry) i)
         \<union> (\<Union>i \<in> set (map selh_id H) - {h}. harness_targets (reg_harnesses registry) i)
         \<union> ({''ai/agents.md'', ''ai/ai-manager.json''} - set nextTargets)"
proof -
  have "skill_targets (reg_skills registry) g = {}" using g by (simp add: skill_targets_def)
  moreover have "harness_targets (reg_harnesses registry) h = {}"
    using h by (simp add: harness_targets_def)
  ultimately show ?thesis
    unfolding set_staleTargets targetSet_def set_collectOutputTargets by auto
qed


lemma pathExists_unresolved:
  assumes g: "find_skill (reg_skills registry) g = None"
    and h: "find_harness (reg_harnesses registry) h = None"
    and st: "findManagerState (ext_parse ext) w root = Inr (Some state)"
    and reg: "load_registry ext = Inr registry"
    and p: "pathExists w p"
    and np: "p \<notin> (\<lambda>t. path_join [root, t]) `
               ((\<Union>i \<in> set (map sel_id (st_skills state)) - {g}.
                    skill_targets (reg_skills registry) i)
                \<union> (\<Union>i \<in> set (map selh_id (st_harnesses state)) - {h}.
                      harness_targets (reg_harnesses registry) i))"
  shows "pathExists (snd (runSkillsAddRemove ext w root regRoot act b)) p
       \<and> pathExists (snd (runHarnessesAddRemove ext w root regRoot act b)) p"
proof -
  have sub: "set (staleTargets (targetSet registry (st_skills state) (st_harnesses state))
                    (targetSet registry S2 H2))
           \<subseteq> (\<Union>i \<in> set (map sel_id (st_skills state)) - {g}.
                  skill_targets (reg_skills registry) i)
             \<union> (\<Union>i \<in> set (map selh_id (st_harnesses state)) - {h}.
                   harness_targets (reg_harnesses registry) i)" for S2 H2
  proof -
    have fixed: "{''ai/agents.md'', ''ai/ai-manager.json''} - set (targetSet registry S2 H2) = {}"
      by (simp add: targetSet_def set_collectOutputTargets)
    show ?thesis
      using stale_resolvable [OF g h, of "st_skills state" "st_harnesses state"
          "targetSet registry S2 H2"]
      unfolding fixed by simp
  qed
  have np': "p \<notin> (\<lambda>t. path_join [root, t]) `
               set (staleTargets (targetSet registry (st_skills state) (st_harnesses state))
                      (targetSet registry S2 H2))" for S2 H2
  proof
    assume "p \<in> (\<lambda>t. path_join [root, t]) `
               set (staleTargets (targetSet registry (st_skills state) (st_harnesses state))
                      (targetSet registry S2 H2))"
    with image_mono [OF sub [of S2 H2], of "\<lambda>t. path_join [root, t]"]
    have "p \<in> (\<lambda>t. path_join [root, t]) `
               ((\<Union>i \<in> set (map sel_id (st_skills state)) - {g}.
                    skill_targets (reg_skills registry) i)
                \<union> (\<Union>i \<in> set (map selh_id (st_harnesses state)) - {h}.
                      harness_targets (reg_harnesses registry) i))"
      by (rule subsetD)
    with np show False by (rule notE)
  qed
  have skills: "pathExists (snd (skills_apply ext w root regRoot act b state registry ids)) p"
    for ids
    by (rule pathExists_skills_apply [OF p]) (rule impI, rule np')
  have harnesses: "pathExists (snd (harnesses_apply ext w root regRoot act b state registry ids)) p"
    for ids
    by (rule pathExists_harnesses_apply [OF p]) (rule impI, rule np')
  have "pathExists (snd (runSkillsAddRemove ext w root regRoot act b)) p"
  proof -
    have "snd (runSkillsAddRemove ext w root regRoot act b) = w
        \<or> (\<exists>ids. runSkillsAddRemove ext w root regRoot act b
                     = skills_apply ext w root regRoot act b state registry ids)"
      using st reg by (simp add: runSkillsAddRemove_def Let_def) blast
    then show ?thesis
      by (elim disjE exE) (simp_all add: p skills)
  qed
  moreover have "pathExists (snd (runHarnessesAddRemove ext w root regRoot act b)) p"
  proof -
    have "snd (runHarnessesAddRemove ext w root regRoot act b) = w
        \<or> (\<exists>ids. runHarnessesAddRemove ext w root regRoot act b
                     = harnesses_apply ext w root regRoot act b state registry ids)"
      using st reg by (simp add: runHarnessesAddRemove_def Let_def) blast
    then show ?thesis
      by (elim disjE exE) (simp_all add: p harnesses)
  qed
  ultimately show ?thesis by simp
qed

text \<open>
  Claim C9. Let \<open>g\<close> be a skill id and \<open>h\<close> a harness id with no manifest in the loaded
  registry. Then the target set of a selection is the target set of the selection
  without \<open>g\<close> and \<open>h\<close>; the loops of \<^verbatim>\<open>renderAll\<close> over the selected skills and
  harnesses do what they do without the entries of \<open>g\<close> and \<open>h\<close>, and \<^verbatim>\<open>renderAll\<close> as
  a whole, errors included, does what it does without the entries of \<open>g\<close>; a stale target
  is always a declared target of a manifest that another selected id resolves to, and a
  file that exists before an add or remove operation, at a path that is not the project
  path of a declared target of such a manifest, exists after it;
  neither id is among the choices of a prompt; and an add or remove operation that
  succeeds, the user not having picked the id, writes a state in which the entries of
  the id are the entries the persisted state had.
\<close>

theorem C9_missing_manifest_skip:
  assumes g: "find_skill (reg_skills registry) g = None"
    and h: "find_harness (reg_harnesses registry) h = None"
  shows "collectOutputTargets (reg_skills registry) (reg_harnesses registry) skillIds harnessIds
           = collectOutputTargets (reg_skills registry) (reg_harnesses registry)
               (filter (\<lambda>i. i \<noteq> g) skillIds) (filter (\<lambda>i. i \<noteq> h) harnessIds)
       \<and> render_skills hb projectRoot registryRoot' (reg_skills registry) backup S w created
           = render_skills hb projectRoot registryRoot' (reg_skills registry) backup
               (filter (\<lambda>s. sel_id s \<noteq> g) S) w created
       \<and> render_harnesses hb projectRoot registryRoot' (reg_harnesses registry) backup H w created
           = render_harnesses hb projectRoot registryRoot' (reg_harnesses registry) backup
               (filter (\<lambda>s. selh_id s \<noteq> h) H) w created
       \<and> renderAll hb w projectRoot registryRoot' (reg_skills registry) (reg_harnesses registry)
             S H backup
           = renderAll hb w projectRoot registryRoot' (reg_skills registry) (reg_harnesses registry)
               (filter (\<lambda>s. sel_id s \<noteq> g) S) H backup
       \<and> set (staleTargets (targetSet registry S H) (targetSet registry S2 H2))
           \<subseteq> (\<Union>i \<in> set (map sel_id S) - {g}. skill_targets (reg_skills registry) i)
             \<union> (\<Union>i \<in> set (map selh_id H) - {h}. harness_targets (reg_harnesses registry) i)
       \<and> (findManagerState (ext_parse ext) w projectRoot = Inr (Some state)
            \<and> load_registry ext = Inr registry
            \<and> pathExists w p
            \<and> p \<notin> (\<lambda>t. path_join [projectRoot, t]) `
                    ((\<Union>i \<in> set (map sel_id (st_skills state)) - {g}.
                         skill_targets (reg_skills registry) i)
                     \<union> (\<Union>i \<in> set (map selh_id (st_harnesses state)) - {h}.
                           harness_targets (reg_harnesses registry) i)) \<longrightarrow>
            pathExists (snd (runSkillsAddRemove ext w projectRoot registryRoot' act enableBackup)) p
          \<and> pathExists (snd (runHarnessesAddRemove ext w projectRoot registryRoot' act enableBackup)) p)
       \<and> g \<notin> set (map skill_id (skill_choices registry state act))
       \<and> h \<notin> set (map harness_id (harness_choices registry state act))
       \<and> (g \<notin> set ids
            \<and> skills_apply ext w projectRoot registryRoot' act enableBackup state registry ids
                = (Inr (), w') \<longrightarrow>
            (\<exists>updated.
               files w' (statePath_of projectRoot)
                 = Some (ext_stringify ext
                           (state\<lparr>updatedAt := ext_now ext, st_skills := updated\<rparr>) @ newline)
             \<and> filter (\<lambda>s. sel_id s = g) updated
                 = filter (\<lambda>s. sel_id s = g) (st_skills state)))
       \<and> (h \<notin> set ids
            \<and> harnesses_apply ext w projectRoot registryRoot' act enableBackup state registry ids
                = (Inr (), w') \<longrightarrow>
            (\<exists>updated.
               files w' (statePath_of projectRoot)
                 = Some (ext_stringify ext
                           (state\<lparr>updatedAt := ext_now ext, st_harnesses := updated\<rparr>) @ newline)
             \<and> filter (\<lambda>s. selh_id s = h) updated
                 = filter (\<lambda>s. selh_id s = h) (st_harnesses state)))"
proof -
  have 1: "collectOutputTargets (reg_skills registry) (reg_harnesses registry) skillIds harnessIds
           = collectOutputTargets (reg_skills registry) (reg_harnesses registry)
               (filter (\<lambda>i. i \<noteq> g) skillIds) (filter (\<lambda>i. i \<noteq> h) harnessIds)"
    unfolding collectOutputTargets_def
    using collect_skills_skip [OF g, of "[]" skillIds]
      collect_harnesses_skip [OF h, of _ harnessIds]
    by simp
  have 2: "render_skills hb projectRoot registryRoot' (reg_skills registry) backup S w created
           = render_skills hb projectRoot registryRoot' (reg_skills registry) backup
               (filter (\<lambda>s. sel_id s \<noteq> g) S) w created"
    using skill_jobs_skip [OF g, of registryRoot' S] by (simp add: render_skills_jobs)
  have 3: "render_harnesses hb projectRoot registryRoot' (reg_harnesses registry) backup H w created
           = render_harnesses hb projectRoot registryRoot' (reg_harnesses registry) backup
               (filter (\<lambda>s. selh_id s \<noteq> h) H) w created"
    using harness_jobs_skip [OF h, of registryRoot' H] by (simp add: render_harnesses_jobs)
  have 4: "renderAll hb w projectRoot registryRoot' (reg_skills registry) (reg_harnesses registry)
             S H backup
           = renderAll hb w projectRoot registryRoot' (reg_skills registry) (reg_harnesses registry)
               (filter (\<lambda>s. sel_id s \<noteq> g) S) H backup"
    by (rule renderAll_skip [OF g])
  have fixed: "{''ai/agents.md'', ''ai/ai-manager.json''} - set (targetSet registry S2 H2) = {}"
    by (simp add: targetSet_def set_collectOutputTargets)
  have 5: "set (staleTargets (targetSet registry S H) (targetSet registry S2 H2))
           \<subseteq> (\<Union>i \<in> set (map sel_id S) - {g}. skill_targets (reg_skills registry) i)
             \<union> (\<Union>i \<in> set (map selh_id H) - {h}. harness_targets (reg_harnesses registry) i)"
    using stale_resolvable [OF g h, of S H "targetSet registry S2 H2"] unfolding fixed by simp
  have keep: "(findManagerState (ext_parse ext) w projectRoot = Inr (Some state)
            \<and> load_registry ext = Inr registry
            \<and> pathExists w p
            \<and> p \<notin> (\<lambda>t. path_join [projectRoot, t]) `
                    ((\<Union>i \<in> set (map sel_id (st_skills state)) - {g}.
                         skill_targets (reg_skills registry) i)
                     \<union> (\<Union>i \<in> set (map selh_id (st_harnesses state)) - {h}.
                           harness_targets (reg_harnesses registry) i)) \<longrightarrow>
            pathExists (snd (runSkillsAddRemove ext w projectRoot registryRoot' act enableBackup)) p
          \<and> pathExists (snd (runHarnessesAddRemove ext w projectRoot registryRoot' act enableBackup)) p)"
    by (intro impI; elim conjE; rule pathExists_unresolved [OF g h]; assumption)
  have 6: "g \<notin> set (map skill_id (skill_choices registry state act))"
    using g by (auto simp: skill_choices_def find_skill_None_iff)
  have 7: "h \<notin> set (map harness_id (harness_choices registry state act))"
    using h by (auto simp: harness_choices_def find_harness_None_iff)
  have 8: "g \<notin> set ids
            \<and> skills_apply ext w projectRoot registryRoot' act enableBackup state registry ids
                = (Inr (), w') \<longrightarrow>
            (\<exists>updated.
               files w' (statePath_of projectRoot)
                 = Some (ext_stringify ext
                           (state\<lparr>updatedAt := ext_now ext, st_skills := updated\<rparr>) @ newline)
             \<and> filter (\<lambda>s. sel_id s = g) updated
                 = filter (\<lambda>s. sel_id s = g) (st_skills state))"
    using skills_apply_state [OF _ g] by blast
  have 9: "h \<notin> set ids
            \<and> harnesses_apply ext w projectRoot registryRoot' act enableBackup state registry ids
                = (Inr (), w') \<longrightarrow>
            (\<exists>updated.
               files w' (statePath_of projectRoot)
                 = Some (ext_stringify ext
                           (state\<lparr>updatedAt := ext_now ext, st_harnesses := updated\<rparr>) @ newline)
             \<and> filter (\<lambda>s. selh_id s = h) updated
                 = filter (\<lambda>s. selh_id s = h) (st_harnesses state))"
    using harnesses_apply_state by blast
  show ?thesis
    by (intro conjI 1 2 3 4 5 keep 6 7 8 9)
qed

theorem C9_missing_manifest_skip_witness:
  "find_skill (reg_skills ex_registry) ''legacy'' = None
   \<and> find_harness (reg_harnesses ex_registry) ''windsurf'' = None
   \<and> collectOutputTargets (reg_skills ex_registry) (reg_harnesses ex_registry)
         [''backend'', ''legacy''] [''windsurf'', ''cursor'']
       = [''ai/skills/backend-skill.md'', ''.cursor/rules/ai-manager.mdc'', ''ai/agents.md'',
          ''ai/ai-manager.json'']
   \<and> fst (skills_apply ex_ext ex_world_legacy ''/proj'' ''/reg'' Remove False ex_state_legacy
              ex_registry [''frontend-design'']) = Inr ()
   \<and> removed_paths (events (snd (skills_apply ex_ext ex_world_legacy ''/proj'' ''/reg'' Remove False
              ex_state_legacy ex_registry [''frontend-design''])))
       = [''/proj/ai/skills/frontend-design-skill.md'']
   \<and> files (snd (skills_apply ex_ext ex_world_legacy ''/proj'' ''/reg'' Remove False
              ex_state_legacy ex_registry [''frontend-design'']))
         ''/proj/ai/skills/legacy-skill.md'' = Some ''old legacy''
   \<and> files (snd (skills_apply ex_ext ex_world_legacy ''/proj'' ''/reg'' Remove False
              ex_state_legacy ex_registry [''frontend-design'']))
         ''/proj/ai/ai-manager.json''
       = Some (''created=2025-12-31T00:00:00.000Z updated=2026-01-01T00:00:01.000Z''
               @ '' skills=backend,legacy harnesses=cursor'' @ newline)
   \<and> findManagerState (ext_parse ex_ext_legacy) ex_world_legacy ''/proj''
       = Inr (Some ex_state_legacy)
   \<and> pathExists ex_world_legacy ''/proj/ai/skills/legacy-skill.md''
   \<and> pathExists (snd (runSkillsAddRemove ex_ext_legacy ex_world_legacy ''/proj'' ''/reg'' Remove
                         False))
         ''/proj/ai/skills/legacy-skill.md''"
proof -
  have g: "find_skill (reg_skills ex_registry) ''legacy'' = None"
    by code_simp
  have h: "find_harness (reg_harnesses ex_registry) ''windsurf'' = None"
    by code_simp
  have t: "collectOutputTargets (reg_skills ex_registry) (reg_harnesses ex_registry)
               (filter (\<lambda>i. i \<noteq> ''legacy'') [''backend'', ''legacy''])
               (filter (\<lambda>i. i \<noteq> ''windsurf'') [''windsurf'', ''cursor''])
       = [''ai/skills/backend-skill.md'', ''.cursor/rules/ai-manager.mdc'', ''ai/agents.md'',
          ''ai/ai-manager.json'']"
    by code_simp
  have k1: "findManagerState (ext_parse ex_ext_legacy) ex_world_legacy ''/proj''
       = Inr (Some ex_state_legacy)"
    by code_simp
  have k2: "load_registry ex_ext_legacy = Inr ex_registry"
    by code_simp
  have k3: "pathExists ex_world_legacy ''/proj/ai/skills/legacy-skill.md''"
    by code_simp
  have k4: "''/proj/ai/skills/legacy-skill.md'' \<notin> (\<lambda>t. path_join [''/proj'', t]) `
                    ((\<Union>i \<in> set (map sel_id (st_skills ex_state_legacy)) - {''legacy''}.
                         skill_targets (reg_skills ex_registry) i)
                     \<union> (\<Union>i \<in> set (map selh_id (st_harnesses ex_state_legacy)) - {''windsurf''}.
                           harness_targets (reg_harnesses ex_registry) i))"
    by code_simp
  note inst = C9_missing_manifest_skip [OF g h, where skillIds = "[''backend'', ''legacy'']"
      and harnessIds = "[''windsurf'', ''cursor'']" and ext = ex_ext_legacy
      and w = ex_world_legacy and projectRoot = "''/proj''" and state = ex_state_legacy
      and p = "''/proj/ai/skills/legacy-skill.md''" and registryRoot' = "''/reg''"
      and act = Remove and enableBackup = False]
  have k: "pathExists (snd (runSkillsAddRemove ex_ext_legacy ex_world_legacy ''/proj'' ''/reg'' Remove
                         False))
         ''/proj/ai/skills/legacy-skill.md''"
    by (rule inst [THEN conjunct2, THEN conjunct2, THEN conjunct2, THEN conjunct2,
          THEN conjunct2, THEN conjunct1, THEN mp,
          OF conjI [OF k1 conjI [OF k2 conjI [OF k3 k4]]], THEN conjunct1])
  from inst
  have c: "collectOutputTargets (reg_skills ex_registry) (reg_harnesses ex_registry)
         [''backend'', ''legacy''] [''windsurf'', ''cursor'']
       = collectOutputTargets (reg_skills ex_registry) (reg_harnesses ex_registry)
               (filter (\<lambda>i. i \<noteq> ''legacy'') [''backend'', ''legacy''])
               (filter (\<lambda>i. i \<noteq> ''windsurf'') [''windsurf'', ''cursor''])"
    by blast
  have r: "fst (skills_apply ex_ext ex_world_legacy ''/proj'' ''/reg'' Remove False ex_state_legacy
              ex_registry [''frontend-design'']) = Inr ()"
    by code_simp
  have rm: "removed_paths (events (snd (skills_apply ex_ext ex_world_legacy ''/proj'' ''/reg'' Remove False
              ex_state_legacy ex_registry [''frontend-design''])))
       = [''/proj/ai/skills/frontend-design-skill.md'']"
    by code_simp
  have f: "files (snd (skills_apply ex_ext ex_world_legacy ''/proj'' ''/reg'' Remove False
              ex_state_legacy ex_registry [''frontend-design'']))
         ''/proj/ai/skills/legacy-skill.md'' = Some ''old legacy''"
    by code_simp
  have s: "files (snd (skills_apply ex_ext ex_world_legacy ''/proj'' ''/reg'' Remove False
              ex_state_legacy ex_registry [''frontend-design'']))
         ''/proj/ai/ai-manager.json''
       = Some (''created=2025-12-31T00:00:00.000Z updated=2026-01-01T00:00:01.000Z''
               @ '' skills=backend,legacy harnesses=cursor'' @ newline)"
    by code_simp
  show ?thesis
    using g h c [unfolded t] r rm f s k1 k3 k by blast
qed

text \<open>
  Claim C9 as the specification words it says that a file generated for a selected id
  with no manifest is never removed. The two harnesses of the example both declare
  \<^verbatim>\<open>AGENTS.md\<close>, and the file the reconciliation leaves there is the one rendered for
  \<^verbatim>\<open>opencode\<close>, the later of the two. With \<^verbatim>\<open>opencode\<close> gone from the registry,
  removing \<^verbatim>\<open>codex\<close> succeeds and removes that file, while \<^verbatim>\<open>opencode\<close> stays in the
  persisted selection.
\<close>

theorem C9_shared_target_counterexample:
  "files (snd ex_shared_run) ''/proj/AGENTS.md'' = Some ''opencode:opencode''
   \<and> findManagerState (ext_parse ex_codex_ext) (snd ex_shared_run) ''/proj''
       = Inr (Some ex_shared_state)
   \<and> load_registry ex_codex_ext = Inr \<lparr> reg_skills = [], reg_harnesses = [ex_codex] \<rparr>
   \<and> find_harness [ex_codex] ''opencode'' = None
   \<and> fst (runHarnessesAddRemove ex_codex_ext (snd ex_shared_run) ''/proj'' ''/reg'' Remove False)
       = Inr ()
   \<and> removed_paths
         (events (snd (runHarnessesAddRemove ex_codex_ext (snd ex_shared_run) ''/proj'' ''/reg''
                         Remove False)))
       = [''/proj/AGENTS.md'']
   \<and> files (snd (runHarnessesAddRemove ex_codex_ext (snd ex_shared_run) ''/proj'' ''/reg''
                    Remove False))
         ''/proj/AGENTS.md'' = None
   \<and> files (snd (runHarnessesAddRemove ex_codex_ext (snd ex_shared_run) ''/proj'' ''/reg''
                    Remove False))
         ''/proj/ai/ai-manager.json''
       = Some (''created=2025-12-31T00:00:00.000Z updated=2026-01-01T00:00:01.000Z''
               @ '' skills= harnesses=opencode'' @ newline)"
  by code_simp

section \<open>Idempotence\<close>

lemma writeFileAlways_agree:
  "files w q = files w' q \<Longrightarrow> q \<notin> set (backup_path_of b p) \<Longrightarrow> q \<notin> set (backup_path_of b' p)
   \<Longrightarrow> files (writeFileAlways w p c b) q = files (writeFileAlways w' p c b') q"
  by (cases "q = p") (simp_all add: files_writeFileAlways_target files_writeFileAlways_other)

lemma run_jobs_created:
  "run_jobs hb root b jobs w created = (Inr cs, w1)
   \<Longrightarrow> cs = created @ map (job_target root) jobs"
proof (induction jobs arbitrary: w created)
  case Nil
  then show ?case by simp
next
  case (Cons j jobs)
  obtain out troot ctx where j: "j = (out, troot, ctx)" by (cases j)
  show ?case
  proof (cases "writeRenderedOutput hb w root out troot ctx b")
    case (Pair r w')
    show ?thesis
    proof (cases r)
      case (Inl e)
      with Pair Cons.prems show ?thesis by (simp add: j)
    next
      case (Inr p)
      with Pair have p: "p = path_join [root, target out]"
        by (auto simp: writeRenderedOutput_def Let_def split: sum.splits)
      from Pair Inr Cons.prems have "run_jobs hb root b jobs w' (created @ [p]) = (Inr cs, w1)"
        by (simp add: j)
      from Cons.IH [OF this] show ?thesis by (simp add: j p job_target_def)
    qed
  qed
qed

lemma run_jobs_lockstep:
  assumes "\<forall>q\<in>A. files w q = files w' q"
    and "\<forall>j\<in>set jobs. job_template j \<in> A"
    and "\<forall>j\<in>set jobs. \<forall>q\<in>set (backup_path_of b (job_target root j))
                                 \<union> set (backup_path_of b' (job_target root j)).
            q \<notin> A \<and> q \<notin> job_target root ` set jobs"
  shows "fst (run_jobs hb root b jobs w created) = fst (run_jobs hb root b' jobs w' created)
       \<and> (\<forall>q\<in>A. files (snd (run_jobs hb root b jobs w created)) q
                  = files (snd (run_jobs hb root b' jobs w' created)) q)
       \<and> (\<forall>cs. fst (run_jobs hb root b jobs w created) = Inr cs \<longrightarrow>
            (\<forall>q\<in>job_target root ` set jobs.
               files (snd (run_jobs hb root b jobs w created)) q
                 = files (snd (run_jobs hb root b' jobs w' created)) q))"
  using assms
proof (induction jobs arbitrary: w w' created A)
  case Nil
  then show ?case by simp
next
  case (Cons j jobs)
  obtain out troot ctx where j: "j = (out, troot, ctx)" by (cases j)
  let ?tpl = "path_join [troot, template out]"
  let ?p = "path_join [root, target out]"
  have tpl: "?tpl \<in> A" using Cons.prems(2) by (simp add: j job_template_def)
  then have read: "files w ?tpl = files w' ?tpl" using Cons.prems(1) by blast
  have bk: "\<forall>q\<in>set (backup_path_of b ?p) \<union> set (backup_path_of b' ?p).
              q \<notin> A \<and> q \<noteq> ?p \<and> q \<notin> job_target root ` set jobs"
    using Cons.prems(3) by (simp add: j job_target_def)
  show ?case
  proof (cases "renderTemplateFile hb (files w) ?tpl ctx")
    case (Inl e)
    then have "renderTemplateFile hb (files w') ?tpl ctx = Inl e"
      using read by (simp add: renderTemplateFile_def)
    with Inl show ?thesis
      using Cons.prems(1) by (simp add: j writeRenderedOutput_def Let_def)
  next
    case (Inr c)
    then have r': "renderTemplateFile hb (files w') ?tpl ctx = Inr c"
      using read by (simp add: renderTemplateFile_def)
    let ?w1 = "writeFileAlways w ?p c b"
    let ?w1' = "writeFileAlways w' ?p c b'"
    let ?A' = "insert ?p A"
    have agree: "\<forall>q\<in>?A'. files ?w1 q = files ?w1' q"
    proof
      fix q assume q: "q \<in> ?A'"
      show "files ?w1 q = files ?w1' q"
      proof (cases "q = ?p")
        case True
        then show ?thesis by (simp add: files_writeFileAlways_target)
      next
        case False
        with q have qa: "q \<in> A" by simp
        then have "q \<notin> set (backup_path_of b ?p)" "q \<notin> set (backup_path_of b' ?p)"
          using bk by blast+
        with qa Cons.prems(1) show ?thesis by (intro writeFileAlways_agree) auto
      qed
    qed
    have tpls: "\<forall>j\<in>set jobs. job_template j \<in> ?A'"
      using Cons.prems(2) by simp
    have bks: "\<forall>j\<in>set jobs. \<forall>q\<in>set (backup_path_of b (job_target root j))
                                 \<union> set (backup_path_of b' (job_target root j)).
            q \<notin> ?A' \<and> q \<notin> job_target root ` set jobs"
      using Cons.prems(3) by (auto simp: j job_target_def)
    note IH = Cons.IH [OF agree tpls bks, of "created @ [?p]"]
    have step: "run_jobs hb root b (j # jobs) w created
                  = run_jobs hb root b jobs ?w1 (created @ [?p])"
      "run_jobs hb root b' (j # jobs) w' created
                  = run_jobs hb root b' jobs ?w1' (created @ [?p])"
      using Inr r' by (simp_all add: j writeRenderedOutput_def Let_def)
    have tg: "job_target root ` set (j # jobs) = insert ?p (job_target root ` set jobs)"
      by (simp add: j job_target_def)
    show ?thesis
      unfolding step tg using IH by blast
  qed
qed

lemma renderTemplateFile_agree:
  "fs p = fs' p \<Longrightarrow> renderTemplateFile hb fs p ctx = renderTemplateFile hb fs' p ctx"
  by (simp add: renderTemplateFile_def)

lemma buildAgentsMarkdown_agree:
  assumes "\<forall>p\<in>set (agents_templates input). fs p = fs' p"
  shows "buildAgentsMarkdown hb fs input = buildAgentsMarkdown hb fs' input"
proof -
  have base: "fs (path_join [registryRoot input, ''templates'', ''agents.base.md.hbs''])
            = fs' (path_join [registryRoot input, ''templates'', ''agents.base.md.hbs''])"
    using assms by (simp add: agents_templates_def)
  have snip: "render_snippet hb fs input skill = render_snippet hb fs' input skill"
    if "skill \<in> set (selectedSkills_of input)" for skill
    unfolding render_snippet_def
    using assms that by (intro renderTemplateFile_agree) (auto simp: agents_templates_def)
  have act: "render_activationRules hb fs input skill = render_activationRules hb fs' input skill"
    if "skill \<in> set (filter has_activationRules (selectedSkills_of input))" for skill
    unfolding render_activationRules_def
    using assms that by (intro renderTemplateFile_agree) (auto simp: agents_templates_def)
  have m1: "map_result (render_snippet hb fs input) (guideSkills_of input)
          = map_result (render_snippet hb fs' input) (guideSkills_of input)"
    by (intro map_result_cong snip) (simp add: guideSkills_of_def)
  have m2: "map_result (render_activationRules hb fs input)
              (filter has_activationRules (selectedSkills_of input))
          = map_result (render_activationRules hb fs' input)
              (filter has_activationRules (selectedSkills_of input))"
    by (intro map_result_cong act)
  have plan: "render_planSection hb fs input = render_planSection hb fs' input"
  proof (cases "List.find (\<lambda>skill. skill_id skill = ''planner'') (selectedSkills_of input)")
    case None
    then show ?thesis by (simp add: render_planSection_def)
  next
    case (Some plannerSkill)
    then have "plannerSkill \<in> set (selectedSkills_of input)"
      by (auto simp: find_Some_iff)
    then have "fs (path_join [registryRoot input, ''skills'', skill_id plannerSkill,
                              agentsSnippetTemplate plannerSkill])
             = fs' (path_join [registryRoot input, ''skills'', skill_id plannerSkill,
                               agentsSnippetTemplate plannerSkill])"
      using assms by (auto simp: agents_templates_def)
    with Some show ?thesis
      by (simp add: render_planSection_def renderTemplateFile_def)
  qed
  have "buildTemplateContext hb fs input = buildTemplateContext hb fs' input"
    by (simp only: buildTemplateContext_def m1 m2 plan)
  then show ?thesis
    using base by (simp add: buildAgentsMarkdown_def renderTemplateFile_def cong: sum.case_cong)
qed


text \<open>
  Claim C3, as amended. Suppose that the templates stay the same, no template the
  reconciliation reads being a file it writes (a target, the state file, or the backup
  copy of one of them under the backup options of either run), and that no backup copy
  lands on a target or on the state file. If a first reconciliation succeeds, then a
  second one, started in the file system the first one left, with the same registry,
  selection, answers and state and at a later time, succeeds with the same list of target
  files; every target file other than the state file has the contents the first run gave
  it; and the state file holds the same state but for \<^verbatim>\<open>updatedAt\<close>, the time of
  the run.
\<close>

theorem C3_idempotence:
  assumes tpl: "set (template_reads projectRoot registryRoot' registry state)
                  \<inter> set (statePath_of projectRoot
                          # write_targets projectRoot registryRoot' registry state) = {}"
    and bak: "\<forall>p\<in>set (statePath_of projectRoot
                        # write_targets projectRoot registryRoot' registry state).
                \<forall>q\<in>set (backup_path_of backup1 p) \<union> set (backup_path_of backup2 p).
                  q \<notin> set (template_reads projectRoot registryRoot' registry state)
                  \<and> q \<notin> set (statePath_of projectRoot
                               # write_targets projectRoot registryRoot' registry state)"
    and run1: "reconcile hb stringify w projectRoot registryRoot' registry state backup1 now1
                 = (Inr created, w1)"
  shows "fst (reconcile hb stringify w1 projectRoot registryRoot' registry state backup2 now2)
           = Inr created
       \<and> created = write_targets projectRoot registryRoot' registry state
       \<and> (\<forall>p\<in>set created. p \<noteq> statePath_of projectRoot \<longrightarrow>
            files (snd (reconcile hb stringify w1 projectRoot registryRoot' registry state
                          backup2 now2)) p
              = files w1 p)
       \<and> files w1 (statePath_of projectRoot)
           = Some (stringify (state\<lparr>updatedAt := now1\<rparr>) @ newline)
       \<and> files (snd (reconcile hb stringify w1 projectRoot registryRoot' registry state
                        backup2 now2)) (statePath_of projectRoot)
           = Some (stringify (state\<lparr>updatedAt := now2\<rparr>) @ newline)"
proof -
  let ?T = "set (template_reads projectRoot registryRoot' registry state)"
  let ?sp = "statePath_of projectRoot"
  let ?W = "write_targets projectRoot registryRoot' registry state"
  let ?input = "agentsInput projectRoot registryRoot' (reg_skills registry)
                  (st_skills state) (st_harnesses state)"
  let ?jobs = "skill_jobs registryRoot' (reg_skills registry) (st_skills state)
               @ harness_jobs registryRoot' (reg_harnesses registry) (st_harnesses state)"
  let ?render = "\<lambda>w b. renderAll hb w projectRoot registryRoot' (reg_skills registry)
                   (reg_harnesses registry) (st_skills state) (st_harnesses state) b"
  \<comment> \<open>the first run\<close>
  from run1 obtain w_end where
    ra: "?render w backup1 = (Inr created, w_end)"
    and w1: "w1 = writeState stringify w_end projectRoot (state\<lparr>updatedAt := now1\<rparr>) backup1"
    by (cases "?render w backup1")
       (auto simp: reconcile_def split: sum.splits)
  from ra obtain c where
    c: "buildAgentsMarkdown hb (files w) ?input = Inr c"
    and rj: "run_jobs hb projectRoot backup1
               ((agentsOutput, registryRoot', ContentContext c) # ?jobs) w []
             = (Inr created, w_end)"
    by (cases "buildAgentsMarkdown hb (files w) ?input")
       (auto simp: renderAll_jobs simp del: run_jobs.simps)
  let ?J = "(agentsOutput, registryRoot', ContentContext c) # ?jobs"
  have targets: "map (job_target projectRoot) ?J = ?W"
    by (simp add: write_targets_def job_target_def agentsPath_of_eq)
  then have tset: "job_target projectRoot ` set ?J = set ?W"
    by (metis set_map)
  have created: "created = ?W"
    using run_jobs_created [OF rj] targets by simp
  have templates: "\<forall>j\<in>set ?J. job_template j \<in> ?T"
  proof
    fix j assume "j \<in> set ?J"
    then consider "j = (agentsOutput, registryRoot', ContentContext c)" | "j \<in> set ?jobs"
      by auto
    then show "job_template j \<in> ?T"
    proof cases
      case 1
      then show ?thesis by (simp add: template_reads_def job_template_def)
    next
      case 2
      then have "job_template j \<in> job_template ` set ?jobs" by (rule imageI)
      then show ?thesis unfolding template_reads_def by (auto simp: image_Un)
    qed
  qed
  have agents_in: "set (agents_templates ?input) \<subseteq> ?T"
    by (auto simp: template_reads_def)
  \<comment> \<open>the first run leaves the templates as they were\<close>
  have frame1: "files w_end q = files w q" if "q \<in> ?T" for q
  proof -
    have "\<forall>j\<in>set ?J. q \<noteq> job_target projectRoot j
            \<and> q \<notin> set (backup_path_of backup1 (job_target projectRoot j))"
    proof
      fix j assume "j \<in> set ?J"
      then have "job_target projectRoot j \<in> set (?sp # ?W)" using tset by auto
      with tpl bak that show "q \<noteq> job_target projectRoot j
            \<and> q \<notin> set (backup_path_of backup1 (job_target projectRoot j))"
        by blast
    qed
    from run_jobs_frame [OF this, of hb w "[]"] rj show ?thesis by simp
  qed
  have state_frame: "files (writeState stringify v projectRoot st b) q = files v q"
    if "q \<in> ?T \<union> (set ?W - {?sp})" "b = backup1 \<or> b = backup2" for v st b q
  proof -
    have "q \<noteq> ?sp" using tpl that by auto
    moreover have "q \<notin> set (backup_path_of b ?sp)" using bak tpl that by auto
    ultimately show ?thesis by (rule files_writeState_other)
  qed
  have agree0: "\<forall>q\<in>?T. files w q = files w1 q"
    using frame1 state_frame by (simp add: w1)
  \<comment> \<open>the second run\<close>
  have "\<forall>p\<in>set (agents_templates ?input). files w p = files w1 p"
    using agents_in agree0 by blast
  from buildAgentsMarkdown_agree [OF this, of hb]
  have c2: "buildAgentsMarkdown hb (files w1) ?input = Inr c"
    using c by simp
  have bks: "\<forall>j\<in>set ?J. \<forall>q\<in>set (backup_path_of backup1 (job_target projectRoot j))
                                 \<union> set (backup_path_of backup2 (job_target projectRoot j)).
            q \<notin> ?T \<and> q \<notin> job_target projectRoot ` set ?J"
  proof
    fix j assume "j \<in> set ?J"
    then have "job_target projectRoot j \<in> set (?sp # ?W)" using tset by auto
    with bak show "\<forall>q\<in>set (backup_path_of backup1 (job_target projectRoot j))
                                 \<union> set (backup_path_of backup2 (job_target projectRoot j)).
            q \<notin> ?T \<and> q \<notin> job_target projectRoot ` set ?J"
      unfolding tset by auto
  qed
  note lock = run_jobs_lockstep [OF agree0 templates bks, of hb "[]"]
  let ?w2_end = "snd (run_jobs hb projectRoot backup2 ?J w1 [])"
  have rj2: "run_jobs hb projectRoot backup2 ?J w1 [] = (Inr created, ?w2_end)"
    using lock rj by (metis fst_conv prod.collapse)
  have same: "files w_end q = files ?w2_end q" if "q \<in> set ?W" for q
    using lock rj that unfolding tset by (metis fst_conv snd_conv)
  have ra2: "?render w1 backup2 = (Inr created, ?w2_end)"
    using c2 rj2 by (simp add: renderAll_jobs del: run_jobs.simps)
  let ?w2 = "writeState stringify ?w2_end projectRoot (state\<lparr>updatedAt := now2\<rparr>) backup2"
  have rec2: "reconcile hb stringify w1 projectRoot registryRoot' registry state backup2 now2
                = (Inr created, ?w2)"
    using ra2 by (simp add: reconcile_def)
  have files_same: "files ?w2 p = files w1 p" if "p \<in> set created" "p \<noteq> ?sp" for p
  proof -
    have p: "p \<in> ?T \<union> (set ?W - {?sp})" using that created by simp
    have "files ?w2 p = files ?w2_end p" using state_frame [OF p] by simp
    also have "\<dots> = files w_end p" using same that created by simp
    also have "\<dots> = files w1 p" unfolding w1 using state_frame [OF p] by simp
    finally show ?thesis .
  qed
  have s1: "files w1 ?sp = Some (stringify (state\<lparr>updatedAt := now1\<rparr>) @ newline)"
    by (simp add: w1 files_writeState)
  have s2: "files ?w2 ?sp = Some (stringify (state\<lparr>updatedAt := now2\<rparr>) @ newline)"
    by (simp add: files_writeState)
  show ?thesis
    unfolding rec2 using created files_same s1 s2 by simp
qed

theorem C3_idempotence_witness:
  "fst ex_run1
     = Inr [''/proj/ai/agents.md'', ''/proj/ai/skills/backend-skill.md'',
            ''/proj/ai/skills/frontend-design-skill.md'', ''/proj/.cursor/rules/ai-manager.mdc'']
   \<and> fst ex_run2 = fst ex_run1
   \<and> files (snd ex_run2) ''/proj/ai/agents.md'' = files (snd ex_run1) ''/proj/ai/agents.md''
   \<and> files (snd ex_run2) ''/proj/ai/skills/backend-skill.md'' = Some ''skill-backend''
   \<and> files (snd ex_run1) ''/proj/ai/ai-manager.json''
       = Some (''created=2025-12-31T00:00:00.000Z updated=2026-01-01T00:00:01.000Z''
               @ '' skills=backend,frontend-design harnesses=cursor'' @ newline)
   \<and> files (snd ex_run2) ''/proj/ai/ai-manager.json''
       = Some (''created=2025-12-31T00:00:00.000Z updated=2026-01-01T00:01:01.000Z''
               @ '' skills=backend,frontend-design harnesses=cursor'' @ newline)"
proof -
  let ?created = "[''/proj/ai/agents.md'', ''/proj/ai/skills/backend-skill.md'',
            ''/proj/ai/skills/frontend-design-skill.md'', ''/proj/.cursor/rules/ai-manager.mdc'']"
  have tpl: "set (template_reads ''/proj'' ''/reg'' ex_registry ex_state)
                  \<inter> set (statePath_of ''/proj''
                          # write_targets ''/proj'' ''/reg'' ex_registry ex_state) = {}"
    by code_simp
  have bak: "\<forall>p\<in>set (statePath_of ''/proj''
                        # write_targets ''/proj'' ''/reg'' ex_registry ex_state).
                \<forall>q\<in>set (backup_path_of ex_backup1 p) \<union> set (backup_path_of ex_backup2 p).
                  q \<notin> set (template_reads ''/proj'' ''/reg'' ex_registry ex_state)
                  \<and> q \<notin> set (statePath_of ''/proj''
                               # write_targets ''/proj'' ''/reg'' ex_registry ex_state)"
    by code_simp
  have f1: "fst ex_run1 = Inr ?created"
    by code_simp
  then have run1: "reconcile ex_hb ex_stringify ex_world ''/proj'' ''/reg'' ex_registry ex_state
               ex_backup1 ''2026-01-01T00:00:01.000Z'' = (Inr ?created, snd ex_run1)"
    unfolding ex_run1_def by (metis prod.collapse)
  note c = C3_idempotence [OF tpl bak run1, of "''2026-01-01T00:01:01.000Z''",
      folded ex_run2_def]
  have sp: "statePath_of ''/proj'' = ''/proj/ai/ai-manager.json''"
    by code_simp
  have ne: "''/proj/ai/agents.md'' \<noteq> statePath_of ''/proj''"
    "''/proj/ai/skills/backend-skill.md'' \<noteq> statePath_of ''/proj''"
    unfolding sp by simp_all
  have b1: "files (snd ex_run1) ''/proj/ai/skills/backend-skill.md'' = Some ''skill-backend''"
    by code_simp
  from c have f2: "fst ex_run2 = Inr ?created" by blast
  from c ne have a: "files (snd ex_run2) ''/proj/ai/agents.md''
                    = files (snd ex_run1) ''/proj/ai/agents.md''"
    and b: "files (snd ex_run2) ''/proj/ai/skills/backend-skill.md''
                    = files (snd ex_run1) ''/proj/ai/skills/backend-skill.md''"
    by auto
  have n: "ex_stringify (ex_state\<lparr>updatedAt := ''2026-01-01T00:00:01.000Z''\<rparr>)
           = ''created=2025-12-31T00:00:00.000Z updated=2026-01-01T00:00:01.000Z''
               @ '' skills=backend,frontend-design harnesses=cursor''"
    "ex_stringify (ex_state\<lparr>updatedAt := ''2026-01-01T00:01:01.000Z''\<rparr>)
           = ''created=2025-12-31T00:00:00.000Z updated=2026-01-01T00:01:01.000Z''
               @ '' skills=backend,frontend-design harnesses=cursor''"
    by code_simp+
  from c have s1: "files (snd ex_run1) ''/proj/ai/ai-manager.json''
       = Some (ex_stringify (ex_state\<lparr>updatedAt := ''2026-01-01T00:00:01.000Z''\<rparr>) @ newline)"
    and s2: "files (snd ex_run2) ''/proj/ai/ai-manager.json''
       = Some (ex_stringify (ex_state\<lparr>updatedAt := ''2026-01-01T00:01:01.000Z''\<rparr>) @ newline)"
    unfolding sp by blast+
  show ?thesis
    using f1 f2 a b b1 s1 [unfolded n] s2 [unfolded n] by simp
qed

text \<open>
  Without the second supposition the claim fails: the second run, with backups, copies
  the skill file of the first run onto the other target of the skill, which then holds
  other bytes than the first run gave it.
\<close>

theorem C3_backup_clash_counterexample:
  "fst ex_clash_run1
     = Inr [''/proj/ai/agents.md'',
            ''/proj/ai/.backups/2026-01-01T00-01-00-000Z/proj/ai/skills/backend-skill.md'',
            ''/proj/ai/skills/backend-skill.md'']
   \<and> fst ex_clash_run2 = fst ex_clash_run1
   \<and> files (snd ex_clash_run1)
         ''/proj/ai/.backups/2026-01-01T00-01-00-000Z/proj/ai/skills/backend-skill.md''
       = Some ''guide-backend''
   \<and> files (snd ex_clash_run2)
         ''/proj/ai/.backups/2026-01-01T00-01-00-000Z/proj/ai/skills/backend-skill.md''
       = Some ''skill-backend''
   \<and> files (snd ex_clash_run2)
         ''/proj/ai/.backups/2026-01-01T00-01-00-000Z/proj/ai/skills/backend-skill.md''
       \<noteq> files (snd ex_clash_run1)
           ''/proj/ai/.backups/2026-01-01T00-01-00-000Z/proj/ai/skills/backend-skill.md''"
  by code_simp

end
